theory Spec2Isabelle
  imports Main
begin

unbundle bit_operations_syntax

section \<open>JavaScript values and operators\<close>

text \<open>
  The simulator is written in JavaScript.  Every number the interpreter handles is an
  integer (bytes, addresses, sums of a few bytes), so a number is modelled as an
  unbounded \<open>int\<close>; the two other values that reach registers and memory cells are
  \<open>undefined\<close> (a cell of \<open>new Array(65536)\<close> that was never written) and \<open>NaN\<close>
  (arithmetic on \<open>undefined\<close>).
\<close>

datatype jsval = Undefined | NaN | Num int

text \<open>The conversions the bitwise operators apply to their operands.\<close>

definition ToInt32 :: "jsval \<Rightarrow> int" where
  "ToInt32 v = (case v of Num n \<Rightarrow> signed_take_bit 31 n | _ \<Rightarrow> 0)"

definition ToUint32 :: "jsval \<Rightarrow> int" where
  "ToUint32 v = (case v of Num n \<Rightarrow> take_bit 32 n | _ \<Rightarrow> 0)"

definition js_and :: "jsval \<Rightarrow> jsval \<Rightarrow> jsval" where
  "js_and a b = Num (ToInt32 a AND ToInt32 b)"

definition js_or :: "jsval \<Rightarrow> jsval \<Rightarrow> jsval" where
  "js_or a b = Num (ToInt32 a OR ToInt32 b)"

definition js_xor :: "jsval \<Rightarrow> jsval \<Rightarrow> jsval" where
  "js_xor a b = Num (ToInt32 a XOR ToInt32 b)"

definition js_not :: "jsval \<Rightarrow> jsval" where
  "js_not a = Num (NOT (ToInt32 a))"

text \<open>\<open>a << k\<close>, \<open>a >> k\<close> and \<open>a >>> k\<close> for a literal shift count \<open>k < 32\<close>.\<close>

definition js_shl :: "jsval \<Rightarrow> nat \<Rightarrow> jsval" where
  "js_shl a k = Num (signed_take_bit 31 (push_bit k (ToInt32 a)))"

definition js_sar :: "jsval \<Rightarrow> nat \<Rightarrow> jsval" where
  "js_sar a k = Num (drop_bit k (ToInt32 a))"

definition js_shr :: "jsval \<Rightarrow> nat \<Rightarrow> jsval" where
  "js_shr a k = Num (drop_bit k (ToUint32 a))"

text \<open>Numeric \<open>+\<close>, \<open>-\<close> and unary minus: \<open>undefined\<close> converts to \<open>NaN\<close>.\<close>

fun js_add :: "jsval \<Rightarrow> jsval \<Rightarrow> jsval" where
  "js_add (Num a) (Num b) = Num (a + b)"
| "js_add _ _ = NaN"

fun js_sub :: "jsval \<Rightarrow> jsval \<Rightarrow> jsval" where
  "js_sub (Num a) (Num b) = Num (a - b)"
| "js_sub _ _ = NaN"

fun js_neg :: "jsval \<Rightarrow> jsval" where
  "js_neg (Num a) = Num (- a)"
| "js_neg _ = NaN"

text \<open>Relational operators: any comparison with \<open>NaN\<close> or \<open>undefined\<close> is false.\<close>

fun js_lt :: "jsval \<Rightarrow> jsval \<Rightarrow> bool" where
  "js_lt (Num a) (Num b) = (a < b)"
| "js_lt _ _ = False"

fun js_gt :: "jsval \<Rightarrow> jsval \<Rightarrow> bool" where
  "js_gt (Num a) (Num b) = (a > b)"
| "js_gt _ _ = False"

fun js_ge :: "jsval \<Rightarrow> jsval \<Rightarrow> bool" where
  "js_ge (Num a) (Num b) = (a \<ge> b)"
| "js_ge _ _ = False"

text \<open>Truthiness of a value used as a condition, and the global \<open>isNaN\<close>.\<close>

fun truthy :: "jsval \<Rightarrow> bool" where
  "truthy (Num n) = (n \<noteq> 0)"
| "truthy _ = False"

fun isNaN :: "jsval \<Rightarrow> bool" where
  "isNaN (Num n) = False"
| "isNaN _ = True"

section \<open>The simulator's state\<close>

text \<open>
  What the simulator writes to its collaborators (canvas, beeper, output box, status
  window) is kept as a trace.
\<close>

datatype status_msg =
    ProgramHalted
  | InvalidInstruction jsval jsval
  | MaskableMouseDown
  | MaskableKeyDown
  | StoppedExecution
  | StartingAt jsval

datatype io_event =
    DrawPixel jsval jsval jsval
  | ClearScreen
  | Beep
  | OutputChar jsval
  | OutputBr
  | Status status_msg
  | StatusError status_msg
  | ClearOutput

text \<open>
  \<open>instructionTimer\<close> is \<open>null\<close>, \<open>false\<close> (after \<open>WAI\<close>) or the handle of a running
  \<open>setInterval(doInstruction, interval)\<close>.
\<close>

datatype timer = TimerNull | TimerFalse | TimerInterval

text \<open>
  The global variable \<open>memory\<close> is created as \<open>new memoryObj()\<close>; the \<open>BRK\<close> arm of
  \<open>executeInstruction\<close> assigns a number to it.
\<close>

datatype memory_binding = MemoryObject | MemoryPrimitive jsval

text \<open>
  The global objects \<open>MPU\<close> (\<open>A\<close>, \<open>X\<close>, \<open>Y\<close>), \<open>stack\<close> (\<open>SP\<close>), \<open>P\<close> (\<open>flags\<close>) and the
  memory object (\<open>mem\<close>, its \<open>length\<close>, \<open>PC\<close>), with the other globals the interpreter
  reads or writes.  The array \<open>mem\<close> is a JavaScript object: any value can be used as a
  property key, and a key never written reads as \<open>undefined\<close>.

  \<open>timeouts\<close> counts the \<open>setTimeout\<close> callbacks of \<open>brkInterrupt\<close> that have not run
  yet.  The two checkboxes of the page are \<open>keymaskableinterrupt\<close> and
  \<open>mousemaskableinterrupt\<close>.  What the host will answer is part of the state as well:
  \<open>randoms\<close> is the sequence of values \<open>Math.floor(Math.random() * 255)\<close> will take and
  \<open>replies\<close> the sequence of answers to \<open>prompt\<close>, each with the count of calls so far.
  \<open>executionIterations\<close> is what \<open>parseInt\<close> gives for the value of the page's field of
  that name.
\<close>

record state =
  MPU_A :: jsval
  MPU_X :: jsval
  MPU_Y :: jsval
  SP :: jsval
  flags :: jsval
  mem :: "jsval \<Rightarrow> jsval"
  mem_length :: int
  PC :: jsval
  memory :: memory_binding
  debugOn :: bool
  programExecuting :: bool
  instructionTimer :: timer
  timeouts :: nat
  keymaskableinterrupt :: bool
  mousemaskableinterrupt :: bool
  input :: "int list"
  io :: "io_event list"
  randoms :: "nat \<Rightarrow> int"
  random_calls :: nat
  replies :: "nat \<Rightarrow> int list option"
  prompt_calls :: nat
  executionIterations :: jsval

section \<open>PObj: the processor status flags\<close>

definition P_reset :: "state \<Rightarrow> state" where
  "P_reset s = s\<lparr>flags := Num 36\<rparr>"

definition setBit :: "int \<Rightarrow> state \<Rightarrow> state" where
  "setBit v s =
     (if v < 0 \<or> v > 7 then s
      else s\<lparr>flags := js_or (flags s) (Num (2 ^ nat v))\<rparr>)"

definition clearBit :: "int \<Rightarrow> state \<Rightarrow> state" where
  "clearBit v s =
     (if v < 0 \<or> v > 7 then s
      else s\<lparr>flags := js_and (flags s) (js_not (Num (2 ^ nat v)))\<rparr>)"

definition setFlagsTo :: "jsval \<Rightarrow> state \<Rightarrow> state" where
  "setFlagsTo v s = s\<lparr>flags := v\<rparr>"

definition getFlags :: "state \<Rightarrow> jsval" where
  "getFlags s = flags s"

text \<open>
  \<open>setZN\<close> evaluates the N half, then the Z half; each half assigns \<open>flags\<close>.
\<close>

definition setZN :: "jsval \<Rightarrow> state \<Rightarrow> state" where
  "setZN v s =
     (let s1 = (if js_gt (js_and v (Num 0x80)) (Num 0)
                then s\<lparr>flags := js_or (flags s) (Num 0xa0)\<rparr>
                else s\<lparr>flags := js_and (flags s) (Num 0x7f)\<rparr>)
      in if v = Num 0
         then s1\<lparr>flags := js_or (flags s1) (Num 0x02)\<rparr>
         else s1\<lparr>flags := js_and (flags s1) (Num 0xfd)\<rparr>)"

text \<open>The getters \<open>P.C\<close>, \<open>P.Z\<close>, ... : \<open>(this.flags & m) > 0\<close>.\<close>

definition flag_get :: "int \<Rightarrow> state \<Rightarrow> bool" where
  "flag_get m s = js_gt (js_and (flags s) (Num m)) (Num 0)"

definition P_C :: "state \<Rightarrow> bool" where "P_C = flag_get 1"
definition P_Z :: "state \<Rightarrow> bool" where "P_Z = flag_get 2"
definition P_I :: "state \<Rightarrow> bool" where "P_I = flag_get 4"
definition P_D :: "state \<Rightarrow> bool" where "P_D = flag_get 8"
definition P_B :: "state \<Rightarrow> bool" where "P_B = flag_get 16"
definition P_V :: "state \<Rightarrow> bool" where "P_V = flag_get 64"
definition P_N :: "state \<Rightarrow> bool" where "P_N = flag_get 128"

text \<open>
  The setters \<open>P.C = v\<close>, ... : \<open>flags |= m\<close> when \<open>v\<close> is truthy, otherwise
  \<open>flags = (flags & (~m) | 32)\<close>.
\<close>

definition flag_set :: "int \<Rightarrow> bool \<Rightarrow> state \<Rightarrow> state" where
  "flag_set m v s =
     (if v then s\<lparr>flags := js_or (flags s) (Num m)\<rparr>
      else s\<lparr>flags := js_or (js_and (flags s) (js_not (Num m))) (Num 32)\<rparr>)"

definition set_C :: "bool \<Rightarrow> state \<Rightarrow> state" where "set_C = flag_set 1"
definition set_Z :: "bool \<Rightarrow> state \<Rightarrow> state" where "set_Z = flag_set 2"
definition set_I :: "bool \<Rightarrow> state \<Rightarrow> state" where "set_I = flag_set 4"
definition set_D :: "bool \<Rightarrow> state \<Rightarrow> state" where "set_D = flag_set 8"
definition set_B :: "bool \<Rightarrow> state \<Rightarrow> state" where "set_B = flag_set 16"
definition set_V :: "bool \<Rightarrow> state \<Rightarrow> state" where "set_V = flag_set 64"
definition set_N :: "bool \<Rightarrow> state \<Rightarrow> state" where "set_N = flag_set 128"

text \<open>Bit 5 of the status byte, read the way the getters read a flag.\<close>

definition bit5 :: "state \<Rightarrow> bool" where
  "bit5 = flag_get 32"

section \<open>memoryObj: the 64 KiB memory and its mapped devices\<close>

text \<open>\<open>mem[addr] = v\<close>: an index at or past \<open>length\<close> extends the array.\<close>

definition array_store :: "jsval \<Rightarrow> jsval \<Rightarrow> state \<Rightarrow> state" where
  "array_store addr v s =
     s\<lparr>mem := (mem s)(addr := v),
       mem_length := (case addr of
                        Num n \<Rightarrow> if 0 \<le> n \<and> n < 4294967295
                                 then max (mem_length s) (n + 1) else mem_length s
                      | _ \<Rightarrow> mem_length s)\<rparr>"

definition read :: "jsval \<Rightarrow> state \<Rightarrow> jsval" where
  "read addr s = mem s addr"

definition readWord :: "jsval \<Rightarrow> state \<Rightarrow> jsval" where
  "readWord addr s = js_or (mem s addr) (js_shl (mem s (js_add addr (Num 1))) 8)"

text \<open>
  \<open>writeByte(v, addr)\<close>.  With \<open>addr\<close> undefined the byte goes to \<open>PC\<close>, which is then
  incremented; a value that is not a number is stored as it is, with no device effect;
  a non-zero write to \<open>$06B0\<close> or \<open>$06B1\<close> triggers the device and writes 0 back through
  \<open>writeByte\<close> itself.
\<close>

function writeByte :: "jsval \<Rightarrow> jsval \<Rightarrow> state \<Rightarrow> state" where
  "writeByte v addr0 s0 =
     (let addr = (if addr0 = Undefined then PC s0 else addr0);
          s1 = (if addr0 = Undefined then s0\<lparr>PC := js_add (PC s0) (Num 1)\<rparr> else s0)
      in if isNaN v then array_store addr v s1
         else
           let s2 = array_store addr (js_and v (Num 0xff)) s1;
               s3 = (if js_gt addr (Num 0x1ff) \<and> js_lt addr (Num 0x6b0)
                     then s2\<lparr>io := io s2 @
                            [DrawPixel (case js_sub addr (Num 512) of Num d \<Rightarrow> Num (d mod 40) | w \<Rightarrow> w)
                                       (case js_sub addr (Num 512) of Num d \<Rightarrow> Num (d div 40) | w \<Rightarrow> w)
                                       (read addr s2)]\<rparr>
                     else s2);
               s4 = (if addr = Num 0x6b0 \<and> js_gt v (Num 0)
                     then writeByte (Num 0) addr (s3\<lparr>io := io s3 @ [ClearScreen]\<rparr>)
                     else s3);
               s5 = (if addr = Num 0x6b1 \<and> js_gt v (Num 0)
                     then writeByte (Num 0) addr (s4\<lparr>io := io s4 @ [Beep]\<rparr>)
                     else s4)
           in s5)"
  by pat_completeness auto
termination
  by (relation "measure (\<lambda>(v, addr, s). if js_gt v (Num 0) then 1 else 0)") auto

declare writeByte.simps [simp del]

section \<open>stackObj: the stack page \<open>$0100\<close>-\<open>$01FF\<close>\<close>

definition push :: "jsval \<Rightarrow> state \<Rightarrow> state" where
  "push val s =
     (let s1 = writeByte val (js_add (Num 0x100) (SP s)) s;
          s2 = s1\<lparr>SP := js_sub (SP s1) (Num 1)\<rparr>
      in if js_lt (SP s2) (Num 0) then s2\<lparr>SP := Num 0xff\<rparr> else s2)"

definition pull :: "state \<Rightarrow> jsval \<times> state" where
  "pull s =
     (let s1 = s\<lparr>SP := js_add (SP s) (Num 1)\<rparr>;
          s2 = (if js_gt (SP s1) (Num 0xff) then s1\<lparr>SP := Num 0\<rparr> else s1)
      in (read (js_add (Num 0x100) (SP s2)) s2, s2))"

definition stack_reset :: "state \<Rightarrow> state" where
  "stack_reset s = s\<lparr>SP := Num 0xff\<rparr>"

definition MPU_reset :: "state \<Rightarrow> state" where
  "MPU_reset s = s\<lparr>MPU_A := Num 0, MPU_X := Num 0, MPU_Y := Num 0\<rparr>"

section \<open>The interpreter: helpers shared by the arms of \<open>executeInstruction\<close>\<close>

text \<open>
  \<open>getTwosComplement(v)\<close>: \<open>if (v & 128) return -(((~v) & 0xff) + 1); else return v;\<close>
\<close>

definition getTwosComplement :: "jsval \<Rightarrow> jsval" where
  "getTwosComplement v =
     (if truthy (js_and v (Num 128))
      then js_neg (js_add (js_and (js_not v) (Num 0xff)) (Num 1))
      else v)"

text \<open>\<open>bcd(b)\<close>: \<open>(b & 15) + (((b >>> 4) & 15) * 10)\<close>.\<close>

definition bcd :: "jsval \<Rightarrow> jsval" where
  "bcd b = js_add (js_and b (Num 15))
                  (Num (ToInt32 (js_and (js_shr b 4) (Num 15)) * 10))"

text \<open>
  The operand expressions that the arms repeat:
  \<open>memory.read(memory.PC + 1)\<close>,
  \<open>(memory.read(memory.PC + 1) + MPU.X) & 255\<close> (and with \<open>MPU.Y\<close>),
  \<open>memory.readWord(memory.PC + 1)\<close> and
  \<open>(memory.readWord(memory.PC + 1) + MPU.X) & 65535\<close> (and with \<open>MPU.Y\<close>).
\<close>

definition operand :: "state \<Rightarrow> jsval" where
  "operand s = read (js_add (PC s) (Num 1)) s"

definition ZeroPageX :: "state \<Rightarrow> jsval" where
  "ZeroPageX s = js_and (js_add (read (js_add (PC s) (Num 1)) s) (MPU_X s)) (Num 255)"

definition ZeroPageY :: "state \<Rightarrow> jsval" where
  "ZeroPageY s = js_and (js_add (read (js_add (PC s) (Num 1)) s) (MPU_Y s)) (Num 255)"

definition Absolute :: "state \<Rightarrow> jsval" where
  "Absolute s = readWord (js_add (PC s) (Num 1)) s"

definition AbsoluteX :: "state \<Rightarrow> jsval" where
  "AbsoluteX s = js_and (js_add (readWord (js_add (PC s) (Num 1)) s) (MPU_X s)) (Num 65535)"

definition AbsoluteY :: "state \<Rightarrow> jsval" where
  "AbsoluteY s = js_and (js_add (readWord (js_add (PC s) (Num 1)) s) (MPU_Y s)) (Num 65535)"

text \<open>\<open>memory.PC += k\<close>, \<open>(P.C ? 1 : 0)\<close> and \<open>(P.C ? 0 : 1)\<close>.\<close>

definition incPC :: "int \<Rightarrow> state \<Rightarrow> state" where
  "incPC k s = s\<lparr>PC := js_add (PC s) (Num k)\<rparr>"

definition carry_in :: "state \<Rightarrow> jsval" where
  "carry_in s = (if P_C s then Num 1 else Num 0)"

definition borrow_in :: "state \<Rightarrow> jsval" where
  "borrow_in s = (if P_C s then Num 0 else Num 1)"

text \<open>
  The body that the eight \<open>ADC\<close> arms share, from \<open>var binary_sum\<close> to the end of the
  \<open>if (P.D) ... else ...\<close>; \<open>b\<close> is the operand the arm has fetched.
\<close>

definition do_ADC :: "jsval \<Rightarrow> state \<Rightarrow> state" where
  "do_ADC b s0 =
     (let binary_sum = js_add (js_add (MPU_A s0) b) (carry_in s0);
          s1 = setZN (js_and binary_sum (Num 255)) s0
      in if P_D s1 then
           (let al = js_add (js_add (js_and (MPU_A s1) (Num 0x0f)) (js_and b (Num 0x0f)))
                            (carry_in s1);
                al = (if js_ge al (Num 0x0a)
                      then js_add (js_and (js_add al (Num 0x06)) (Num 0x0f)) (Num 0x10)
                      else al);
                s2 = s1\<lparr>MPU_A := js_add (js_add (js_and (MPU_A s1) (Num 0xf0))
                                               (js_and b (Num 0xf0))) al\<rparr>;
                zna = js_add (js_add (getTwosComplement (MPU_A s2)) (getTwosComplement b))
                             (getTwosComplement al);
                s3 = (if truthy (js_and (MPU_A s2) (Num 128)) then setBit 7 s2
                      else clearBit 7 s2);
                s4 = (if js_lt zna (Num (- 128)) \<or> js_gt zna (Num 127) then setBit 6 s3
                      else clearBit 6 s3);
                s5 = (if js_ge (MPU_A s4) (Num 0xa0)
                      then s4\<lparr>MPU_A := js_add (MPU_A s4) (Num 0x60)\<rparr> else s4);
                s6 = (if js_ge (MPU_A s5) (Num 0x100) then setBit 0 s5 else clearBit 0 s5)
            in s6\<lparr>MPU_A := js_and (MPU_A s6) (Num 255)\<rparr>)
         else
           (let s2 = (if \<not> truthy (js_and (js_xor (MPU_A s1) b) (Num 128))
                         \<and> truthy (js_and (js_xor b binary_sum) (Num 128))
                      then setBit 6 s1 else clearBit 6 s1);
                s3 = (if js_gt binary_sum (Num 255) then setBit 0 s2 else clearBit 0 s2)
            in s3\<lparr>MPU_A := js_and binary_sum (Num 255)\<rparr>))"

text \<open>The body that the eight \<open>SBC\<close> arms share.\<close>

definition do_SBC :: "jsval \<Rightarrow> state \<Rightarrow> state" where
  "do_SBC b s0 =
     (let binary_diff = js_sub (js_sub (MPU_A s0) b) (borrow_in s0);
          s1 = setZN binary_diff s0;
          twos = js_sub (js_sub (getTwosComplement (MPU_A s1)) (getTwosComplement b))
                        (borrow_in s1);
          s2 = (if js_lt twos (Num (- 128)) \<or> js_gt twos (Num 127) then setBit 6 s1
                else clearBit 6 s1);
          s3 = (if P_D s2 then
                  (let al = js_sub (js_sub (js_and (MPU_A s2) (Num 0x0f)) (js_and b (Num 0x0f)))
                                   (borrow_in s2);
                       al = (if js_lt al (Num 0)
                             then js_sub (js_and (js_sub al (Num 0x06)) (Num 0x0f)) (Num 0x10)
                             else al);
                       t1 = s2\<lparr>MPU_A := js_add (js_sub (js_and (MPU_A s2) (Num 0xf0))
                                                      (js_and b (Num 0xf0))) al\<rparr>;
                       t2 = (if js_lt (MPU_A t1) (Num 0)
                             then t1\<lparr>MPU_A := js_sub (MPU_A t1) (Num 0x60)\<rparr> else t1)
                   in t2\<lparr>MPU_A := js_and (MPU_A t2) (Num 255)\<rparr>)
                else s2\<lparr>MPU_A := js_and binary_diff (Num 255)\<rparr>)
      in if js_ge binary_diff (Num 0) then setBit 0 s3 else clearBit 0 s3)"

text \<open>The bodies of \<open>AND\<close>, \<open>ORA\<close>, \<open>EOR\<close>, \<open>LDA\<close> and \<open>CMP\<close>.\<close>

definition do_AND :: "jsval \<Rightarrow> state \<Rightarrow> state" where
  "do_AND b s =
     (let s1 = s\<lparr>MPU_A := js_and (js_and (MPU_A s) b) (Num 255)\<rparr>
      in setZN (MPU_A s1) s1)"

definition do_ORA :: "jsval \<Rightarrow> state \<Rightarrow> state" where
  "do_ORA b s =
     (let s1 = s\<lparr>MPU_A := js_and (js_or (MPU_A s) b) (Num 255)\<rparr>
      in setZN (MPU_A s1) s1)"

definition do_EOR :: "jsval \<Rightarrow> state \<Rightarrow> state" where
  "do_EOR b s =
     (let s1 = s\<lparr>MPU_A := js_and (js_xor (MPU_A s) b) (Num 255)\<rparr>
      in setZN (MPU_A s1) s1)"

definition do_LDA :: "jsval \<Rightarrow> state \<Rightarrow> state" where
  "do_LDA b s = (let s1 = s\<lparr>MPU_A := b\<rparr> in setZN (MPU_A s1) s1)"

definition do_CMP :: "jsval \<Rightarrow> state \<Rightarrow> state" where
  "do_CMP b s =
     (let t = js_sub (MPU_A s) b;
          s1 = (if js_ge t (Num 0) then setBit 0 s else clearBit 0 s)
      in setZN t s1)"

text \<open>
  The bodies of the read-modify-write arms; \<open>addr\<close> is the address the arm has
  computed and \<open>b\<close> the byte it has read there.
\<close>

definition do_ASL :: "jsval \<Rightarrow> jsval \<Rightarrow> state \<Rightarrow> state" where
  "do_ASL addr b s =
     (let s1 = (if truthy (js_and b (Num 128)) then setBit 0 s else clearBit 0 s);
          v = js_and (js_shl b 1) (Num 254);
          s2 = writeByte v addr s1
      in setZN v s2)"

definition do_LSR :: "jsval \<Rightarrow> jsval \<Rightarrow> state \<Rightarrow> state" where
  "do_LSR addr b s =
     (let s1 = clearBit 7 s;
          s2 = (if truthy (js_and b (Num 1)) then setBit 0 s1 else clearBit 0 s1);
          s3 = writeByte (js_and (js_shr b 1) (Num 127)) addr s2
      in if b = Num 0 then setBit 1 s3 else clearBit 1 s3)"

definition do_ROL :: "jsval \<Rightarrow> jsval \<Rightarrow> state \<Rightarrow> state" where
  "do_ROL addr b s =
     (let old_bit = js_and b (Num 128);
          v = js_or (js_and (js_shl b 1) (Num 254)) (if P_C s then Num 1 else Num 0);
          s1 = writeByte v addr s;
          s2 = (if truthy old_bit then setBit 0 s1 else clearBit 0 s1)
      in setZN v s2)"

definition do_ROR :: "jsval \<Rightarrow> jsval \<Rightarrow> state \<Rightarrow> state" where
  "do_ROR addr b s =
     (let old_bit = js_and b (Num 1);
          v = js_or (js_and (js_shr b 1) (Num 127)) (if P_C s then Num 128 else Num 0);
          s1 = writeByte v addr s;
          s2 = (if truthy old_bit then setBit 0 s1 else clearBit 0 s1)
      in setZN v s2)"

definition do_DEC :: "jsval \<Rightarrow> state \<Rightarrow> state" where
  "do_DEC addr s =
     (let v = js_and (js_sub (read addr s) (Num 1)) (Num 255);
          s1 = writeByte v addr s
      in setZN v s1)"

definition do_INC :: "jsval \<Rightarrow> state \<Rightarrow> state" where
  "do_INC addr s =
     (let v = js_and (js_add (read addr s) (Num 1)) (Num 255);
          s1 = writeByte v addr s
      in setZN v s1)"

section \<open>The interpreter: the arms of \<open>executeInstruction\<close>\<close>

text \<open>
  One definition per \<open>case\<close> of the switch, named after the comment on its \<open>case\<close>
  line.  Each arm fetches its operand the way its source text does and then runs the
  body; the \<open>memory.PC += k\<close> that ends the arm is written as the source has it.
\<close>

text \<open>\<open>case 0x69: //ADC Immediate\<close>\<close>

definition ADC_Immediate :: "state \<Rightarrow> state" where
  "ADC_Immediate s =
     (let b = operand s
      in incPC 2 (do_ADC b s))"

text \<open>\<open>case 0x65: //ADC Zero Page\<close>\<close>

definition ADC_Zero_Page :: "state \<Rightarrow> state" where
  "ADC_Zero_Page s =
     (let addr = operand s; b = read addr s
      in incPC 2 (do_ADC b s))"

text \<open>\<open>case 0x75: //ADC Zero Page X\<close>\<close>

definition ADC_Zero_Page_X :: "state \<Rightarrow> state" where
  "ADC_Zero_Page_X s =
     (let addr = ZeroPageX s; b = read addr s
      in incPC 2 (do_ADC b s))"

text \<open>\<open>case 0x6d: //ADC Absolute\<close>\<close>

definition ADC_Absolute :: "state \<Rightarrow> state" where
  "ADC_Absolute s =
     (let addr = Absolute s; b = read addr s
      in incPC 2 (do_ADC b s))"

text \<open>\<open>case 0x7d: //ADC Absolute X\<close>\<close>

definition ADC_Absolute_X :: "state \<Rightarrow> state" where
  "ADC_Absolute_X s =
     (let addr = AbsoluteX s; b = read addr s
      in incPC 2 (do_ADC b s))"

text \<open>\<open>case 0x79: //ADC Absolute Y\<close>\<close>

definition ADC_Absolute_Y :: "state \<Rightarrow> state" where
  "ADC_Absolute_Y s =
     (let addr = AbsoluteY s; b = read addr s
      in incPC 2 (do_ADC b s))"

text \<open>\<open>case 0x61: //ADC Indirect X\<close>\<close>

definition ADC_Indirect_X :: "state \<Rightarrow> state" where
  "ADC_Indirect_X s =
     (let addr = ZeroPageX s; b = read (readWord addr s) s
      in incPC 2 (do_ADC b s))"

text \<open>\<open>case 0x71: //ADC Indirect Y\<close>\<close>

definition ADC_Indirect_Y :: "state \<Rightarrow> state" where
  "ADC_Indirect_Y s =
     (let addr = operand s; b = read (js_and (js_add (readWord addr s) (MPU_Y s)) (Num 65535)) s
      in incPC 2 (do_ADC b s))"

text \<open>\<open>case 0x29: //AND Immediate\<close>\<close>

definition AND_Immediate :: "state \<Rightarrow> state" where
  "AND_Immediate s =
     (let b = operand s
      in incPC 2 (do_AND b s))"

text \<open>\<open>case 0x25: //AND Zero Page\<close>\<close>

definition AND_Zero_Page :: "state \<Rightarrow> state" where
  "AND_Zero_Page s =
     (let addr = operand s; b = read addr s
      in incPC 2 (do_AND b s))"

text \<open>\<open>case 0x35: //AND Zero Page X\<close>\<close>

definition AND_Zero_Page_X :: "state \<Rightarrow> state" where
  "AND_Zero_Page_X s =
     (let addr = ZeroPageX s; b = read addr s
      in incPC 2 (do_AND b s))"

text \<open>\<open>case 0x2d: //AND Absolute\<close>\<close>

definition AND_Absolute :: "state \<Rightarrow> state" where
  "AND_Absolute s =
     (let addr = Absolute s; b = read addr s
      in incPC 3 (do_AND b s))"

text \<open>\<open>case 0x3d: //AND Absolute X\<close>\<close>

definition AND_Absolute_X :: "state \<Rightarrow> state" where
  "AND_Absolute_X s =
     (let addr = AbsoluteX s; b = read addr s
      in incPC 3 (do_AND b s))"

text \<open>\<open>case 0x39: //AND Absolute Y\<close>\<close>

definition AND_Absolute_Y :: "state \<Rightarrow> state" where
  "AND_Absolute_Y s =
     (let addr = AbsoluteY s; b = read addr s
      in incPC 3 (do_AND b s))"

text \<open>\<open>case 0x21: //AND Indirect X\<close>\<close>

definition AND_Indirect_X :: "state \<Rightarrow> state" where
  "AND_Indirect_X s =
     (let addr = ZeroPageX s; b = read (readWord addr s) s
      in incPC 2 (do_AND b s))"

text \<open>\<open>case 0x31: //AND Indirect Y\<close>\<close>

definition AND_Indirect_Y :: "state \<Rightarrow> state" where
  "AND_Indirect_Y s =
     (let addr = operand s; b = read (js_and (js_add (readWord addr s) (MPU_Y s)) (Num 65535)) s
      in incPC 2 (do_AND b s))"

text \<open>\<open>case 0x06: //ASL Zero Page\<close>\<close>

definition ASL_Zero_Page :: "state \<Rightarrow> state" where
  "ASL_Zero_Page s =
     (let addr = operand s; b = read addr s
      in incPC 2 (do_ASL addr b s))"

text \<open>\<open>case 0x16: //ASL Zero Page X\<close>\<close>

definition ASL_Zero_Page_X :: "state \<Rightarrow> state" where
  "ASL_Zero_Page_X s =
     (let addr = ZeroPageX s; b = read addr s
      in incPC 2 (do_ASL addr b s))"

text \<open>\<open>case 0x0e: //ASL Absolute\<close>\<close>

definition ASL_Absolute :: "state \<Rightarrow> state" where
  "ASL_Absolute s =
     (let addr = Absolute s; b = read addr s
      in incPC 3 (do_ASL addr b s))"

text \<open>\<open>case 0x1e: //ASL Absolute X\<close>\<close>

definition ASL_Absolute_X :: "state \<Rightarrow> state" where
  "ASL_Absolute_X s =
     (let addr = AbsoluteX s; b = read addr s
      in incPC 3 (do_ASL addr b s))"

text \<open>\<open>case 0xc9: //CMP Immediate\<close>\<close>

definition CMP_Immediate :: "state \<Rightarrow> state" where
  "CMP_Immediate s =
     (let b = operand s
      in incPC 2 (do_CMP b s))"

text \<open>\<open>case 0xc5: //CMP Zero Page\<close>\<close>

definition CMP_Zero_Page :: "state \<Rightarrow> state" where
  "CMP_Zero_Page s =
     (let addr = operand s; b = read addr s
      in incPC 2 (do_CMP b s))"

text \<open>\<open>case 0xd5: //CMP Zero Page X\<close>\<close>

definition CMP_Zero_Page_X :: "state \<Rightarrow> state" where
  "CMP_Zero_Page_X s =
     (let addr = ZeroPageX s; b = read addr s
      in incPC 2 (do_CMP b s))"

text \<open>\<open>case 0xcd: //CMP Absolute\<close>\<close>

definition CMP_Absolute :: "state \<Rightarrow> state" where
  "CMP_Absolute s =
     (let addr = Absolute s; b = read addr s
      in incPC 3 (do_CMP b s))"

text \<open>\<open>case 0xdd: //CMP Absolute X\<close>\<close>

definition CMP_Absolute_X :: "state \<Rightarrow> state" where
  "CMP_Absolute_X s =
     (let addr = AbsoluteX s; b = read addr s
      in incPC 3 (do_CMP b s))"

text \<open>\<open>case 0xd9: //CMP Absolute Y\<close>\<close>

definition CMP_Absolute_Y :: "state \<Rightarrow> state" where
  "CMP_Absolute_Y s =
     (let addr = AbsoluteY s; b = read addr s
      in incPC 3 (do_CMP b s))"

text \<open>\<open>case 0xc1: //CMP Indirect X\<close>\<close>

definition CMP_Indirect_X :: "state \<Rightarrow> state" where
  "CMP_Indirect_X s =
     (let addr = ZeroPageX s; b = read (readWord addr s) s
      in incPC 2 (do_CMP b s))"

text \<open>\<open>case 0xd1: //CMP Indirect Y\<close>\<close>

definition CMP_Indirect_Y :: "state \<Rightarrow> state" where
  "CMP_Indirect_Y s =
     (let addr = operand s; b = read (js_and (js_add (readWord addr s) (MPU_Y s)) (Num 65535)) s
      in incPC 2 (do_CMP b s))"

text \<open>\<open>case 0xc6: //DEC Zero Page\<close>\<close>

definition DEC_Zero_Page :: "state \<Rightarrow> state" where
  "DEC_Zero_Page s =
     (let addr = operand s
      in incPC 2 (do_DEC addr s))"

text \<open>\<open>case 0xd6: //DEC Zero Page X\<close>\<close>

definition DEC_Zero_Page_X :: "state \<Rightarrow> state" where
  "DEC_Zero_Page_X s =
     (let addr = ZeroPageX s
      in incPC 2 (do_DEC addr s))"

text \<open>\<open>case 0xce: //DEC Absolute\<close>\<close>

definition DEC_Absolute :: "state \<Rightarrow> state" where
  "DEC_Absolute s =
     (let addr = Absolute s
      in incPC 3 (do_DEC addr s))"

text \<open>\<open>case 0xde: //DEC Absolute X\<close>\<close>

definition DEC_Absolute_X :: "state \<Rightarrow> state" where
  "DEC_Absolute_X s =
     (let addr = AbsoluteX s
      in incPC 3 (do_DEC addr s))"

text \<open>\<open>case 0x49: //EOR Immediate\<close>\<close>

definition EOR_Immediate :: "state \<Rightarrow> state" where
  "EOR_Immediate s =
     (let b = operand s
      in incPC 2 (do_EOR b s))"

text \<open>\<open>case 0x45: //EOR Zero Page\<close>\<close>

definition EOR_Zero_Page :: "state \<Rightarrow> state" where
  "EOR_Zero_Page s =
     (let addr = operand s; b = read addr s
      in incPC 2 (do_EOR b s))"

text \<open>\<open>case 0x55: //EOR Zero Page X\<close>\<close>

definition EOR_Zero_Page_X :: "state \<Rightarrow> state" where
  "EOR_Zero_Page_X s =
     (let addr = ZeroPageX s; b = read addr s
      in incPC 2 (do_EOR b s))"

text \<open>\<open>case 0x4d: //EOR Absolute\<close>\<close>

definition EOR_Absolute :: "state \<Rightarrow> state" where
  "EOR_Absolute s =
     (let addr = Absolute s; b = read addr s
      in incPC 3 (do_EOR b s))"

text \<open>\<open>case 0x5d: //EOR Absolute X\<close>\<close>

definition EOR_Absolute_X :: "state \<Rightarrow> state" where
  "EOR_Absolute_X s =
     (let addr = AbsoluteX s; b = read addr s
      in incPC 3 (do_EOR b s))"

text \<open>\<open>case 0x59: //EOR Absolute Y\<close>\<close>

definition EOR_Absolute_Y :: "state \<Rightarrow> state" where
  "EOR_Absolute_Y s =
     (let addr = AbsoluteY s; b = read addr s
      in incPC 3 (do_EOR b s))"

text \<open>\<open>case 0x41: //EOR Indirect X\<close>\<close>

definition EOR_Indirect_X :: "state \<Rightarrow> state" where
  "EOR_Indirect_X s =
     (let addr = ZeroPageX s; b = read (readWord addr s) s
      in incPC 2 (do_EOR b s))"

text \<open>\<open>case 0x51: //EOR Indirect Y\<close>\<close>

definition EOR_Indirect_Y :: "state \<Rightarrow> state" where
  "EOR_Indirect_Y s =
     (let addr = operand s; b = read (js_and (js_add (readWord addr s) (MPU_Y s)) (Num 65535)) s
      in incPC 2 (do_EOR b s))"

text \<open>\<open>case 0xe6: //INC Zero Page\<close>\<close>

definition INC_Zero_Page :: "state \<Rightarrow> state" where
  "INC_Zero_Page s =
     (let addr = operand s
      in incPC 2 (do_INC addr s))"

text \<open>\<open>case 0xf6: //INC Zero Page X\<close>\<close>

definition INC_Zero_Page_X :: "state \<Rightarrow> state" where
  "INC_Zero_Page_X s =
     (let addr = ZeroPageX s
      in incPC 2 (do_INC addr s))"

text \<open>\<open>case 0xee: //INC Absolute\<close>\<close>

definition INC_Absolute :: "state \<Rightarrow> state" where
  "INC_Absolute s =
     (let addr = Absolute s
      in incPC 3 (do_INC addr s))"

text \<open>\<open>case 0xfe: //INC Absolute X\<close>\<close>

definition INC_Absolute_X :: "state \<Rightarrow> state" where
  "INC_Absolute_X s =
     (let addr = AbsoluteX s
      in incPC 3 (do_INC addr s))"

text \<open>\<open>case 0xa9: //LDA Immediate\<close>\<close>

definition LDA_Immediate :: "state \<Rightarrow> state" where
  "LDA_Immediate s =
     (let b = operand s
      in incPC 2 (do_LDA b s))"

text \<open>\<open>case 0xa5: //LDA Zero Page\<close>\<close>

definition LDA_Zero_Page :: "state \<Rightarrow> state" where
  "LDA_Zero_Page s =
     (let addr = operand s; b = read addr s
      in incPC 2 (do_LDA b s))"

text \<open>\<open>case 0xb5: //LDA Zero Page X\<close>\<close>

definition LDA_Zero_Page_X :: "state \<Rightarrow> state" where
  "LDA_Zero_Page_X s =
     (let addr = ZeroPageX s; b = read addr s
      in incPC 2 (do_LDA b s))"

text \<open>\<open>case 0xad: //LDA Absolute\<close>\<close>

definition LDA_Absolute :: "state \<Rightarrow> state" where
  "LDA_Absolute s =
     (let addr = Absolute s; b = read addr s
      in incPC 3 (do_LDA b s))"

text \<open>\<open>case 0xbd: //LDA Absolute X\<close>\<close>

definition LDA_Absolute_X :: "state \<Rightarrow> state" where
  "LDA_Absolute_X s =
     (let addr = AbsoluteX s; b = read addr s
      in incPC 3 (do_LDA b s))"

text \<open>\<open>case 0xb9: //LDA Absolute Y\<close>\<close>

definition LDA_Absolute_Y :: "state \<Rightarrow> state" where
  "LDA_Absolute_Y s =
     (let addr = AbsoluteY s; b = read addr s
      in incPC 3 (do_LDA b s))"

text \<open>\<open>case 0xa1: //LDA Indirect X\<close>\<close>

definition LDA_Indirect_X :: "state \<Rightarrow> state" where
  "LDA_Indirect_X s =
     (let addr = ZeroPageX s; b = read (readWord addr s) s
      in incPC 2 (do_LDA b s))"

text \<open>\<open>case 0xb1: //LDA Indirect Y\<close>\<close>

definition LDA_Indirect_Y :: "state \<Rightarrow> state" where
  "LDA_Indirect_Y s =
     (let addr = operand s; b = read (js_and (js_add (readWord addr s) (MPU_Y s)) (Num 65535)) s
      in incPC 2 (do_LDA b s))"

text \<open>\<open>case 0x09: //ORA Immediate\<close>\<close>

definition ORA_Immediate :: "state \<Rightarrow> state" where
  "ORA_Immediate s =
     (let b = operand s
      in incPC 2 (do_ORA b s))"

text \<open>\<open>case 0x05: //ORA Zero Page\<close>\<close>

definition ORA_Zero_Page :: "state \<Rightarrow> state" where
  "ORA_Zero_Page s =
     (let addr = operand s; b = read addr s
      in incPC 2 (do_ORA b s))"

text \<open>\<open>case 0x15: //ORA Zero Page X\<close>\<close>

definition ORA_Zero_Page_X :: "state \<Rightarrow> state" where
  "ORA_Zero_Page_X s =
     (let addr = ZeroPageX s; b = read addr s
      in incPC 2 (do_ORA b s))"

text \<open>\<open>case 0x0d: //ORA Absolute\<close>\<close>

definition ORA_Absolute :: "state \<Rightarrow> state" where
  "ORA_Absolute s =
     (let addr = Absolute s; b = read addr s
      in incPC 3 (do_ORA b s))"

text \<open>\<open>case 0x1d: //ORA Absolute X\<close>\<close>

definition ORA_Absolute_X :: "state \<Rightarrow> state" where
  "ORA_Absolute_X s =
     (let addr = AbsoluteX s; b = read addr s
      in incPC 3 (do_ORA b s))"

text \<open>\<open>case 0x19: //ORA Absolute Y\<close>\<close>

definition ORA_Absolute_Y :: "state \<Rightarrow> state" where
  "ORA_Absolute_Y s =
     (let addr = AbsoluteY s; b = read addr s
      in incPC 3 (do_ORA b s))"

text \<open>\<open>case 0x01: //ORA Indirect X\<close>\<close>

definition ORA_Indirect_X :: "state \<Rightarrow> state" where
  "ORA_Indirect_X s =
     (let addr = ZeroPageX s; b = read (readWord addr s) s
      in incPC 2 (do_ORA b s))"

text \<open>\<open>case 0x11: //ORA Indirect Y\<close>\<close>

definition ORA_Indirect_Y :: "state \<Rightarrow> state" where
  "ORA_Indirect_Y s =
     (let addr = operand s; b = read (js_and (js_add (readWord addr s) (MPU_Y s)) (Num 65535)) s
      in incPC 2 (do_ORA b s))"

text \<open>\<open>case 0x46: //LSR Zero Page\<close>\<close>

definition LSR_Zero_Page :: "state \<Rightarrow> state" where
  "LSR_Zero_Page s =
     (let addr = operand s; b = read addr s
      in incPC 2 (do_LSR addr b s))"

text \<open>\<open>case 0x56: //LSR Zero Page X\<close>\<close>

definition LSR_Zero_Page_X :: "state \<Rightarrow> state" where
  "LSR_Zero_Page_X s =
     (let addr = ZeroPageX s; b = read addr s
      in incPC 2 (do_LSR addr b s))"

text \<open>\<open>case 0x4e: //LSR Absolute\<close>\<close>

definition LSR_Absolute :: "state \<Rightarrow> state" where
  "LSR_Absolute s =
     (let addr = Absolute s; b = read addr s
      in incPC 3 (do_LSR addr b s))"

text \<open>\<open>case 0x5e: //LSR Absolute X\<close>\<close>

definition LSR_Absolute_X :: "state \<Rightarrow> state" where
  "LSR_Absolute_X s =
     (let addr = AbsoluteX s; b = read addr s
      in incPC 3 (do_LSR addr b s))"

text \<open>\<open>case 0x26: //ROL Zero Page\<close>\<close>

definition ROL_Zero_Page :: "state \<Rightarrow> state" where
  "ROL_Zero_Page s =
     (let addr = operand s; b = read addr s
      in incPC 2 (do_ROL addr b s))"

text \<open>\<open>case 0x36: //ROL Zero Page X\<close>\<close>

definition ROL_Zero_Page_X :: "state \<Rightarrow> state" where
  "ROL_Zero_Page_X s =
     (let addr = ZeroPageX s; b = read addr s
      in incPC 2 (do_ROL addr b s))"

text \<open>\<open>case 0x2e: //ROL Absolute\<close>\<close>

definition ROL_Absolute :: "state \<Rightarrow> state" where
  "ROL_Absolute s =
     (let addr = Absolute s; b = read addr s
      in incPC 3 (do_ROL addr b s))"

text \<open>\<open>case 0x3e: //ROL Absolute X\<close>\<close>

definition ROL_Absolute_X :: "state \<Rightarrow> state" where
  "ROL_Absolute_X s =
     (let addr = AbsoluteX s; b = read addr s
      in incPC 3 (do_ROL addr b s))"

text \<open>\<open>case 0x66: //ROR Zero Page\<close>\<close>

definition ROR_Zero_Page :: "state \<Rightarrow> state" where
  "ROR_Zero_Page s =
     (let addr = operand s; b = read addr s
      in incPC 2 (do_ROR addr b s))"

text \<open>\<open>case 0x76: //ROR Zero Page X\<close>\<close>

definition ROR_Zero_Page_X :: "state \<Rightarrow> state" where
  "ROR_Zero_Page_X s =
     (let addr = ZeroPageX s; b = read addr s
      in incPC 2 (do_ROR addr b s))"

text \<open>\<open>case 0x6e: //ROR Absolute\<close>\<close>

definition ROR_Absolute :: "state \<Rightarrow> state" where
  "ROR_Absolute s =
     (let addr = Absolute s; b = read addr s
      in incPC 3 (do_ROR addr b s))"

text \<open>\<open>case 0x7e: //ROR Absolute X\<close>\<close>

definition ROR_Absolute_X :: "state \<Rightarrow> state" where
  "ROR_Absolute_X s =
     (let addr = AbsoluteX s; b = read addr s
      in incPC 3 (do_ROR addr b s))"

text \<open>\<open>case 0xe9: //SBC Immediate\<close>\<close>

definition SBC_Immediate :: "state \<Rightarrow> state" where
  "SBC_Immediate s =
     (let b = operand s
      in incPC 2 (do_SBC b s))"

text \<open>\<open>case 0xe5: //SBC Zero Page\<close>\<close>

definition SBC_Zero_Page :: "state \<Rightarrow> state" where
  "SBC_Zero_Page s =
     (let addr = operand s; b = read addr s
      in incPC 2 (do_SBC b s))"

text \<open>\<open>case 0xf5: //SBC Zero Page X\<close>\<close>

definition SBC_Zero_Page_X :: "state \<Rightarrow> state" where
  "SBC_Zero_Page_X s =
     (let addr = ZeroPageX s; b = read addr s
      in incPC 2 (do_SBC b s))"

text \<open>\<open>case 0xed: //SBC Absolute\<close>\<close>

definition SBC_Absolute :: "state \<Rightarrow> state" where
  "SBC_Absolute s =
     (let addr = Absolute s; b = read addr s
      in incPC 2 (do_SBC b s))"

text \<open>\<open>case 0xfd: //SBC Absolute X\<close>\<close>

definition SBC_Absolute_X :: "state \<Rightarrow> state" where
  "SBC_Absolute_X s =
     (let addr = AbsoluteX s; b = read addr s
      in incPC 2 (do_SBC b s))"

text \<open>\<open>case 0xf9: //SBC Absolute Y\<close>\<close>

definition SBC_Absolute_Y :: "state \<Rightarrow> state" where
  "SBC_Absolute_Y s =
     (let addr = AbsoluteY s; b = read addr s
      in incPC 2 (do_SBC b s))"

text \<open>\<open>case 0xe1: //SBC Indirect X\<close>\<close>

definition SBC_Indirect_X :: "state \<Rightarrow> state" where
  "SBC_Indirect_X s =
     (let addr = ZeroPageX s; b = read (readWord addr s) s
      in incPC 2 (do_SBC b s))"

text \<open>\<open>case 0xf1: //SBC Indirect Y\<close>\<close>

definition SBC_Indirect_Y :: "state \<Rightarrow> state" where
  "SBC_Indirect_Y s =
     (let addr = operand s; b = read (js_and (js_add (readWord addr s) (MPU_Y s)) (Num 65535)) s
      in incPC 2 (do_SBC b s))"

text \<open>\<open>case 0x85: //STA Zero Page\<close>\<close>

definition STA_Zero_Page :: "state \<Rightarrow> state" where
  "STA_Zero_Page s =
     (let addr = operand s
      in incPC 2 (writeByte (MPU_A s) addr s))"

text \<open>\<open>case 0x95: //STA Zero Page X\<close>\<close>

definition STA_Zero_Page_X :: "state \<Rightarrow> state" where
  "STA_Zero_Page_X s =
     (let addr = ZeroPageX s
      in incPC 2 (writeByte (MPU_A s) addr s))"

text \<open>\<open>case 0x8d: //STA Absolute\<close>\<close>

definition STA_Absolute :: "state \<Rightarrow> state" where
  "STA_Absolute s =
     (let addr = Absolute s
      in incPC 3 (writeByte (MPU_A s) addr s))"

text \<open>\<open>case 0x9d: //STA Absolute X\<close>\<close>

definition STA_Absolute_X :: "state \<Rightarrow> state" where
  "STA_Absolute_X s =
     (let addr = AbsoluteX s
      in incPC 3 (writeByte (MPU_A s) addr s))"

text \<open>\<open>case 0x99: //STA Absolute Y\<close>\<close>

definition STA_Absolute_Y :: "state \<Rightarrow> state" where
  "STA_Absolute_Y s =
     (let addr = AbsoluteY s
      in incPC 3 (writeByte (MPU_A s) addr s))"

text \<open>\<open>case 0x81: //STA Indirect X\<close>\<close>

definition STA_Indirect_X :: "state \<Rightarrow> state" where
  "STA_Indirect_X s =
     (let addr = ZeroPageX s
      in incPC 2 (writeByte (MPU_A s) (readWord addr s) s))"

text \<open>\<open>case 0x91: //STA Indirect Y\<close>\<close>

definition STA_Indirect_Y :: "state \<Rightarrow> state" where
  "STA_Indirect_Y s =
     (let addr = js_and (js_add (readWord (operand s) s) (MPU_Y s)) (Num 65535)
      in incPC 2 (writeByte (MPU_A s) addr s))"

text \<open>\<open>case 0x86: //STX Zero Page\<close>\<close>

definition STX_Zero_Page :: "state \<Rightarrow> state" where
  "STX_Zero_Page s =
     (let addr = operand s
      in incPC 2 (writeByte (MPU_X s) addr s))"

text \<open>\<open>case 0x96: //STX Zero Page Y\<close>\<close>

definition STX_Zero_Page_Y :: "state \<Rightarrow> state" where
  "STX_Zero_Page_Y s =
     (let addr = ZeroPageY s
      in incPC 2 (writeByte (MPU_X s) addr s))"

text \<open>\<open>case 0x8e: //STX Absolute\<close>\<close>

definition STX_Absolute :: "state \<Rightarrow> state" where
  "STX_Absolute s =
     (let addr = Absolute s
      in incPC 3 (writeByte (MPU_X s) addr s))"

text \<open>\<open>case 0x84: //STY Zero Page\<close>\<close>

definition STY_Zero_Page :: "state \<Rightarrow> state" where
  "STY_Zero_Page s =
     (let addr = operand s
      in incPC 2 (writeByte (MPU_Y s) addr s))"

text \<open>\<open>case 0x94: //STY Zero Page X\<close>\<close>

definition STY_Zero_Page_X :: "state \<Rightarrow> state" where
  "STY_Zero_Page_X s =
     (let addr = ZeroPageX s
      in incPC 2 (writeByte (MPU_Y s) addr s))"

text \<open>\<open>case 0x8c: //STY Absolute\<close>\<close>

definition STY_Absolute :: "state \<Rightarrow> state" where
  "STY_Absolute s =
     (let addr = Absolute s
      in incPC 3 (writeByte (MPU_Y s) addr s))"


text \<open>\<open>case 0x0a: //ASL Accumulator\<close>\<close>

definition ASL_Accumulator :: "state \<Rightarrow> state" where
  "ASL_Accumulator s =
     (let s1 = (if truthy (js_and (MPU_A s) (Num 128)) then setBit 0 s else clearBit 0 s);
          s2 = s1\<lparr>MPU_A := js_and (js_shl (MPU_A s1) 1) (Num 254)\<rparr>
      in incPC 1 (setZN (MPU_A s2) s2))"

text \<open>\<open>case 0x4a: //LSR Accumulator\<close>\<close>

definition LSR_Accumulator :: "state \<Rightarrow> state" where
  "LSR_Accumulator s =
     (let s1 = clearBit 7 s;
          s2 = (if truthy (js_and (MPU_A s1) (Num 1)) then setBit 0 s1 else clearBit 0 s1);
          s3 = s2\<lparr>MPU_A := js_and (js_shr (MPU_A s2) 1) (Num 127)\<rparr>;
          s4 = (if MPU_A s3 = Num 0 then setBit 1 s3 else clearBit 1 s3)
      in incPC 1 s4)"

text \<open>\<open>case 0x2a: //ROL Accumulator\<close>\<close>

definition ROL_Accumulator :: "state \<Rightarrow> state" where
  "ROL_Accumulator s =
     (let old_bit = js_and (MPU_A s) (Num 128);
          s1 = s\<lparr>MPU_A := js_or (js_and (js_shl (MPU_A s) 1) (Num 254))
                                 (if P_C s then Num 1 else Num 0)\<rparr>;
          s2 = (if truthy old_bit then setBit 0 s1 else clearBit 0 s1)
      in incPC 1 (setZN (MPU_A s2) s2))"

text \<open>\<open>case 0x6a: //RORA\<close>\<close>

definition RORA :: "state \<Rightarrow> state" where
  "RORA s =
     (let old_bit = js_and (MPU_A s) (Num 1);
          s1 = s\<lparr>MPU_A := js_or (js_and (js_shr (MPU_A s) 1) (Num 127))
                                 (if P_C s then Num 128 else Num 0)\<rparr>;
          s2 = (if truthy old_bit then setBit 0 s1 else clearBit 0 s1)
      in incPC 1 (setZN (MPU_A s2) s2))"

text \<open>
  The branches:
  \<open>memory.PC = memory.PC + 2 + (flag ? getTwosComplement(memory.read(memory.PC + 1)) : 0)\<close>,
  or with the two alternatives exchanged.
\<close>

definition branch :: "bool \<Rightarrow> state \<Rightarrow> state" where
  "branch taken s =
     s\<lparr>PC := js_add (js_add (PC s) (Num 2))
                     (if taken then getTwosComplement (read (js_add (PC s) (Num 1)) s)
                      else Num 0)\<rparr>"

definition BCC :: "state \<Rightarrow> state" where "BCC s = branch (\<not> P_C s) s"
definition BCS :: "state \<Rightarrow> state" where "BCS s = branch (P_C s) s"
definition BEQ :: "state \<Rightarrow> state" where "BEQ s = branch (P_Z s) s"
definition BMI :: "state \<Rightarrow> state" where "BMI s = branch (P_N s) s"
definition BNE :: "state \<Rightarrow> state" where "BNE s = branch (\<not> P_Z s) s"
definition BPL :: "state \<Rightarrow> state" where "BPL s = branch (\<not> P_N s) s"
definition BVC :: "state \<Rightarrow> state" where "BVC s = branch (\<not> P_V s) s"
definition BVS :: "state \<Rightarrow> state" where "BVS s = branch (P_V s) s"

text \<open>\<open>case 0x24: //BIT Zero Page\<close> and \<open>case 0x2c: //BIT Absolute\<close>\<close>

definition do_BIT :: "jsval \<Rightarrow> state \<Rightarrow> state" where
  "do_BIT m s =
     (let t = js_and (MPU_A s) m;
          s1 = (if truthy (js_and t (Num 64)) then setBit 6 s else clearBit 6 s)
      in setZN t s1)"

definition BIT_Zero_Page :: "state \<Rightarrow> state" where
  "BIT_Zero_Page s = incPC 2 (do_BIT (read (operand s) s) s)"

definition BIT_Absolute :: "state \<Rightarrow> state" where
  "BIT_Absolute s = incPC 3 (do_BIT (read (Absolute s) s) s)"

text \<open>The flag instructions.\<close>

definition CLC :: "state \<Rightarrow> state" where "CLC s = incPC 1 (clearBit 0 s)"
definition CLD :: "state \<Rightarrow> state" where "CLD s = incPC 1 (clearBit 3 s)"
definition CLI :: "state \<Rightarrow> state" where "CLI s = incPC 1 (clearBit 2 s)"
definition CLV :: "state \<Rightarrow> state" where "CLV s = incPC 1 (clearBit 6 s)"
definition SEC :: "state \<Rightarrow> state" where "SEC s = incPC 1 (setBit 0 s)"
definition SED :: "state \<Rightarrow> state" where "SED s = incPC 1 (setBit 3 s)"
definition SEI :: "state \<Rightarrow> state" where "SEI s = incPC 1 (setBit 2 s)"

text \<open>
  \<open>CPX\<close> and \<open>CPY\<close>: \<open>var t = MPU.X - m; P.setZN(t); (t >= 0) ? P.setBit(0) : P.clearBit(0);\<close>
\<close>

definition do_CPXY :: "jsval \<Rightarrow> jsval \<Rightarrow> state \<Rightarrow> state" where
  "do_CPXY r m s =
     (let t = js_sub r m;
          s1 = setZN t s
      in if js_ge t (Num 0) then setBit 0 s1 else clearBit 0 s1)"

definition CPX_Immediate :: "state \<Rightarrow> state" where
  "CPX_Immediate s = incPC 2 (do_CPXY (MPU_X s) (operand s) s)"

definition CPX_Zero_Page :: "state \<Rightarrow> state" where
  "CPX_Zero_Page s = incPC 2 (do_CPXY (MPU_X s) (read (operand s) s) s)"

definition CPX_Absolute :: "state \<Rightarrow> state" where
  "CPX_Absolute s = incPC 3 (do_CPXY (MPU_X s) (read (Absolute s) s) s)"

definition CPY_Immediate :: "state \<Rightarrow> state" where
  "CPY_Immediate s = incPC 2 (do_CPXY (MPU_Y s) (operand s) s)"

definition CPY_Zero_Page :: "state \<Rightarrow> state" where
  "CPY_Zero_Page s = incPC 2 (do_CPXY (MPU_Y s) (read (operand s) s) s)"

definition CPY_Absolute :: "state \<Rightarrow> state" where
  "CPY_Absolute s = incPC 3 (do_CPXY (MPU_Y s) (read (Absolute s) s) s)"

text \<open>\<open>DEX\<close>, \<open>DEY\<close>, \<open>INX\<close>, \<open>INY\<close>.\<close>

definition DEX :: "state \<Rightarrow> state" where
  "DEX s = (let s1 = s\<lparr>MPU_X := js_and (js_sub (MPU_X s) (Num 1)) (Num 255)\<rparr>
            in incPC 1 (setZN (MPU_X s1) s1))"

definition DEY :: "state \<Rightarrow> state" where
  "DEY s = (let s1 = s\<lparr>MPU_Y := js_and (js_sub (MPU_Y s) (Num 1)) (Num 255)\<rparr>
            in incPC 1 (setZN (MPU_Y s1) s1))"

definition INX :: "state \<Rightarrow> state" where
  "INX s = (let s1 = s\<lparr>MPU_X := js_and (js_add (MPU_X s) (Num 1)) (Num 255)\<rparr>
            in incPC 1 (setZN (MPU_X s1) s1))"

definition INY :: "state \<Rightarrow> state" where
  "INY s = (let s1 = s\<lparr>MPU_Y := js_and (js_add (MPU_Y s) (Num 1)) (Num 255)\<rparr>
            in incPC 1 (setZN (MPU_Y s1) s1))"

text \<open>\<open>JMP\<close>, \<open>JSR\<close>, \<open>RTS\<close>, \<open>RTI\<close>.\<close>

definition JMP_Absolute :: "state \<Rightarrow> state" where
  "JMP_Absolute s = s\<lparr>PC := Absolute s\<rparr>"

definition JMP_Indirect :: "state \<Rightarrow> state" where
  "JMP_Indirect s = s\<lparr>PC := readWord (Absolute s) s\<rparr>"

definition JSR :: "state \<Rightarrow> state" where
  "JSR s =
     (let s1 = push (js_and (js_sar (js_add (PC s) (Num 2)) 8) (Num 0xff)) s;
          s2 = push (js_and (js_add (PC s1) (Num 2)) (Num 0xff)) s1
      in s2\<lparr>PC := Absolute s2\<rparr>)"

definition RTS :: "state \<Rightarrow> state" where
  "RTS s =
     (let (lo, s1) = pull s;
          (hi, s2) = pull s1
      in s2\<lparr>PC := js_add (js_or lo (js_shl hi 8)) (Num 1)\<rparr>)"

definition RTI :: "state \<Rightarrow> state" where
  "RTI s =
     (let (p, s1) = pull s;
          s2 = setFlagsTo p s1;
          (lo, s3) = pull s2;
          (hi, s4) = pull s3
      in s4\<lparr>PC := js_or lo (js_shl hi 8)\<rparr>)"

text \<open>\<open>LDX\<close> and \<open>LDY\<close>: \<open>MPU.X = m; P.setZN(MPU.X);\<close>\<close>

definition do_LDX :: "jsval \<Rightarrow> state \<Rightarrow> state" where
  "do_LDX m s = (let s1 = s\<lparr>MPU_X := m\<rparr> in setZN (MPU_X s1) s1)"

definition do_LDY :: "jsval \<Rightarrow> state \<Rightarrow> state" where
  "do_LDY m s = (let s1 = s\<lparr>MPU_Y := m\<rparr> in setZN (MPU_Y s1) s1)"

definition LDX_Immediate :: "state \<Rightarrow> state" where
  "LDX_Immediate s = incPC 2 (do_LDX (operand s) s)"

definition LDX_Zero_Page :: "state \<Rightarrow> state" where
  "LDX_Zero_Page s = incPC 2 (do_LDX (read (operand s) s) s)"

definition LDX_Zero_Page_Y :: "state \<Rightarrow> state" where
  "LDX_Zero_Page_Y s = incPC 2 (do_LDX (read (ZeroPageY s) s) s)"

definition LDX_Absolute :: "state \<Rightarrow> state" where
  "LDX_Absolute s = incPC 3 (do_LDX (read (Absolute s) s) s)"

definition LDX_Absolute_Y :: "state \<Rightarrow> state" where
  "LDX_Absolute_Y s = incPC 3 (do_LDX (read (AbsoluteY s) s) s)"

definition LDY_Immediate :: "state \<Rightarrow> state" where
  "LDY_Immediate s = incPC 2 (do_LDY (operand s) s)"

definition LDY_Zero_Page :: "state \<Rightarrow> state" where
  "LDY_Zero_Page s = incPC 2 (do_LDY (read (operand s) s) s)"

definition LDY_Zero_Page_X :: "state \<Rightarrow> state" where
  "LDY_Zero_Page_X s = incPC 2 (do_LDY (read (ZeroPageX s) s) s)"

definition LDY_Absolute :: "state \<Rightarrow> state" where
  "LDY_Absolute s = incPC 3 (do_LDY (read (Absolute s) s) s)"

definition LDY_Absolute_X :: "state \<Rightarrow> state" where
  "LDY_Absolute_X s = incPC 3 (do_LDY (read (AbsoluteX s) s) s)"

text \<open>\<open>NOP\<close> and the stack instructions.\<close>

definition NOP :: "state \<Rightarrow> state" where "NOP s = incPC 1 s"

definition PHA :: "state \<Rightarrow> state" where "PHA s = incPC 1 (push (MPU_A s) s)"

definition PHP :: "state \<Rightarrow> state" where "PHP s = incPC 1 (push (getFlags s) s)"

definition PLA :: "state \<Rightarrow> state" where
  "PLA s =
     (let (v, s1) = pull s;
          s2 = s1\<lparr>MPU_A := v\<rparr>
      in incPC 1 (setZN (MPU_A s2) s2))"

definition PLP :: "state \<Rightarrow> state" where
  "PLP s = (let (v, s1) = pull s in incPC 1 (setFlagsTo v s1))"

text \<open>The transfers.\<close>

definition TAX :: "state \<Rightarrow> state" where
  "TAX s = (let s1 = s\<lparr>MPU_X := MPU_A s\<rparr> in incPC 1 (setZN (MPU_X s1) s1))"

definition TAY :: "state \<Rightarrow> state" where
  "TAY s = (let s1 = s\<lparr>MPU_Y := MPU_A s\<rparr> in incPC 1 (setZN (MPU_Y s1) s1))"

definition TSX :: "state \<Rightarrow> state" where
  "TSX s = (let s1 = s\<lparr>MPU_X := SP s\<rparr> in incPC 1 (setZN (MPU_X s1) s1))"

definition TXA :: "state \<Rightarrow> state" where
  "TXA s = (let s1 = s\<lparr>MPU_A := MPU_X s\<rparr> in incPC 1 (setZN (MPU_A s1) s1))"

definition TXS :: "state \<Rightarrow> state" where
  "TXS s = incPC 1 (s\<lparr>SP := MPU_X s\<rparr>)"

definition TYA :: "state \<Rightarrow> state" where
  "TYA s = (let s1 = s\<lparr>MPU_A := MPU_Y s\<rparr> in incPC 1 (setZN (MPU_A s1) s1))"

text \<open>
  The custom opcodes.  \<open>HLT\<close> and \<open>WAI\<close> return \<open>false\<close>.  \<open>IN\<close> asks the host for a
  line when the input buffer is empty; the reply (\<open>null\<close> or a string, given as its
  character codes) is the next of \<open>replies\<close>.
\<close>

definition HLT :: "state \<Rightarrow> state" where
  "HLT s = s\<lparr>instructionTimer := TimerNull, programExecuting := False,
             io := io s @ [Status ProgramHalted]\<rparr>"

definition WAI :: "state \<Rightarrow> state" where
  "WAI s = s\<lparr>instructionTimer := TimerFalse\<rparr>"

definition OUT :: "state \<Rightarrow> state" where
  "OUT s =
     incPC 1 (if MPU_A s = Num 13 then s\<lparr>io := io s @ [OutputBr]\<rparr>
              else s\<lparr>io := io s @ [OutputChar (MPU_A s)]\<rparr>)"

definition OUY :: "state \<Rightarrow> state" where
  "OUY s =
     incPC 1 (if js_or (js_shl (MPU_A s) 8) (MPU_Y s) = Num 13
              then s\<lparr>io := io s @ [OutputBr]\<rparr>
              else s\<lparr>io := io s @ [OutputChar (js_or (js_shl (MPU_A s) 8) (MPU_Y s))]\<rparr>)"

definition IN :: "state \<Rightarrow> state" where
  "IN s =
     (let s1 = (if length (input s) < 1
                then s\<lparr>input := (case replies s (prompt_calls s) of None \<Rightarrow> [] | Some p \<Rightarrow> p)
                                 @ [0],
                       prompt_calls := Suc (prompt_calls s)\<rparr>
                else s);
          s2 = (case input s1 of
                  [] \<Rightarrow> s1\<lparr>MPU_A := NaN\<rparr>
                | c # cs \<Rightarrow> s1\<lparr>MPU_A := Num c, input := cs\<rparr>)
      in incPC 1 (setZN (MPU_A s2) s2))"

section \<open>The interpreter: \<open>executeInstruction\<close>, \<open>doInstruction\<close>, \<open>brkInterrupt\<close>\<close>

datatype error = TypeError

text \<open>
  The cases of the switch other than \<open>case 0x00\<close>, in the order of the source.  The
  Boolean is what \<open>executeInstruction\<close> returns after the arm: \<open>true\<close> when the arm ends
  in \<open>break\<close>, \<open>false\<close> when it ends in \<open>return false\<close>.
\<close>

definition arms :: "(int \<times> (state \<Rightarrow> bool \<times> state)) list" where
  "arms =
     [(0x69, \<lambda>s. (True, ADC_Immediate s)),
      (0x65, \<lambda>s. (True, ADC_Zero_Page s)),
      (0x75, \<lambda>s. (True, ADC_Zero_Page_X s)),
      (0x6d, \<lambda>s. (True, ADC_Absolute s)),
      (0x7d, \<lambda>s. (True, ADC_Absolute_X s)),
      (0x79, \<lambda>s. (True, ADC_Absolute_Y s)),
      (0x61, \<lambda>s. (True, ADC_Indirect_X s)),
      (0x71, \<lambda>s. (True, ADC_Indirect_Y s)),
      (0x29, \<lambda>s. (True, AND_Immediate s)),
      (0x25, \<lambda>s. (True, AND_Zero_Page s)),
      (0x35, \<lambda>s. (True, AND_Zero_Page_X s)),
      (0x2d, \<lambda>s. (True, AND_Absolute s)),
      (0x3d, \<lambda>s. (True, AND_Absolute_X s)),
      (0x39, \<lambda>s. (True, AND_Absolute_Y s)),
      (0x21, \<lambda>s. (True, AND_Indirect_X s)),
      (0x31, \<lambda>s. (True, AND_Indirect_Y s)),
      (0x0a, \<lambda>s. (True, ASL_Accumulator s)),
      (0x06, \<lambda>s. (True, ASL_Zero_Page s)),
      (0x16, \<lambda>s. (True, ASL_Zero_Page_X s)),
      (0x0e, \<lambda>s. (True, ASL_Absolute s)),
      (0x1e, \<lambda>s. (True, ASL_Absolute_X s)), (0x90, \<lambda>s. (True, BCC s)),
      (0xb0, \<lambda>s. (True, BCS s)), (0xf0, \<lambda>s. (True, BEQ s)),
      (0x24, \<lambda>s. (True, BIT_Zero_Page s)),
      (0x2c, \<lambda>s. (True, BIT_Absolute s)), (0x30, \<lambda>s. (True, BMI s)),
      (0xd0, \<lambda>s. (True, BNE s)), (0x10, \<lambda>s. (True, BPL s)),
      (0x50, \<lambda>s. (True, BVC s)), (0x70, \<lambda>s. (True, BVS s)),
      (0x18, \<lambda>s. (True, CLC s)), (0xd8, \<lambda>s. (True, CLD s)),
      (0x58, \<lambda>s. (True, CLI s)), (0xb8, \<lambda>s. (True, CLV s)),
      (0xc9, \<lambda>s. (True, CMP_Immediate s)),
      (0xc5, \<lambda>s. (True, CMP_Zero_Page s)),
      (0xd5, \<lambda>s. (True, CMP_Zero_Page_X s)),
      (0xcd, \<lambda>s. (True, CMP_Absolute s)),
      (0xdd, \<lambda>s. (True, CMP_Absolute_X s)),
      (0xd9, \<lambda>s. (True, CMP_Absolute_Y s)),
      (0xc1, \<lambda>s. (True, CMP_Indirect_X s)),
      (0xd1, \<lambda>s. (True, CMP_Indirect_Y s)),
      (0xe0, \<lambda>s. (True, CPX_Immediate s)),
      (0xe4, \<lambda>s. (True, CPX_Zero_Page s)),
      (0xec, \<lambda>s. (True, CPX_Absolute s)),
      (0xc0, \<lambda>s. (True, CPY_Immediate s)),
      (0xc4, \<lambda>s. (True, CPY_Zero_Page s)),
      (0xcc, \<lambda>s. (True, CPY_Absolute s)),
      (0xc6, \<lambda>s. (True, DEC_Zero_Page s)),
      (0xd6, \<lambda>s. (True, DEC_Zero_Page_X s)),
      (0xce, \<lambda>s. (True, DEC_Absolute s)),
      (0xde, \<lambda>s. (True, DEC_Absolute_X s)), (0xca, \<lambda>s. (True, DEX s)),
      (0x88, \<lambda>s. (True, DEY s)), (0x49, \<lambda>s. (True, EOR_Immediate s)),
      (0x45, \<lambda>s. (True, EOR_Zero_Page s)),
      (0x55, \<lambda>s. (True, EOR_Zero_Page_X s)),
      (0x4d, \<lambda>s. (True, EOR_Absolute s)),
      (0x5d, \<lambda>s. (True, EOR_Absolute_X s)),
      (0x59, \<lambda>s. (True, EOR_Absolute_Y s)),
      (0x41, \<lambda>s. (True, EOR_Indirect_X s)),
      (0x51, \<lambda>s. (True, EOR_Indirect_Y s)),
      (0xe6, \<lambda>s. (True, INC_Zero_Page s)),
      (0xf6, \<lambda>s. (True, INC_Zero_Page_X s)),
      (0xee, \<lambda>s. (True, INC_Absolute s)),
      (0xfe, \<lambda>s. (True, INC_Absolute_X s)), (0xe8, \<lambda>s. (True, INX s)),
      (0xc8, \<lambda>s. (True, INY s)), (0x4c, \<lambda>s. (True, JMP_Absolute s)),
      (0x6c, \<lambda>s. (True, JMP_Indirect s)), (0x20, \<lambda>s. (True, JSR s)),
      (0xa9, \<lambda>s. (True, LDA_Immediate s)),
      (0xa5, \<lambda>s. (True, LDA_Zero_Page s)),
      (0xb5, \<lambda>s. (True, LDA_Zero_Page_X s)),
      (0xad, \<lambda>s. (True, LDA_Absolute s)),
      (0xbd, \<lambda>s. (True, LDA_Absolute_X s)),
      (0xb9, \<lambda>s. (True, LDA_Absolute_Y s)),
      (0xa1, \<lambda>s. (True, LDA_Indirect_X s)),
      (0xb1, \<lambda>s. (True, LDA_Indirect_Y s)),
      (0xa2, \<lambda>s. (True, LDX_Immediate s)),
      (0xa6, \<lambda>s. (True, LDX_Zero_Page s)),
      (0xb6, \<lambda>s. (True, LDX_Zero_Page_Y s)),
      (0xae, \<lambda>s. (True, LDX_Absolute s)),
      (0xbe, \<lambda>s. (True, LDX_Absolute_Y s)),
      (0xa0, \<lambda>s. (True, LDY_Immediate s)),
      (0xa4, \<lambda>s. (True, LDY_Zero_Page s)),
      (0xb4, \<lambda>s. (True, LDY_Zero_Page_X s)),
      (0xac, \<lambda>s. (True, LDY_Absolute s)),
      (0xbc, \<lambda>s. (True, LDY_Absolute_X s)), (0xea, \<lambda>s. (True, NOP s)),
      (0x09, \<lambda>s. (True, ORA_Immediate s)),
      (0x05, \<lambda>s. (True, ORA_Zero_Page s)),
      (0x15, \<lambda>s. (True, ORA_Zero_Page_X s)),
      (0x0d, \<lambda>s. (True, ORA_Absolute s)),
      (0x1d, \<lambda>s. (True, ORA_Absolute_X s)),
      (0x19, \<lambda>s. (True, ORA_Absolute_Y s)),
      (0x01, \<lambda>s. (True, ORA_Indirect_X s)),
      (0x11, \<lambda>s. (True, ORA_Indirect_Y s)), (0x48, \<lambda>s. (True, PHA s)),
      (0x08, \<lambda>s. (True, PHP s)), (0x68, \<lambda>s. (True, PLA s)),
      (0x28, \<lambda>s. (True, PLP s)), (0x4a, \<lambda>s. (True, LSR_Accumulator s)),
      (0x46, \<lambda>s. (True, LSR_Zero_Page s)),
      (0x56, \<lambda>s. (True, LSR_Zero_Page_X s)),
      (0x4e, \<lambda>s. (True, LSR_Absolute s)),
      (0x5e, \<lambda>s. (True, LSR_Absolute_X s)),
      (0x2a, \<lambda>s. (True, ROL_Accumulator s)),
      (0x26, \<lambda>s. (True, ROL_Zero_Page s)),
      (0x36, \<lambda>s. (True, ROL_Zero_Page_X s)),
      (0x2e, \<lambda>s. (True, ROL_Absolute s)),
      (0x3e, \<lambda>s. (True, ROL_Absolute_X s)), (0x6a, \<lambda>s. (True, RORA s)),
      (0x66, \<lambda>s. (True, ROR_Zero_Page s)),
      (0x76, \<lambda>s. (True, ROR_Zero_Page_X s)),
      (0x6e, \<lambda>s. (True, ROR_Absolute s)),
      (0x7e, \<lambda>s. (True, ROR_Absolute_X s)), (0x40, \<lambda>s. (True, RTI s)),
      (0x60, \<lambda>s. (True, RTS s)), (0xe9, \<lambda>s. (True, SBC_Immediate s)),
      (0xe5, \<lambda>s. (True, SBC_Zero_Page s)),
      (0xf5, \<lambda>s. (True, SBC_Zero_Page_X s)),
      (0xed, \<lambda>s. (True, SBC_Absolute s)),
      (0xfd, \<lambda>s. (True, SBC_Absolute_X s)),
      (0xf9, \<lambda>s. (True, SBC_Absolute_Y s)),
      (0xe1, \<lambda>s. (True, SBC_Indirect_X s)),
      (0xf1, \<lambda>s. (True, SBC_Indirect_Y s)), (0x38, \<lambda>s. (True, SEC s)),
      (0xf8, \<lambda>s. (True, SED s)), (0x78, \<lambda>s. (True, SEI s)),
      (0x85, \<lambda>s. (True, STA_Zero_Page s)),
      (0x95, \<lambda>s. (True, STA_Zero_Page_X s)),
      (0x8d, \<lambda>s. (True, STA_Absolute s)),
      (0x9d, \<lambda>s. (True, STA_Absolute_X s)),
      (0x99, \<lambda>s. (True, STA_Absolute_Y s)),
      (0x81, \<lambda>s. (True, STA_Indirect_X s)),
      (0x91, \<lambda>s. (True, STA_Indirect_Y s)),
      (0x86, \<lambda>s. (True, STX_Zero_Page s)),
      (0x96, \<lambda>s. (True, STX_Zero_Page_Y s)),
      (0x8e, \<lambda>s. (True, STX_Absolute s)),
      (0x84, \<lambda>s. (True, STY_Zero_Page s)),
      (0x94, \<lambda>s. (True, STY_Zero_Page_X s)),
      (0x8c, \<lambda>s. (True, STY_Absolute s)), (0xaa, \<lambda>s. (True, TAX s)),
      (0xa8, \<lambda>s. (True, TAY s)), (0xba, \<lambda>s. (True, TSX s)),
      (0x8a, \<lambda>s. (True, TXA s)), (0x9a, \<lambda>s. (True, TXS s)),
      (0x98, \<lambda>s. (True, TYA s)), (0x02, \<lambda>s. (False, HLT s)),
      (0xf2, \<lambda>s. (True, OUT s)), (0xfa, \<lambda>s. (True, OUY s)),
      (0xf3, \<lambda>s. (True, IN s)), (0xf7, \<lambda>s. (False, WAI s))]"

text \<open>
  \<open>default:\<close> a byte that is not \<open>undefined\<close> stops the program with an error message;
  an \<open>undefined\<close> cell just breaks out of the switch.
\<close>

definition default_arm :: "state \<Rightarrow> bool \<times> state" where
  "default_arm s =
     (if read (PC s) s \<noteq> Undefined
      then (False, s\<lparr>instructionTimer := TimerNull, programExecuting := False,
                     io := io s @ [StatusError (InvalidInstruction (PC s) (read (PC s) s))]\<rparr>)
      else (True, s))"

definition dispatch :: "jsval \<Rightarrow> state \<Rightarrow> bool \<times> state" where
  "dispatch opcode s =
     (case opcode of
        Num n \<Rightarrow> (case map_of arms n of Some arm \<Rightarrow> arm s | None \<Rightarrow> default_arm s)
      | _ \<Rightarrow> default_arm s)"

text \<open>
  The three pushes and the load of \<open>PC\<close> from \<open>$FFFE/$FFFF\<close> that both branches of
  \<open>brkInterrupt\<close> perform.  \<open>stack.push\<close> calls \<open>memory.writeByte\<close>: when the global
  \<open>memory\<close> no longer holds the memory object that call throws a \<open>TypeError\<close>, before
  anything is written.
\<close>

definition brk_pushes :: "state \<Rightarrow> error + state" where
  "brk_pushes s =
     (case memory s of
        MemoryPrimitive _ \<Rightarrow> Inl TypeError
      | MemoryObject \<Rightarrow>
          (let s1 = push (js_and (js_shr (PC s) 8) (Num 255)) s;
               s2 = push (js_and (PC s1) (Num 255)) s1;
               s3 = push (js_or (getFlags s2) (Num 16)) s2
           in Inr (s3\<lparr>PC := js_or (read (Num 65534) s3) (js_shl (read (Num 65535) s3) 8)\<rparr>)))"

text \<open>
  \<open>debug.updateDebug()\<close> only writes to the page, but it starts with
  \<open>P.getFlags().toString(2)\<close>, which throws when \<open>flags\<close> is \<open>undefined\<close>.
\<close>

definition updateDebug :: "state \<Rightarrow> error + state" where
  "updateDebug s = (if flags s = Undefined then Inl TypeError else Inr s)"

text \<open>
  \<open>memory.writeByte(Math.floor(Math.random() * 255),0xfe)\<close>, the statement of
  \<open>executeInstruction\<close> that precedes the switch.
\<close>

definition refresh_random :: "state \<Rightarrow> state" where
  "refresh_random s =
     writeByte (Num (randoms s (random_calls s))) (Num 0xfe)
       (s\<lparr>random_calls := Suc (random_calls s)\<rparr>)"

text \<open>The value \<open>memory.read(memory.PC)\<close> that the switch then examines.\<close>

definition opcode :: "state \<Rightarrow> jsval" where
  "opcode s = read (PC (refresh_random s)) (refresh_random s)"

text \<open>
  \<open>executeInstruction()\<close> returns \<open>true\<close> or \<open>false\<close>, or throws.  Its first statement
  that calls a method of \<open>memory\<close> throws when \<open>memory\<close> is a number.  The byte written
  to \<open>$FE\<close> is \<open>Math.floor(Math.random() * 255)\<close>.

  \<open>doInstruction(n)\<close> takes its number of rounds \<open>t\<close> from \<open>n\<close>, or from the page when \<open>n\<close> is
  missing or 0, and 97 when that is not a number; \<open>iterations\<close> is the number of times the
  test \<open>i < t\<close> of its loop can succeed.  \<open>instruction_loop\<close> is that loop, with the rounds
  that remain, followed by \<open>debug.updateDebug()\<close>.

  \<open>brkInterrupt()\<close> clears the timer; in debug mode it does the pushes at once and goes
  on with \<open>doInstruction(1)\<close>, otherwise it leaves them to a \<open>setTimeout\<close> callback.
\<close>

definition iterations :: "jsval \<Rightarrow> state \<Rightarrow> nat" where
  "iterations n s =
     (let t = (if truthy n then n else executionIterations s);
          t = (if isNaN t then Num 97 else t)
      in case t of Num k \<Rightarrow> nat k | _ \<Rightarrow> 0)"

function executeInstruction :: "state \<Rightarrow> error + bool \<times> state"
  and instruction_loop :: "nat \<Rightarrow> state \<Rightarrow> error + state"
  and doInstruction :: "jsval \<Rightarrow> state \<Rightarrow> error + state"
  and brkInterrupt :: "state \<Rightarrow> error + state"
where
  "executeInstruction s =
     (case memory s of
        MemoryPrimitive _ \<Rightarrow> Inl TypeError
      | MemoryObject \<Rightarrow>
          if js_ge (PC s) (Num (mem_length s)) then Inr (False, s)
          else
            (let s1 = refresh_random s
             in if read (PC s1) s1 = Num 0x00
                then (case brkInterrupt (s1\<lparr>memory := MemoryPrimitive (js_add (PC s1) (Num 2))\<rparr>) of
                        Inl err \<Rightarrow> Inl err
                      | Inr s2 \<Rightarrow> Inr (False, s2))
                else Inr (dispatch (read (PC s1) s1) s1)))"
| "instruction_loop 0 s = updateDebug s"
| "instruction_loop (Suc t) s =
     (case executeInstruction s of
        Inl err \<Rightarrow> Inl err
      | Inr (continue, s1) \<Rightarrow> if continue then instruction_loop t s1 else updateDebug s1)"
| "doInstruction n s = instruction_loop (iterations n s) s"
| "brkInterrupt s =
     (let s0 = s\<lparr>instructionTimer := TimerNull\<rparr>
      in if debugOn s0
         then (case brk_pushes s0 of
                 Inl err \<Rightarrow> Inl err
               | Inr s1 \<Rightarrow> doInstruction (Num 1) s1)
         else Inr (s0\<lparr>timeouts := Suc (timeouts s0)\<rparr>))"
  by pat_completeness auto
termination
  by (relation "measure (\<lambda>x. case x of
                   Inl (Inl s) \<Rightarrow> 1
                 | Inl (Inr (t, s)) \<Rightarrow> t + 2
                 | Inr (Inl (n, s)) \<Rightarrow> iterations n s + 3
                 | Inr (Inr s) \<Rightarrow> (case memory s of MemoryObject \<Rightarrow> 5 | MemoryPrimitive _ \<Rightarrow> 0))")
     (auto simp add: brk_pushes_def iterations_def split: memory_binding.splits)

declare executeInstruction.simps [simp del]
declare doInstruction.simps [simp del]
declare brkInterrupt.simps [simp del]

text \<open>
  The callback that \<open>brkInterrupt\<close> hands to \<open>setTimeout\<close> outside debug mode: the same
  pushes and load of \<open>PC\<close>, then \<open>instructionTimer = setInterval(doInstruction, interval)\<close>.
\<close>

definition brkInterrupt_timeout :: "state \<Rightarrow> error + state" where
  "brkInterrupt_timeout s =
     (case brk_pushes s of
        Inl err \<Rightarrow> Inl err
      | Inr s1 \<Rightarrow> Inr (s1\<lparr>instructionTimer := TimerInterval, timeouts := timeouts s1 - 1\<rparr>))"

section \<open>The input handlers\<close>

text \<open>A call \<open>memory.writeByte(v, addr)\<close> from outside the memory object.\<close>

definition memory_writeByte :: "jsval \<Rightarrow> jsval \<Rightarrow> state \<Rightarrow> error + state" where
  "memory_writeByte v addr s =
     (case memory s of
        MemoryPrimitive _ \<Rightarrow> Inl TypeError
      | MemoryObject \<Rightarrow> Inr (writeByte v addr s))"

text \<open>\<open>window.onmousedown\<close>, with \<open>event.buttons\<close> as its argument.\<close>

definition onmousedown :: "int \<Rightarrow> state \<Rightarrow> error + state" where
  "onmousedown buttons s =
     (if \<not> programExecuting s then Inr s
      else if mousemaskableinterrupt s then
        (if \<not> P_I s then
           (case memory_writeByte (Num buttons) (Num 0x6f0)
                   (s\<lparr>io := io s @ [Status MaskableMouseDown]\<rparr>) of
              Inl err \<Rightarrow> Inl err
            | Inr s1 \<Rightarrow> brkInterrupt s1)
         else Inr s)
      else
        (case (if truthy (js_and (Num buttons) (Num 1))
               then memory_writeByte (Num 1) (Num 1776) s else Inr s) of
           Inl err \<Rightarrow> Inl err
         | Inr s1 \<Rightarrow>
             (case (if truthy (js_and (Num buttons) (Num 2))
                    then memory_writeByte (Num 1) (Num 1777) s1 else Inr s1) of
                Inl err \<Rightarrow> Inl err
              | Inr s2 \<Rightarrow>
                  (if truthy (js_and (Num buttons) (Num 4))
                   then memory_writeByte (Num 1) (Num 1778) s2 else Inr s2))))"

text \<open>
  \<open>window.onkeydown\<close>, with \<open>event.keyCode\<close> and \<open>event.shiftKey\<close> as its arguments.  The
  two runs of \<open>if (event.keyCode == k) return memory.writeByte(c, 1764)\<close> are tables.
\<close>

definition shifted_keys :: "(int \<times> int) list" where
  "shifted_keys =
     [(48, 41), (49, 33), (50, 64), (51, 35), (52, 36), (53, 37), (54, 94), (55, 38),
      (56, 42), (57, 40), (186, 58), (219, 123), (220, 124), (221, 125), (222, 34),
      (189, 95), (187, 43), (188, 60), (190, 62), (191, 63), (192, 126)]"

definition plain_keys :: "(int \<times> int) list" where
  "plain_keys =
     [(186, 59), (219, 91), (220, 92), (221, 93), (222, 39), (189, 45), (187, 61),
      (188, 44), (190, 46), (191, 47), (192, 96)]"

definition onkeydown :: "int \<Rightarrow> bool \<Rightarrow> state \<Rightarrow> error + state" where
  "onkeydown keyCode shiftKey s =
     (if keyCode = 27 then
        (if programExecuting s
         then Inr (s\<lparr>io := io s @ [Status StoppedExecution], instructionTimer := TimerNull,
                     programExecuting := False\<rparr>)
         else Inr s)
      else if \<not> programExecuting s then Inr s
      else if keymaskableinterrupt s then
        (if \<not> P_I s then
           (case memory_writeByte (Num keyCode) (Num 0x6e0)
                   (s\<lparr>io := io s @ [Status MaskableKeyDown]\<rparr>) of
              Inl err \<Rightarrow> Inl err
            | Inr s1 \<Rightarrow> brkInterrupt s1)
         else Inr s)
      else if keyCode = 37 then memory_writeByte (Num 1) (Num 1760) s
      else if keyCode = 38 then memory_writeByte (Num 1) (Num 1761) s
      else if keyCode = 39 then memory_writeByte (Num 1) (Num 1762) s
      else if keyCode = 40 then memory_writeByte (Num 1) (Num 1763) s
      else if shiftKey \<and> map_of shifted_keys keyCode \<noteq> None
      then memory_writeByte (Num (the (map_of shifted_keys keyCode))) (Num 1764) s
      else if map_of plain_keys keyCode \<noteq> None
      then memory_writeByte (Num (the (map_of plain_keys keyCode))) (Num 1764) s
      else if keyCode \<ge> 65 \<and> keyCode \<le> 90 \<and> \<not> shiftKey
      then memory_writeByte (Num (keyCode + 32)) (Num 1764) s
      else if (keyCode \<ge> 65 \<and> keyCode \<le> 90) \<or> keyCode = 32 \<or> keyCode = 9
              \<or> (keyCode \<ge> 48 \<and> keyCode \<le> 57)
      then memory_writeByte (Num keyCode) (Num 1764) s
      else if keyCode = 13 then memory_writeByte (Num 1) (Num 1765) s
      else Inr s)"

section \<open>Power-on state and the reset block of \<open>execute\<close>\<close>

text \<open>
  \<open>page_load\<close>: the globals as the script creates them when the page is loaded.  The
  object \<open>new PObj()\<close> has no property \<open>flags\<close> yet: the 36 of \<open>var flags = 36\<close> sits in a
  variable that no method reads, and \<open>this.flags\<close> is \<open>undefined\<close> until \<open>reset\<close> or
  \<open>setFlagsTo\<close> assigns it.  The page is taken with no random numbers other than 0, no
  answers to \<open>prompt\<close> and an empty field \<open>executionIterations\<close>.

  \<open>power_on\<close>: that state once \<open>P.reset()\<close> has run, as it does in \<open>execute()\<close> before the
  first instruction.
\<close>

definition page_load :: state where
  "page_load =
     \<lparr>MPU_A = Num 0, MPU_X = Num 0, MPU_Y = Num 0, SP = Num 0xff, flags = Undefined,
      mem = (\<lambda>_. Undefined), mem_length = 65536, PC = Num 0x0800,
      memory = MemoryObject, debugOn = False, programExecuting = False,
      instructionTimer = TimerNull, timeouts = 0,
      keymaskableinterrupt = False, mousemaskableinterrupt = False,
      input = [], io = [ClearScreen],
      randoms = (\<lambda>_. 0), random_calls = 0, replies = (\<lambda>_. None), prompt_calls = 0,
      executionIterations = NaN\<rparr>"

definition power_on :: state where
  "power_on = P_reset page_load"

text \<open>
  The block of \<open>execute()\<close> that runs when \<open>programExecuting == false\<close>, right after
  \<open>assembleProgram()\<close> has returned \<open>true\<close> (so \<open>memory\<close> is the memory object): clear
  the screen, the output box and the input buffer, zero the keyboard and mouse cells,
  reset \<open>stack\<close>, \<open>P\<close> and \<open>MPU\<close>, and load \<open>PC\<close> from the reset vector when the word
  read there is greater than 0.
\<close>

definition execute_reset :: "state \<Rightarrow> state" where
  "execute_reset s =
     (let s = s\<lparr>instructionTimer := TimerNull, io := io s @ [ClearScreen, ClearOutput],
                input := []\<rparr>;
          s = writeByte (Num 0) (Num 0x6e0) s;
          s = writeByte (Num 0) (Num 0x6e1) s;
          s = writeByte (Num 0) (Num 0x6e2) s;
          s = writeByte (Num 0) (Num 0x6e3) s;
          s = writeByte (Num 0) (Num 0x6e4) s;
          s = writeByte (Num 0) (Num 0x6e5) s;
          s = writeByte (Num 0) (Num 0x6f0) s;
          s = writeByte (Num 0) (Num 0x6f1) s;
          s = writeByte (Num 0) (Num 0x6f2) s;
          s = stack_reset s;
          s = P_reset s;
          s = MPU_reset s;
          resetHandler = readWord (Num 0xfffc) s;
          s = (if js_gt resetHandler (Num 0) then s\<lparr>PC := resetHandler\<rparr>
               else s\<lparr>PC := Num 0x0800\<rparr>)
      in s\<lparr>io := io s @ [Status (StartingAt (PC s))]\<rparr>)"

section \<open>Memory images used as concrete inputs\<close>

text \<open>
  Each is the power-on state with a few bytes of machine code at \<open>$0800\<close>, where \<open>PC\<close>
  starts.  \<open>jsr_demo\<close>: \<open>JSR $0803\<close> followed by \<open>RTS\<close>.  \<open>sbc_demo\<close>: \<open>SBC $2000\<close>.
  \<open>brk_demo\<close>: \<open>CLI\<close>, \<open>BRK\<close>, with the vector \<open>$9000\<close> at \<open>$FFFE/$FFFF\<close>.
\<close>

definition jsr_demo :: state where
  "jsr_demo = power_on\<lparr>mem := (mem power_on)
      (Num 0x800 := Num 0x20, Num 0x801 := Num 0x03, Num 0x802 := Num 0x08, Num 0x803 := Num 0x60)\<rparr>"

definition sbc_demo :: state where
  "sbc_demo = power_on\<lparr>mem := (mem power_on)
      (Num 0x800 := Num 0xed, Num 0x801 := Num 0x00, Num 0x802 := Num 0x20)\<rparr>"

definition brk_demo :: state where
  "brk_demo = power_on\<lparr>mem := (mem power_on)
      (Num 0x800 := Num 0x58, Num 0x801 := Num 0x00,
       Num 0xfffe := Num 0x00, Num 0xffff := Num 0x90)\<rparr>"

text \<open>
  Bit 4 (the B bit) of a byte that has been stored as the saved P, tested the way the
  getter \<open>P.B\<close> tests it on \<open>flags\<close>.
\<close>

definition B_bit_of :: "jsval \<Rightarrow> bool" where
  "B_bit_of v = js_gt (js_and v (Num 16)) (Num 0)"

text \<open>
  \<open>php_demo\<close>: \<open>PHP\<close> at \<open>$0800\<close>, from power-on.  \<open>irq_demo\<close>: a running program with I
  clear and both maskable-interrupt checkboxes ticked.
\<close>

definition php_demo :: state where
  "php_demo = power_on\<lparr>mem := (mem power_on)(Num 0x800 := Num 0x08)\<rparr>"

definition irq_demo :: state where
  "irq_demo = power_on\<lparr>flags := Num 32, programExecuting := True,
                       keymaskableinterrupt := True, mousemaskableinterrupt := True\<rparr>"

text \<open>
  A valid packed-BCD byte: both nibbles are decimal digits.  Its decimal value is what
  the source's \<open>bcd\<close> computes.
\<close>

definition valid_bcd :: "int \<Rightarrow> bool" where
  "valid_bcd x \<longleftrightarrow> 0 \<le> x \<and> x < 256 \<and> x mod 16 \<le> 9 \<and> x div 16 \<le> 9"

text \<open>
  For each of the eight \<open>ADC\<close> opcodes, the operand \<open>b\<close> that its arm fetches in the
  state \<open>r\<close> it runs in.
\<close>

definition ADC_operands :: "state \<Rightarrow> (jsval \<times> jsval) set" where
  "ADC_operands r =
     {(Num 0x69, operand r),
      (Num 0x65, read (operand r) r),
      (Num 0x75, read (ZeroPageX r) r),
      (Num 0x6d, read (Absolute r) r),
      (Num 0x7d, read (AbsoluteX r) r),
      (Num 0x79, read (AbsoluteY r) r),
      (Num 0x61, read (readWord (ZeroPageX r) r) r),
      (Num 0x71, read (js_and (js_add (readWord (operand r) r) (MPU_Y r)) (Num 65535)) r)}"

text \<open>\<open>adc_demo\<close>: \<open>ADC #$01\<close> at \<open>$0800\<close> with \<open>A = $99\<close>, D set and C clear.\<close>

definition adc_demo :: state where
  "adc_demo = power_on\<lparr>MPU_A := Num 0x99, flags := Num 0x2c,
     mem := (mem power_on)(Num 0x800 := Num 0x69, Num 0x801 := Num 0x01)\<rparr>"

section \<open>Inputs and tables for the Z flag\<close>

text \<open>
  The arms that set Z from the register they have just written, with \<open>P.setZN(r)\<close> or,
  for \<open>LSR A\<close>, with the test \<open>MPU.A == 0\<close>: opcode, arm, register.
\<close>

definition Z_register_ops :: "(int \<times> (state \<Rightarrow> state) \<times> (state \<Rightarrow> jsval)) list" where
  "Z_register_ops =
     [(0x29, AND_Immediate, MPU_A),
      (0x25, AND_Zero_Page, MPU_A),
      (0x35, AND_Zero_Page_X, MPU_A),
      (0x2d, AND_Absolute, MPU_A),
      (0x3d, AND_Absolute_X, MPU_A),
      (0x39, AND_Absolute_Y, MPU_A),
      (0x21, AND_Indirect_X, MPU_A),
      (0x31, AND_Indirect_Y, MPU_A),
      (0x0a, ASL_Accumulator, MPU_A),
      (0xca, DEX, MPU_X),
      (0x88, DEY, MPU_Y),
      (0x49, EOR_Immediate, MPU_A),
      (0x45, EOR_Zero_Page, MPU_A),
      (0x55, EOR_Zero_Page_X, MPU_A),
      (0x4d, EOR_Absolute, MPU_A),
      (0x5d, EOR_Absolute_X, MPU_A),
      (0x59, EOR_Absolute_Y, MPU_A),
      (0x41, EOR_Indirect_X, MPU_A),
      (0x51, EOR_Indirect_Y, MPU_A),
      (0xe8, INX, MPU_X),
      (0xc8, INY, MPU_Y),
      (0xa9, LDA_Immediate, MPU_A),
      (0xa5, LDA_Zero_Page, MPU_A),
      (0xb5, LDA_Zero_Page_X, MPU_A),
      (0xad, LDA_Absolute, MPU_A),
      (0xbd, LDA_Absolute_X, MPU_A),
      (0xb9, LDA_Absolute_Y, MPU_A),
      (0xa1, LDA_Indirect_X, MPU_A),
      (0xb1, LDA_Indirect_Y, MPU_A),
      (0xa2, LDX_Immediate, MPU_X),
      (0xa6, LDX_Zero_Page, MPU_X),
      (0xb6, LDX_Zero_Page_Y, MPU_X),
      (0xae, LDX_Absolute, MPU_X),
      (0xbe, LDX_Absolute_Y, MPU_X),
      (0xa0, LDY_Immediate, MPU_Y),
      (0xa4, LDY_Zero_Page, MPU_Y),
      (0xb4, LDY_Zero_Page_X, MPU_Y),
      (0xac, LDY_Absolute, MPU_Y),
      (0xbc, LDY_Absolute_X, MPU_Y),
      (0x09, ORA_Immediate, MPU_A),
      (0x05, ORA_Zero_Page, MPU_A),
      (0x15, ORA_Zero_Page_X, MPU_A),
      (0x0d, ORA_Absolute, MPU_A),
      (0x1d, ORA_Absolute_X, MPU_A),
      (0x19, ORA_Absolute_Y, MPU_A),
      (0x01, ORA_Indirect_X, MPU_A),
      (0x11, ORA_Indirect_Y, MPU_A),
      (0x68, PLA, MPU_A),
      (0x4a, LSR_Accumulator, MPU_A),
      (0x2a, ROL_Accumulator, MPU_A),
      (0x6a, RORA, MPU_A),
      (0xaa, TAX, MPU_X),
      (0xa8, TAY, MPU_Y),
      (0xba, TSX, MPU_X),
      (0x8a, TXA, MPU_A),
      (0x98, TYA, MPU_A),
      (0xf3, IN, MPU_A)]"

text \<open>
  The read-modify-write arms that end with \<open>P.setZN(v)\<close> on the value \<open>v\<close> they have
  written with \<open>memory.writeByte(v, addr)\<close>: opcode, arm, the address expression, and
  the 8-bit result of the instruction as a function of the byte \<open>b\<close> read at that address
  and of the carry \<open>c\<close> (0 or 1) the instruction finds.
\<close>

definition Z_memory_ops ::
  "(int \<times> (state \<Rightarrow> state) \<times> (state \<Rightarrow> jsval) \<times> (int \<Rightarrow> int \<Rightarrow> int)) list" where
  "Z_memory_ops =
     [(0x06, ASL_Zero_Page, operand, (\<lambda>b c. (2 * b) mod 256)),
      (0x16, ASL_Zero_Page_X, ZeroPageX, (\<lambda>b c. (2 * b) mod 256)),
      (0x0e, ASL_Absolute, Absolute, (\<lambda>b c. (2 * b) mod 256)),
      (0x1e, ASL_Absolute_X, AbsoluteX, (\<lambda>b c. (2 * b) mod 256)),
      (0xc6, DEC_Zero_Page, operand, (\<lambda>b c. (b - 1) mod 256)),
      (0xd6, DEC_Zero_Page_X, ZeroPageX, (\<lambda>b c. (b - 1) mod 256)),
      (0xce, DEC_Absolute, Absolute, (\<lambda>b c. (b - 1) mod 256)),
      (0xde, DEC_Absolute_X, AbsoluteX, (\<lambda>b c. (b - 1) mod 256)),
      (0xe6, INC_Zero_Page, operand, (\<lambda>b c. (b + 1) mod 256)),
      (0xf6, INC_Zero_Page_X, ZeroPageX, (\<lambda>b c. (b + 1) mod 256)),
      (0xee, INC_Absolute, Absolute, (\<lambda>b c. (b + 1) mod 256)),
      (0xfe, INC_Absolute_X, AbsoluteX, (\<lambda>b c. (b + 1) mod 256)),
      (0x26, ROL_Zero_Page, operand, (\<lambda>b c. (2 * b + c) mod 256)),
      (0x36, ROL_Zero_Page_X, ZeroPageX, (\<lambda>b c. (2 * b + c) mod 256)),
      (0x2e, ROL_Absolute, Absolute, (\<lambda>b c. (2 * b + c) mod 256)),
      (0x3e, ROL_Absolute_X, AbsoluteX, (\<lambda>b c. (2 * b + c) mod 256)),
      (0x66, ROR_Zero_Page, operand, (\<lambda>b c. b div 2 + 128 * c)),
      (0x76, ROR_Zero_Page_X, ZeroPageX, (\<lambda>b c. b div 2 + 128 * c)),
      (0x6e, ROR_Absolute, Absolute, (\<lambda>b c. b div 2 + 128 * c)),
      (0x7e, ROR_Absolute_X, AbsoluteX, (\<lambda>b c. b div 2 + 128 * c))]"

text \<open>
  The compare arms, which call \<open>P.setZN(t)\<close> on the difference \<open>t\<close> of a register and the
  operand: opcode, arm, register, operand.  The two \<open>BIT\<close> arms, which call it on
  \<open>MPU.A & m\<close>: opcode, arm, operand.
\<close>

definition Z_compare_ops :: "(int \<times> (state \<Rightarrow> state) \<times> (state \<Rightarrow> jsval) \<times> (state \<Rightarrow> jsval)) list" where
  "Z_compare_ops =
     [(0xc9, CMP_Immediate, MPU_A, operand),
      (0xc5, CMP_Zero_Page, MPU_A, (\<lambda>r. read (operand r) r)),
      (0xd5, CMP_Zero_Page_X, MPU_A, (\<lambda>r. read (ZeroPageX r) r)),
      (0xcd, CMP_Absolute, MPU_A, (\<lambda>r. read (Absolute r) r)),
      (0xdd, CMP_Absolute_X, MPU_A, (\<lambda>r. read (AbsoluteX r) r)),
      (0xd9, CMP_Absolute_Y, MPU_A, (\<lambda>r. read (AbsoluteY r) r)),
      (0xc1, CMP_Indirect_X, MPU_A, (\<lambda>r. read (readWord (ZeroPageX r) r) r)),
      (0xd1, CMP_Indirect_Y, MPU_A, (\<lambda>r. read (js_and (js_add (readWord (operand r) r) (MPU_Y r)) (Num 65535)) r)),
      (0xe0, CPX_Immediate, MPU_X, operand),
      (0xe4, CPX_Zero_Page, MPU_X, (\<lambda>r. read (operand r) r)),
      (0xec, CPX_Absolute, MPU_X, (\<lambda>r. read (Absolute r) r)),
      (0xc0, CPY_Immediate, MPU_Y, operand),
      (0xc4, CPY_Zero_Page, MPU_Y, (\<lambda>r. read (operand r) r)),
      (0xcc, CPY_Absolute, MPU_Y, (\<lambda>r. read (Absolute r) r))]"

definition Z_bit_ops :: "(int \<times> (state \<Rightarrow> state) \<times> (state \<Rightarrow> jsval)) list" where
  "Z_bit_ops =
     [(0x24, BIT_Zero_Page, (\<lambda>r. read (operand r) r)),
      (0x2c, BIT_Absolute, (\<lambda>r. read (Absolute r) r))]"

text \<open>
  \<open>z_demo\<close>: the program \<open>LDA #$99\<close>, \<open>SED\<close>, \<open>CLC\<close>, \<open>ADC #$01\<close>, \<open>BRK\<close> at \<open>$0800\<close>, from
  power-on.  \<open>inc_demo\<close>: \<open>INC $06B1\<close> with 0 in the beeper's cell \<open>$06B1\<close>.
  \<open>cmp_demo\<close>: \<open>CMP #$00\<close>.  \<open>bit_demo\<close>: \<open>BIT $10\<close> with \<open>$0F\<close> in \<open>$10\<close>.
\<close>

definition z_demo :: state where
  "z_demo = power_on\<lparr>mem := (mem power_on)
      (Num 0x800 := Num 0xa9, Num 0x801 := Num 0x99, Num 0x802 := Num 0xf8, Num 0x803 := Num 0x18,
       Num 0x804 := Num 0x69, Num 0x805 := Num 0x01, Num 0x806 := Num 0x00)\<rparr>"

definition inc_demo :: state where
  "inc_demo = power_on\<lparr>mem := (mem power_on)
      (Num 0x800 := Num 0xee, Num 0x801 := Num 0xb1, Num 0x802 := Num 0x06,
       Num 0x6b1 := Num 0x00)\<rparr>"

definition cmp_demo :: state where
  "cmp_demo = power_on\<lparr>mem := (mem power_on)(Num 0x800 := Num 0xc9, Num 0x801 := Num 0x00)\<rparr>"

definition bit_demo :: state where
  "bit_demo = power_on\<lparr>mem := (mem power_on)
      (Num 0x800 := Num 0x24, Num 0x801 := Num 0x10, Num 0x10 := Num 0x0f)\<rparr>"

section \<open>The assembler: literals, constants and labels\<close>

text \<open>
  Source text is modelled as \<open>string\<close>.  The tables \<open>constants\<close> and \<open>labels\<close> are
  created with \<open>new Object()\<close>, so \<open>name in constants\<close> is true for the names the program
  has defined and also for the members that every object inherits, which are functions.
  A constant defined by the program holds a string, a label holds the value of
  \<open>memory.PC\<close> at its definition; an inherited member is represented by the text its
  \<open>toString()\<close> gives.

  The numbers of the assembler are modelled as integers.  A JavaScript number is a
  double: an integer of magnitude below \<open>2^53\<close> is one, and arithmetic whose exact result
  is such an integer returns it; beyond that, \<open>parseInt\<close> and \<open>+\<close> round, and the text of a
  number from \<open>10^21\<close> on is in exponent form.  The model follows the code within the range
  \<open>safe\<close> only: where a number of magnitude \<open>2^53\<close> or more would be parsed, read from a
  table or computed, the model stops with \<open>Inexact\<close>.  \<open>Inexact\<close> is not an exception of the
  code; it marks that the model says nothing about such a run.
\<close>

datatype const_entry = Text string | CFunction string

datatype label_entry = Address int | LFunction string

datatype asm_error =
    LabelNotFound string bool
  | BranchOutOfRange string jsval
  | ConstantNotDefined string
  | GetHighLowByteArgs
  | ConvertValueError string
  | AddValueError string string
  | JsTypeError
  | Inexact

text \<open>
  The \<open>num\<close> field of an exception; a JavaScript \<open>TypeError\<close> has none, and \<open>Inexact\<close> is not
  an exception.
\<close>

fun error_num :: "asm_error \<Rightarrow> nat option" where
  "error_num (LabelNotFound l is_branch) = Some (if is_branch then 2 else 1)"
| "error_num (BranchOutOfRange l d) = Some 3"
| "error_num (ConstantNotDefined c) = Some 7"
| "error_num GetHighLowByteArgs = Some 8"
| "error_num (ConvertValueError v) = Some 17"
| "error_num (AddValueError i v) = Some 18"
| "error_num JsTypeError = None"
| "error_num Inexact = None"

text \<open>
  The integers that are JavaScript numbers whatever their value, and the guard that
  lets a number through when it is \<open>NaN\<close>, \<open>undefined\<close> or such an integer.  \<open>checked_add\<close>
  and \<open>checked_sub\<close> are \<open>a + b\<close> and \<open>a - b\<close> on numbers, with the guard on the result.
\<close>

definition safe :: "int \<Rightarrow> bool" where
  "safe n \<longleftrightarrow> - 9007199254740992 < n \<and> n < 9007199254740992"

definition exact :: "jsval \<Rightarrow> asm_error + jsval" where
  "exact v = (case v of Num n \<Rightarrow> if safe n then Inr v else Inl Inexact | _ \<Rightarrow> Inr v)"

definition checked_add :: "asm_error + jsval \<Rightarrow> asm_error + jsval \<Rightarrow> asm_error + jsval" where
  "checked_add a b =
     (case a of
        Inl e \<Rightarrow> Inl e
      | Inr x \<Rightarrow> (case b of Inl e \<Rightarrow> Inl e | Inr y \<Rightarrow> exact (js_add x y)))"

definition checked_sub :: "asm_error + jsval \<Rightarrow> asm_error + jsval \<Rightarrow> asm_error + jsval" where
  "checked_sub a b =
     (case a of
        Inl e \<Rightarrow> Inl e
      | Inr x \<Rightarrow> (case b of Inl e \<Rightarrow> Inl e | Inr y \<Rightarrow> exact (js_sub x y)))"

text \<open>
  The value of a character as a digit, in any radix up to 16, and the character classes
  \<open>[0-9]\<close>, \<open>[A-F0-9]\<close> with the \<open>i\<close> flag, \<open>[01]\<close> and \<open>\w\<close>.
\<close>

definition digit_value :: "char \<Rightarrow> nat option" where
  "digit_value = map_of
     [(CHR ''0'', 0), (CHR ''1'', 1), (CHR ''2'', 2), (CHR ''3'', 3), (CHR ''4'', 4),
      (CHR ''5'', 5), (CHR ''6'', 6), (CHR ''7'', 7), (CHR ''8'', 8), (CHR ''9'', 9),
      (CHR ''a'', 10), (CHR ''b'', 11), (CHR ''c'', 12), (CHR ''d'', 13), (CHR ''e'', 14),
      (CHR ''f'', 15),
      (CHR ''A'', 10), (CHR ''B'', 11), (CHR ''C'', 12), (CHR ''D'', 13), (CHR ''E'', 14),
      (CHR ''F'', 15)]"

definition is_digit :: "nat \<Rightarrow> char \<Rightarrow> bool" where
  "is_digit radix c = (case digit_value c of Some d \<Rightarrow> d < radix | None \<Rightarrow> False)"

definition word_char :: "char \<Rightarrow> bool" where
  "word_char c \<longleftrightarrow>
     c \<in> set ''abcdefghijklmnopqrstuvwxyzABCDEFGHIJKLMNOPQRSTUVWXYZ0123456789_''"

text \<open>\<open>/^([0-9]+|\$[A-F0-9]+|%[01]+)$/i.test(s)\<close>\<close>

definition is_literal :: "string \<Rightarrow> bool" where
  "is_literal s =
     (case s of
        [] \<Rightarrow> False
      | c # cs \<Rightarrow>
          if c = CHR ''$'' then cs \<noteq> [] \<and> list_all (is_digit 16) cs
          else if c = CHR ''%'' then cs \<noteq> [] \<and> list_all (is_digit 2) cs
          else list_all (is_digit 10) s)"

text \<open>
  \<open>parseInt(str, radix)\<close> for a radix of 2, 10 or 16: leading white space is skipped, then
  a sign, then for radix 16 a prefix \<open>0x\<close> or \<open>0X\<close>; the longest run of digits that follows
  is the value, and \<open>NaN\<close> results when that run is empty.  A value of magnitude below
  \<open>2^53\<close> is returned as it is; a larger one would be rounded, and is not modelled.
\<close>

definition white_space :: "char \<Rightarrow> bool" where
  "white_space c \<longleftrightarrow> of_char c \<in> {9, 10, 11, 12, 13, 32, 160 :: nat}"

definition digits_value :: "nat \<Rightarrow> string \<Rightarrow> int" where
  "digits_value radix ds =
     foldl (\<lambda>a c. a * int radix + int (case digit_value c of Some d \<Rightarrow> d | None \<Rightarrow> 0)) 0 ds"

definition parseInt :: "string \<Rightarrow> nat \<Rightarrow> asm_error + jsval" where
  "parseInt str radix =
     (let s = dropWhile white_space str;
          sign = (if take 1 s = ''-'' then - 1 else 1);
          s = (if take 1 s = ''-'' \<or> take 1 s = ''+'' then drop 1 s else s);
          s = (if radix = 16 \<and> (take 2 s = ''0x'' \<or> take 2 s = ''0X'') then drop 2 s else s);
          ds = takeWhile (is_digit radix) s
      in if ds = [] then Inr NaN else exact (Num (sign * digits_value radix ds)))"

text \<open>
  \<open>parseInt(v)\<close> for a number \<open>v\<close>: the number is converted to a string and parsed back.
  The text of an integer of magnitude below \<open>2^53\<close> is its decimal digits, after a \<open>-\<close>
  when it is negative, so that the integer comes back; \<open>"NaN"\<close> and \<open>"undefined"\<close> have
  no digits.
\<close>

definition parseInt_number :: "jsval \<Rightarrow> asm_error + jsval" where
  "parseInt_number v =
     (case v of Num n \<Rightarrow> if safe n then Inr (Num n) else Inl Inexact | _ \<Rightarrow> Inr NaN)"

text \<open>\<open>a * b\<close> on numbers; the code multiplies by \<open>1\<close> or \<open>-1\<close> only.\<close>

fun js_mul :: "jsval \<Rightarrow> jsval \<Rightarrow> jsval" where
  "js_mul (Num a) (Num b) = Num (a * b)"
| "js_mul _ _ = NaN"

text \<open>
  \<open>n.toString(radix)\<close> for an integer \<open>n\<close>; digits above 9 are lower-case letters.  The
  code calls it on the result of \<open>&\<close>, which is a 32-bit integer, and on the value of a
  label.
\<close>

function digits_of :: "nat \<Rightarrow> nat \<Rightarrow> string" where
  "digits_of radix n =
     (if radix < 2 \<or> n < radix then [''0123456789abcdef'' ! n]
      else digits_of radix (n div radix) @ [''0123456789abcdef'' ! (n mod radix)])"
  by pat_completeness auto
termination
  by (relation "measure snd") auto

declare digits_of.simps [simp del]

definition toString :: "jsval \<Rightarrow> nat \<Rightarrow> string" where
  "toString v radix =
     (case v of
        Num n \<Rightarrow> if n < 0 then CHR ''-'' # digits_of radix (nat (- n)) else digits_of radix (nat n)
      | NaN \<Rightarrow> ''NaN''
      | Undefined \<Rightarrow> ''undefined'')"

text \<open>
  \<open>getHighLowByte(i, v)\<close>: \<open>v\<close> is \<open>undefined\<close> or a string, \<open>"<"\<close> for the low byte and
  \<open>">"\<close> for the high byte.
\<close>

definition getHighLowByte :: "string \<Rightarrow> string option \<Rightarrow> asm_error + string" where
  "getHighLowByte i v =
     (case v of
        None \<Rightarrow> Inr i
      | Some v \<Rightarrow>
          if v \<noteq> ''<'' \<and> v \<noteq> ''>'' then Inl GetHighLowByteArgs
          else
            (let base = (if take 1 i = ''$'' then 16 else if take 1 i = ''%'' then 2 else 10);
                 i = (if take 1 i = ''$'' \<or> take 1 i = ''%'' then drop 1 i else i)
             in case parseInt i base of
                  Inl e \<Rightarrow> Inl e
                | Inr t \<Rightarrow>
                    (let t = (if v = ''>'' then js_sar t 8 else t)
                     in Inr ((if base = 16 then ''$'' else if base = 2 then ''%'' else '''')
                             @ toString (js_and t (Num 255)) base))))"

text \<open>
  Group 1 of \<open>v.match(/^[#\(]?([0-9]+|\$[A-F0-9]+|%[0-1]+)[,\)]?.*/i)\<close>, or \<open>None\<close> when there
  is no match.  Nothing anchors the end of the pattern, so what follows the literal
  is irrelevant.
\<close>

definition literal_prefix :: "string \<Rightarrow> string option" where
  "literal_prefix v =
     (let r = (if take 1 v = ''#'' \<or> take 1 v = ''('' then drop 1 v else v)
      in case r of
           [] \<Rightarrow> None
         | c # cs \<Rightarrow>
             if c = CHR ''$'' then
               (if takeWhile (is_digit 16) cs = [] then None
                else Some (c # takeWhile (is_digit 16) cs))
             else if c = CHR ''%'' then
               (if takeWhile (is_digit 2) cs = [] then None
                else Some (c # takeWhile (is_digit 2) cs))
             else if takeWhile (is_digit 10) r = [] then None
             else Some (takeWhile (is_digit 10) r))"

text \<open>
  \<open>convertValue(v)\<close> for a string \<open>v\<close>.  When \<open>v\<close> names an inherited member of \<open>labels\<close>
  the function is returned; its callers modelled here use the result in arithmetic
  only, where a function converts to \<open>NaN\<close>, and that is what the model returns.  When
  \<open>v\<close> names an inherited member of \<open>constants\<close>, \<open>getHighLowByte\<close> or \<open>v.match\<close> throws a
  \<open>TypeError\<close>.
\<close>

definition convertValue ::
  "(string \<rightharpoonup> const_entry) \<Rightarrow> (string \<rightharpoonup> label_entry) \<Rightarrow> string \<Rightarrow> asm_error + jsval" where
  "convertValue constants labels v =
     (case labels v of
        Some (Address n) \<Rightarrow> exact (Num n)
      | Some (LFunction src) \<Rightarrow> Inr NaN
      | None \<Rightarrow>
          (let hlb = (if take 1 v = ''<'' \<or> take 1 v = ''>'' then Some (take 1 v) else None);
               v = (if hlb \<noteq> None then drop 1 v else v)
           in case (case constants v of Some c \<Rightarrow> c | None \<Rightarrow> Text v) of
                CFunction src \<Rightarrow> Inl JsTypeError
              | Text v \<Rightarrow>
                  (case getHighLowByte v hlb of
                     Inl e \<Rightarrow> Inl e
                   | Inr v \<Rightarrow>
                       (case literal_prefix v of
                          None \<Rightarrow> Inl (ConvertValueError v)
                        | Some m \<Rightarrow>
                            if take 1 m = ''$'' then parseInt (drop 1 m) 16
                            else if take 1 m = ''%'' then parseInt (drop 1 m) 2
                            else parseInt m 10))))"

text \<open>
  \<open>convertValue(s)\<close> for the value \<open>s\<close> of a member of \<open>constants\<close>.  A function is
  converted to its text by \<open>s in labels\<close>; after that \<open>s.substring\<close> throws.
\<close>

definition convertValue_constant ::
  "(string \<rightharpoonup> const_entry) \<Rightarrow> (string \<rightharpoonup> label_entry) \<Rightarrow> const_entry \<Rightarrow> asm_error + jsval" where
  "convertValue_constant constants labels s =
     (case s of
        Text t \<Rightarrow> convertValue constants labels t
      | CFunction src \<Rightarrow>
          (case labels src of
             Some (Address n) \<Rightarrow> exact (Num n)
           | Some (LFunction f) \<Rightarrow> Inr NaN
           | None \<Rightarrow> Inl JsTypeError))"

text \<open>
  Groups 2 and 3 of \<open>v.match(/^[+-](([0-9]+|\$[A-F0-9]+|%[01]+)|([\w]+))$/i)\<close>: after the
  sign comes a literal (group 2) or else a word (group 3).
\<close>

definition match_offset :: "string \<Rightarrow> (string option \<times> string option) option" where
  "match_offset v =
     (if take 1 v \<noteq> ''+'' \<and> take 1 v \<noteq> ''-'' then None
      else if is_literal (drop 1 v) then Some (Some (drop 1 v), None)
      else if drop 1 v \<noteq> [] \<and> list_all word_char (drop 1 v) then Some (None, Some (drop 1 v))
      else None)"

text \<open>
  \<open>addValue(i, v)\<close>; \<open>v\<close> is \<open>undefined\<close> or a string.  The text of a function is not of
  the form of a literal, so an \<open>i\<close> that names an inherited member of \<open>constants\<close> leaves
  through the first \<open>return\<close>.
\<close>

definition addValue ::
  "(string \<rightharpoonup> const_entry) \<Rightarrow> (string \<rightharpoonup> label_entry) \<Rightarrow> string \<Rightarrow> string option
     \<Rightarrow> asm_error + string" where
  "addValue constants labels i v =
     (case (case constants i of Some c \<Rightarrow> c | None \<Rightarrow> Text i) of
        CFunction src \<Rightarrow> Inr (src @ (case v of Some v \<Rightarrow> v | None \<Rightarrow> ''''))
      | Text i \<Rightarrow>
          if \<not> is_literal i then Inr (i @ (case v of Some v \<Rightarrow> v | None \<Rightarrow> ''''))
          else
            (case v of
               None \<Rightarrow> Inr i
             | Some v \<Rightarrow>
                 (case match_offset v of
                    None \<Rightarrow> Inl (AddValueError i v)
                  | Some (m2, m3) \<Rightarrow>
                      (case (case m3 of
                               None \<Rightarrow> Inr (Text (case m2 of Some s \<Rightarrow> s | None \<Rightarrow> ''''))
                             | Some c \<Rightarrow>
                                 (case constants c of
                                    Some s \<Rightarrow> Inr s
                                  | None \<Rightarrow> Inl (ConstantNotDefined (drop 1 v)))) of
                         Inl e \<Rightarrow> Inl e
                       | Inr s \<Rightarrow>
                           (case convertValue_constant constants labels s of
                              Inl e \<Rightarrow> Inl e
                            | Inr n \<Rightarrow>
                                (let v = js_mul n (Num (if take 1 v = ''-'' then - 1 else 1))
                                 in if take 1 i = ''$'' then
                                      (case checked_add (parseInt (drop 1 i) 16) (parseInt_number v) of
                                         Inl e \<Rightarrow> Inl e
                                       | Inr t \<Rightarrow>
                                           Inr (''$'' @ toString
                                                  (js_and t (Num (if length i > 3 then 65535 else 255)))
                                                  16))
                                    else if take 1 i = ''%'' then
                                      (case checked_add (parseInt (drop 1 i) 2) (parseInt_number v) of
                                         Inl e \<Rightarrow> Inl e
                                       | Inr t \<Rightarrow>
                                           Inr (''%'' @ toString
                                                  (js_and t (Num (if length i > 9 then 65535 else 255)))
                                                  2))
                                    else
                                      (case parseInt i 10 of
                                         Inl e \<Rightarrow> Inl e
                                       | Inr p \<Rightarrow>
                                           (case checked_add (Inr p) (parseInt_number v) of
                                              Inl e \<Rightarrow> Inl e
                                            | Inr t \<Rightarrow>
                                                Inr (toString
                                                       (js_and t (Num (if js_gt p (Num 255)
                                                                       then 65535 else 255)))
                                                       10)))))))))"

text \<open>
  One round of the loop over \<open>branchTracker\<close>, for the entry made of the address
  \<open>branchTracker[j]\<close> of the operand byte and the operand text \<open>branchTracker[j+1]\<close>.
  \<open>split_offset\<close> is the part that cuts the text at its first \<open>+\<close>, or else at its first
  \<open>-\<close>.  The value of the label, the address of the entry and the two differences of
  \<open>v - branchTracker[j] - 1\<close> go through the guard.
\<close>

definition split_offset :: "string \<Rightarrow> string \<times> string option" where
  "split_offset lab =
     (if CHR ''+'' \<in> set lab
      then (takeWhile (\<lambda>c. c \<noteq> CHR ''+'') lab, Some (dropWhile (\<lambda>c. c \<noteq> CHR ''+'') lab))
      else if CHR ''-'' \<in> set lab
      then (takeWhile (\<lambda>c. c \<noteq> CHR ''-'') lab, Some (dropWhile (\<lambda>c. c \<noteq> CHR ''-'') lab))
      else (lab, None))"

definition label_toString :: "label_entry \<Rightarrow> asm_error + string" where
  "label_toString l =
     (case l of
        Address n \<Rightarrow> if safe n then Inr (toString (Num n) 10) else Inl Inexact
      | LFunction src \<Rightarrow> Inr src)"

definition resolve_branch ::
  "(string \<rightharpoonup> const_entry) \<Rightarrow> (string \<rightharpoonup> label_entry) \<Rightarrow> int \<times> string \<Rightarrow> state
     \<Rightarrow> asm_error + state" where
  "resolve_branch constants labels entry s =
     (let (lab, plus) = split_offset (snd entry)
      in case labels lab of
           None \<Rightarrow> Inl (LabelNotFound (snd entry) True)
         | Some l \<Rightarrow>
             (case label_toString l of
                Inl e \<Rightarrow> Inl e
              | Inr i \<Rightarrow>
                  (case addValue constants labels i plus of
                     Inl e \<Rightarrow> Inl e
                   | Inr a \<Rightarrow>
                       (case checked_sub
                               (checked_sub (convertValue constants labels a)
                                            (exact (Num (fst entry))))
                               (Inr (Num 1)) of
                          Inl e \<Rightarrow> Inl e
                        | Inr distance \<Rightarrow>
                            if js_gt distance (Num 127) \<or> js_lt distance (Num (- 128))
                            then Inl (BranchOutOfRange (snd entry) distance)
                            else
                              (let distance =
                                     (if js_lt distance (Num 0)
                                      then js_or (js_and (js_add (js_not (js_neg distance)) (Num 1))
                                                         (Num 0xff)) (Num 128)
                                      else distance)
                               in case memory_writeByte distance (Num (fst entry)) s of
                                    Inl e \<Rightarrow> Inl JsTypeError
                                  | Inr s' \<Rightarrow> Inr s')))))"

text \<open>The loop: the first exception ends it.\<close>

fun resolve_branches ::
  "(string \<rightharpoonup> const_entry) \<Rightarrow> (string \<rightharpoonup> label_entry) \<Rightarrow> (int \<times> string) list \<Rightarrow> state
     \<Rightarrow> asm_error + state" where
  "resolve_branches constants labels [] s = Inr s"
| "resolve_branches constants labels (entry # entries) s =
     (case resolve_branch constants labels entry s of
        Inl e \<Rightarrow> Inl e
      | Inr s' \<Rightarrow> resolve_branches constants labels entries s')"

text \<open>
  Notions used to state what \<open>addValue\<close> returns: the radix of a literal, the prefix that
  marks it, the number the literal denotes, and whether the literal is written wider
  than a byte (more than two hexadecimal digits, more than eight binary digits, or a
  decimal number above 255).
\<close>

definition literal_radix :: "string \<Rightarrow> nat" where
  "literal_radix i = (if take 1 i = ''$'' then 16 else if take 1 i = ''%'' then 2 else 10)"

definition radix_prefix :: "string \<Rightarrow> string" where
  "radix_prefix i = (if take 1 i = ''$'' then ''$'' else if take 1 i = ''%'' then ''%'' else [])"

definition literal_value :: "string \<Rightarrow> int" where
  "literal_value i =
     digits_value (literal_radix i) (if take 1 i = ''$'' \<or> take 1 i = ''%'' then drop 1 i else i)"

definition written_wide :: "string \<Rightarrow> bool" where
  "written_wide i =
     (if take 1 i = ''$'' then length i > 3
      else if take 1 i = ''%'' then length i > 9
      else literal_value i > 255)"

text \<open>
  Tables used as concrete inputs: the labels \<open>LOOP\<close> at \<open>$0800\<close> and \<open>FAR\<close> at \<open>$0900\<close>, the
  constant \<open>K\<close> defined as \<open>$0200\<close>, and the label \<open>Z\<close> at \<open>$F0\<close> in page zero.
\<close>

definition demo_labels :: "string \<rightharpoonup> label_entry" where
  "demo_labels = [''LOOP'' \<mapsto> Address 0x800, ''FAR'' \<mapsto> Address 0x900]"

definition demo_constants :: "string \<rightharpoonup> const_entry" where
  "demo_constants = [''K'' \<mapsto> Text ''$0200'']"

definition zero_page_labels :: "string \<rightharpoonup> label_entry" where
  "zero_page_labels = [''Z'' \<mapsto> Address 0xf0]"

section \<open>Facts about the JavaScript operators\<close>

lemma power_on_eq:
  "power_on =
     \<lparr>MPU_A = Num 0, MPU_X = Num 0, MPU_Y = Num 0, SP = Num 0xff, flags = Num 36,
      mem = (\<lambda>_. Undefined), mem_length = 65536, PC = Num 0x0800,
      memory = MemoryObject, debugOn = False, programExecuting = False,
      instructionTimer = TimerNull, timeouts = 0,
      keymaskableinterrupt = False, mousemaskableinterrupt = False,
      input = [], io = [ClearScreen],
      randoms = (\<lambda>_. 0), random_calls = 0, replies = (\<lambda>_. None), prompt_calls = 0,
      executionIterations = NaN\<rparr>"
  by (simp add: power_on_def page_load_def P_reset_def)

lemma bit_ToInt32_Num: "bit (ToInt32 (Num n)) k \<longleftrightarrow> bit n (min 31 k)"
  by (simp add: ToInt32_def bit_signed_take_bit_iff)

lemma bit_js_or:
  "k \<le> 31 \<Longrightarrow> bit (ToInt32 (js_or a b)) k \<longleftrightarrow> bit (ToInt32 a) k \<or> bit (ToInt32 b) k"
  by (simp add: js_or_def bit_ToInt32_Num bit_or_iff min_def)

lemma bit_js_and:
  "k \<le> 31 \<Longrightarrow> bit (ToInt32 (js_and a b)) k \<longleftrightarrow> bit (ToInt32 a) k \<and> bit (ToInt32 b) k"
  by (simp add: js_and_def bit_ToInt32_Num bit_and_iff min_def)

lemma bit_js_not: "k \<le> 31 \<Longrightarrow> bit (ToInt32 (js_not a)) k \<longleftrightarrow> \<not> bit (ToInt32 a) k"
  by (simp add: js_not_def bit_ToInt32_Num bit_not_iff min_def)

lemma flag_get_bit:
  assumes "k < 31"
  shows "flag_get (2 ^ k) s \<longleftrightarrow> bit (ToInt32 (flags s)) k"
proof -
  have "(2::int) ^ k < 2 ^ 31"
    using assms by (intro power_strict_increasing) simp_all
  moreover have "- (2 ^ 31) \<le> (2::int) ^ k"
    by (rule order_trans [of _ 0]) simp_all
  ultimately have a: "signed_take_bit 31 ((2::int) ^ k) = 2 ^ k"
    by (intro signed_take_bit_int_eq_self)
  have b: "0 \<le> x AND (2::int) ^ k" for x by simp
  have c: "(x AND (2::int) ^ k = 0) \<longleftrightarrow> \<not> bit x k" for x
    by (rule and_exp_eq_0_iff_not_bit)
  have "flag_get (2 ^ k) s \<longleftrightarrow> 0 < ToInt32 (flags s) AND 2 ^ k"
    by (simp add: flag_get_def js_and_def ToInt32_def [of "Num (2 ^ k)"] a)
  also have "\<dots> \<longleftrightarrow> bit (ToInt32 (flags s)) k"
    using b [of "ToInt32 (flags s)"] c [of "ToInt32 (flags s)"] by linarith
  finally show ?thesis .
qed

lemma bit5_iff: "bit5 s \<longleftrightarrow> bit (ToInt32 (flags s)) 5"
  using flag_get_bit [of 5 s] by (simp add: bit5_def)

lemma bit5_pow: "0 \<le> v \<Longrightarrow> v \<le> 7 \<Longrightarrow> bit (ToInt32 (Num (2 ^ nat v))) 5 \<longleftrightarrow> v = 5"
  by (auto simp add: bit_ToInt32_Num bit_exp_iff)

section \<open>Facts about \<open>writeByte\<close>\<close>

lemma mem_array_store: "mem (array_store a v s) = (mem s)(a := v)"
  by (simp add: array_store_def)

lemma writeByte_zero:
  "a \<noteq> Undefined \<Longrightarrow> mem (writeByte (Num 0) a s) = (mem s)(a := Num 0)"
  by (simp add: writeByte.simps [of "Num 0" a s] Let_def mem_array_store js_and_def ToInt32_def)

lemma writeByte_mem_other:
  assumes "a \<noteq> Undefined" "x \<noteq> a"
  shows "mem (writeByte v a s) x = mem s x"
  using assms
  by (simp add: writeByte.simps [of v a s] Let_def mem_array_store writeByte_zero)

section \<open>Bit 5 of the status byte\<close>

text \<open>
  C5 (as amended).  \<open>reset\<close> sets bit 5.  \<open>setBit\<close>, \<open>clearBit\<close> of a bit other than 5,
  \<open>setZN\<close> and the per-flag setters never clear it: when it is 1 before, it is 1 after
  (and a per-flag setter called with a false value sets it in any case).  \<open>setFlagsTo\<close>,
  which \<open>PLP\<close> and \<open>RTI\<close> call with the byte pulled from the stack, stores that byte
  unchanged, so bit 5 of P is then whatever bit 5 of the pulled byte is.
\<close>

theorem bit5_flag_mutation:
  "bit5 (P_reset s)
   \<and> (bit5 s \<longrightarrow> bit5 (setBit v s))
   \<and> (bit5 s \<and> v \<noteq> 5 \<longrightarrow> bit5 (clearBit v s))
   \<and> (bit5 s \<longrightarrow> bit5 (setZN w s))
   \<and> (\<forall>m \<in> {1, 2, 4, 8, 16, 64, 128}. (bit5 s \<or> \<not> b) \<longrightarrow> bit5 (flag_set m b s))
   \<and> (bit5 (setFlagsTo w s) \<longleftrightarrow> bit (ToInt32 w) 5)"
proof (intro conjI impI ballI)
  show "bit5 (P_reset s)"
    by (simp add: bit5_iff P_reset_def bit_ToInt32_Num)
  show "bit5 (setBit v s)" if "bit5 s"
    using that by (simp add: bit5_iff setBit_def bit_js_or)
  show "bit5 (clearBit v s)" if "bit5 s \<and> v \<noteq> 5"
    using that by (simp add: bit5_iff clearBit_def bit_js_and bit_js_not bit5_pow)
  show "bit5 (setZN w s)" if "bit5 s"
    using that by (simp add: bit5_iff setZN_def Let_def bit_js_and bit_js_or bit_ToInt32_Num)
  show "bit5 (flag_set m b s)"
    if "m \<in> {1, 2, 4, 8, 16, 64, 128}" "bit5 s \<or> \<not> b" for m
    using that
    by (auto simp add: bit5_iff flag_set_def bit_js_and bit_js_or bit_js_not bit_ToInt32_Num)
  show "bit5 (setFlagsTo w s) \<longleftrightarrow> bit (ToInt32 w) 5"
    by (simp add: bit5_iff setFlagsTo_def)
qed

theorem bit5_flag_mutation_witness:
  "bit5 power_on \<and> bit5 (setBit 0 power_on) \<and> bit5 (clearBit 6 power_on)
   \<and> bit5 (setZN (Num 0) power_on) \<and> bit5 (flag_set 1 False power_on)
   \<and> \<not> bit5 (setFlagsTo (Num 0) power_on)"
proof -
  have p: "bit5 power_on"
    by (simp add: bit5_iff power_on_eq bit_ToInt32_Num)
  have n: "\<not> bit (ToInt32 (Num 0)) 5"
    by (simp add: bit_ToInt32_Num)
  show ?thesis
    using p n bit5_flag_mutation [of power_on 0 "Num 0" False]
          bit5_flag_mutation [of power_on 6 "Num 0" False]
    by simp
qed

theorem bit5_cleared_by_setFlagsTo:
  "\<not> bit5 (setFlagsTo (Num 0) power_on)"
  by (simp add: bit5_iff setFlagsTo_def bit_ToInt32_Num)

section \<open>The reset vector\<close>

text \<open>
  C10.  \<open>readWord\<close> of two cells that both hold \<open>undefined\<close> is the number 0, at any
  address.  So a memory image with nothing written at \<open>$FFFC/$FFFD\<close> and one with the
  vector 0 written there give the same word, and in both cases the reset block of
  \<open>execute\<close> leaves \<open>PC = $0800\<close>.
\<close>

theorem readWord_undefined_is_zero:
  "(mem s a = Undefined \<and> mem s (js_add a (Num 1)) = Undefined \<longrightarrow> readWord a s = Num 0)
   \<and> ((mem s (Num 0xfffc) = Undefined \<and> mem s (Num 0xfffd) = Undefined)
        \<or> (mem s (Num 0xfffc) = Num 0 \<and> mem s (Num 0xfffd) = Num 0)
       \<longrightarrow> readWord (Num 0xfffc) s = Num 0 \<and> PC (execute_reset s) = Num 0x0800)"
proof (intro conjI impI)
  assume "mem s a = Undefined \<and> mem s (js_add a (Num 1)) = Undefined"
  then show "readWord a s = Num 0"
    by (simp add: readWord_def js_or_def js_shl_def ToInt32_def)
next
  assume v: "(mem s (Num 0xfffc) = Undefined \<and> mem s (Num 0xfffd) = Undefined)
        \<or> (mem s (Num 0xfffc) = Num 0 \<and> mem s (Num 0xfffd) = Num 0)"
  then show "readWord (Num 0xfffc) s = Num 0"
    by (auto simp add: readWord_def js_or_def js_shl_def ToInt32_def)
  show "PC (execute_reset s) = Num 0x0800"
    using v
    by (auto simp add: execute_reset_def Let_def readWord_def MPU_reset_def P_reset_def
        stack_reset_def writeByte_mem_other js_or_def js_shl_def ToInt32_def)
qed

theorem readWord_undefined_is_zero_witness:
  "readWord (Num 0xfffc) power_on = Num 0 \<and> PC (execute_reset power_on) = Num 0x0800"
proof -
  have "mem power_on (Num 0xfffc) = Undefined \<and> mem power_on (Num 0xfffd) = Undefined"
    by (simp add: power_on_eq)
  then show ?thesis
    using readWord_undefined_is_zero [of power_on "Num 0xfffc"] by simp
qed

section \<open>Facts about \<open>writeByte\<close>, the stack and the dispatch\<close>

lemma writeByte_zero_eq:
  "a \<noteq> Undefined \<Longrightarrow> writeByte (Num 0) a s =
     (let s2 = array_store a (Num 0) s
      in if js_gt a (Num 0x1ff) \<and> js_lt a (Num 0x6b0)
         then s2\<lparr>io := io s2 @
                [DrawPixel (case js_sub a (Num 512) of Num d \<Rightarrow> Num (d mod 40) | w \<Rightarrow> w)
                           (case js_sub a (Num 512) of Num d \<Rightarrow> Num (d div 40) | w \<Rightarrow> w)
                           (read a s2)]\<rparr>
         else s2)"
  apply (subst writeByte.simps)
  apply (simp add: Let_def js_and_def ToInt32_def)
  done

lemma writeByte_not_number:
  "isNaN v \<Longrightarrow> a \<noteq> Undefined \<Longrightarrow> writeByte v a s = array_store a v s"
  apply (subst writeByte.simps)
  apply (simp add: Let_def)
  done

lemma writeByte_plain:
  assumes "a \<le> 0x1ff \<or> a > 0x6b1"
  shows "writeByte (Num n) (Num a) s = array_store (Num a) (js_and (Num n) (Num 0xff)) s"
proof -
  have c: "\<not> (511 < a \<and> a < 1712)" "a \<noteq> 1712" "a \<noteq> 1713"
    using assms by auto
  show ?thesis
    by (subst writeByte.simps) (simp add: Let_def c)
qed

lemma writeByte_frame:
  assumes "a \<noteq> Undefined"
  shows "PC (writeByte v a s) = PC s" "SP (writeByte v a s) = SP s"
    "flags (writeByte v a s) = flags s" "MPU_A (writeByte v a s) = MPU_A s"
    "MPU_X (writeByte v a s) = MPU_X s" "MPU_Y (writeByte v a s) = MPU_Y s"
  using assms
  by (subst writeByte.simps, simp add: Let_def array_store_def writeByte_zero_eq)+

lemma writeByte_frame2:
  assumes "a \<noteq> Undefined"
  shows "memory (writeByte v a s) = memory s" "debugOn (writeByte v a s) = debugOn s"
    "timeouts (writeByte v a s) = timeouts s" "randoms (writeByte v a s) = randoms s"
    "random_calls (writeByte v a s) = random_calls s"
    "programExecuting (writeByte v a s) = programExecuting s"
    "instructionTimer (writeByte v a s) = instructionTimer s"
    "keymaskableinterrupt (writeByte v a s) = keymaskableinterrupt s"
    "mousemaskableinterrupt (writeByte v a s) = mousemaskableinterrupt s"
    "input (writeByte v a s) = input s"
    "replies (writeByte v a s) = replies s"
    "prompt_calls (writeByte v a s) = prompt_calls s"
  using assms
  by (subst writeByte.simps, simp add: Let_def array_store_def writeByte_zero_eq)+

lemma mem_writeByte_other:
  "a \<noteq> Undefined \<Longrightarrow> x \<noteq> a \<Longrightarrow> mem (writeByte v a s) x = mem s x"
  apply (subst writeByte.simps)
  apply (simp add: Let_def array_store_def writeByte_zero_eq)
  done

named_theorems frame

lemma flag_ops_frame [frame]:
  "PC (setBit v s) = PC s" "PC (clearBit v s) = PC s" "PC (setZN w s) = PC s"
  "PC (setFlagsTo w s) = PC s"
  "SP (setBit v s) = SP s" "SP (clearBit v s) = SP s" "SP (setZN w s) = SP s"
  "SP (setFlagsTo w s) = SP s"
  "mem (setBit v s) = mem s" "mem (clearBit v s) = mem s" "mem (setZN w s) = mem s"
  "mem (setFlagsTo w s) = mem s"
  "MPU_A (setBit v s) = MPU_A s" "MPU_A (clearBit v s) = MPU_A s" "MPU_A (setZN w s) = MPU_A s"
  "MPU_A (setFlagsTo w s) = MPU_A s"
  "MPU_X (setBit v s) = MPU_X s" "MPU_X (clearBit v s) = MPU_X s" "MPU_X (setZN w s) = MPU_X s"
  "MPU_Y (setBit v s) = MPU_Y s" "MPU_Y (clearBit v s) = MPU_Y s" "MPU_Y (setZN w s) = MPU_Y s"
  "memory (setBit v s) = memory s" "memory (clearBit v s) = memory s"
  "memory (setZN w s) = memory s" "memory (setFlagsTo w s) = memory s"
  by (simp_all add: setBit_def clearBit_def setZN_def setFlagsTo_def Let_def)

lemma refresh_random_eq:
  "refresh_random s =
     array_store (Num 0xfe) (js_and (Num (randoms s (random_calls s))) (Num 0xff))
       (s\<lparr>random_calls := Suc (random_calls s)\<rparr>)"
  by (simp add: refresh_random_def writeByte_plain)

lemma refresh_random_frame [frame]:
  "PC (refresh_random s) = PC s" "SP (refresh_random s) = SP s"
  "flags (refresh_random s) = flags s" "MPU_A (refresh_random s) = MPU_A s"
  "MPU_X (refresh_random s) = MPU_X s" "MPU_Y (refresh_random s) = MPU_Y s"
  "memory (refresh_random s) = memory s" "debugOn (refresh_random s) = debugOn s"
  "timeouts (refresh_random s) = timeouts s"
  "x \<noteq> Num 0xfe \<Longrightarrow> mem (refresh_random s) x = mem s x"
  by (simp_all add: refresh_random_eq array_store_def)

lemma executeInstruction_arm:
  assumes "memory s = MemoryObject" "\<not> js_ge (PC s) (Num (mem_length s))"
    and "opcode s = Num n" "n \<noteq> 0" "map_of arms n = Some arm"
  shows "executeInstruction s = Inr (arm (refresh_random s))"
  using assms
  by (subst executeInstruction.simps) (simp add: Let_def opcode_def dispatch_def)

lemma PC_do_SBC [frame]: "PC (do_SBC b s) = PC s"
  by (simp add: do_SBC_def Let_def frame)

lemma and_255: "(x::int) AND 255 = x mod 256"
proof -
  have "x AND mask 8 = x mod 2 ^ 8"
    by (simp add: take_bit_eq_mask [symmetric] take_bit_int_def)
  then show ?thesis by (simp add: mask_eq_exp_minus_1)
qed

lemma ToInt32_Num_small: "- 2147483648 \<le> n \<Longrightarrow> n < 2147483648 \<Longrightarrow> ToInt32 (Num n) = n"
  by (simp add: ToInt32_def signed_take_bit_int_eq_self)

lemma js_and_255: "js_and v (Num 255) = Num (ToInt32 v mod 256)"
  by (simp add: js_and_def ToInt32_Num_small and_255)

lemma ToInt32_mod_256: "ToInt32 (Num n) mod 256 = n mod 256"
proof -
  have "take_bit 8 (signed_take_bit 31 n) = take_bit 8 n"
    by (rule take_bit_signed_take_bit) simp
  then show ?thesis by (simp add: ToInt32_def take_bit_int_def)
qed

lemma js_and_Num_255: "js_and (Num n) (Num 255) = Num (n mod 256)"
  by (simp add: js_and_255 ToInt32_mod_256)

lemma or_push_bit_8:
  assumes "0 \<le> lo" "lo < 256"
  shows "(lo::int) OR push_bit 8 hi = lo + 256 * hi"
proof -
  have "take_bit 8 lo = lo" using assms by (simp add: take_bit_int_def)
  then have "lo OR push_bit 8 hi = concat_bit 8 lo hi" by (simp add: concat_bit_def)
  also have "\<dots> = take_bit 8 lo + push_bit 8 hi" by (rule concat_bit_eq)
  finally show ?thesis using \<open>take_bit 8 lo = lo\<close> by (simp add: push_bit_int_def)
qed

lemma js_or_shl_8:
  assumes "0 \<le> lo" "lo < 256" "0 \<le> hi" "hi < 256"
  shows "js_or (Num lo) (js_shl (Num hi) 8) = Num (lo + 256 * hi)"
proof -
  have a: "ToInt32 (Num lo) = lo" "ToInt32 (Num hi) = hi"
    using assms by (simp_all add: ToInt32_Num_small)
  have b: "signed_take_bit 31 (push_bit 8 hi) = push_bit 8 hi"
    using assms by (intro signed_take_bit_int_eq_self) (simp_all add: push_bit_int_def)
  have "js_shl (Num hi) 8 = Num (push_bit 8 hi)"
    by (simp add: js_shl_def a b)
  then have c: "ToInt32 (js_shl (Num hi) 8) = push_bit 8 hi"
    by (simp add: ToInt32_def b)
  show ?thesis
    by (simp add: js_or_def a c or_push_bit_8 [OF assms(1,2)])
qed

lemma push_Num:
  assumes "SP s = Num sp" "0 \<le> sp" "sp \<le> 255"
  shows "push (Num n) s =
           (array_store (Num (256 + sp)) (Num (n mod 256)) s)\<lparr>SP := Num ((sp - 1) mod 256)\<rparr>"
proof -
  have w: "writeByte (Num n) (Num (256 + sp)) s = array_store (Num (256 + sp)) (Num (n mod 256)) s"
    using assms by (subst writeByte_plain) (simp_all add: js_and_Num_255)
  have m: "(sp - 1) mod 256 = (if sp = 0 then 255 else sp - 1)"
    using assms by auto
  show ?thesis
    using assms by (simp add: push_def Let_def w array_store_def m)
qed

lemma pull_Num:
  assumes "SP s = Num sp" "0 \<le> sp" "sp \<le> 255"
  shows "pull s = (mem s (Num (256 + (sp + 1) mod 256)), s\<lparr>SP := Num ((sp + 1) mod 256)\<rparr>)"
proof -
  have m: "(sp + 1) mod 256 = (if sp = 255 then 0 else sp + 1)"
    using assms by auto
  show ?thesis
    using assms by (auto simp add: pull_def Let_def read_def m)
qed

lemma arm_JSR_RTS:
  "map_of arms 0x20 = Some (\<lambda>s. (True, JSR s))"
  "map_of arms 0x60 = Some (\<lambda>s. (True, RTS s))"
  by (simp_all add: arms_def)

lemma js_sar_8: "- 2147483648 \<le> n \<Longrightarrow> n < 2147483648 \<Longrightarrow> js_sar (Num n) 8 = Num (n div 256)"
  by (simp add: js_sar_def ToInt32_Num_small drop_bit_int_def)

lemma dec_mod_256:
  fixes sp :: int
  assumes "0 \<le> sp" "sp \<le> 255"
  shows "(sp - 1) mod 256 = (if sp = 0 then 255 else sp - 1)"
    and "(sp - 2) mod 256 = (if sp = 0 then 254 else if sp = 1 then 255 else sp - 2)"
    and "(sp + 1) mod 256 = (if sp = 255 then 0 else sp + 1)"
    and "(sp + 2) mod 256 = (if sp = 255 then 1 else if sp = 254 then 0 else sp + 2)"
  using assms by auto


lemma JSR_effect:
  assumes "PC s = Num p" "0 \<le> p" "p + 2 \<le> 0xFFFF" "SP s = Num sp" "0 \<le> sp" "sp \<le> 255"
  shows "SP (JSR s) = Num ((sp - 2) mod 256)"
    and "mem (JSR s) (Num (256 + sp)) = Num ((p + 2) div 256)"
    and "mem (JSR s) (Num (256 + (sp - 1) mod 256)) = Num ((p + 2) mod 256)"
    and "memory (JSR s) = memory s"
proof -
  note d = dec_mod_256 [OF assms(5,6)]
  have hi: "js_and (js_sar (js_add (PC s) (Num 2)) 8) (Num 0xff) = Num ((p + 2) div 256)"
    using assms by (simp add: js_sar_8 js_and_Num_255)
  define s1 where "s1 = push (Num ((p + 2) div 256)) s"
  have s1: "s1 = (array_store (Num (256 + sp)) (Num ((p + 2) div 256)) s)\<lparr>SP := Num ((sp - 1) mod 256)\<rparr>"
    using assms by (simp add: s1_def push_Num [OF assms(4-6)])
  have p1: "PC s1 = Num p" "SP s1 = Num ((sp - 1) mod 256)"
    using assms by (simp_all add: s1 array_store_def)
  have lo: "js_and (js_add (PC s1) (Num 2)) (Num 0xff) = Num ((p + 2) mod 256)"
    by (simp add: p1 js_and_Num_255)
  define s2 where "s2 = push (Num ((p + 2) mod 256)) s1"
  have s2: "s2 = (array_store (Num (256 + (sp - 1) mod 256)) (Num ((p + 2) mod 256)) s1)
                   \<lparr>SP := Num (((sp - 1) mod 256 - 1) mod 256)\<rparr>"
    unfolding s2_def by (subst push_Num [OF p1(2)]) simp_all
  have J: "JSR s = s2\<lparr>PC := Absolute s2\<rparr>"
    by (simp add: JSR_def Let_def hi lo s1_def [symmetric] s2_def [symmetric])
  have ne: "sp \<noteq> (sp - 1) mod 256"
    using assms(5,6) by (simp add: d(1))
  have e: "((sp - 1) mod 256 - 1) mod 256 = (sp - 2) mod 256"
    using assms(5,6) by (simp add: d(1,2))
  show "SP (JSR s) = Num ((sp - 2) mod 256)"
    by (simp add: J s2 e)
  show "mem (JSR s) (Num (256 + sp)) = Num ((p + 2) div 256)"
    using ne by (simp add: J s2 s1 array_store_def)
  show "mem (JSR s) (Num (256 + (sp - 1) mod 256)) = Num ((p + 2) mod 256)"
    by (simp add: J s2 array_store_def)
  show "memory (JSR s) = memory s"
    by (simp add: J s2 s1 array_store_def)
qed


lemma RTS_effect:
  assumes "SP t = Num tp" "0 \<le> tp" "tp \<le> 255"
    and "mem t (Num (256 + (tp + 1) mod 256)) = Num lo" "0 \<le> lo" "lo < 256"
    and "mem t (Num (256 + (tp + 2) mod 256)) = Num hi" "0 \<le> hi" "hi < 256"
  shows "PC (RTS t) = Num (lo + 256 * hi + 1)" "SP (RTS t) = Num ((tp + 2) mod 256)"
    "memory (RTS t) = memory t"
proof -
  note d = dec_mod_256 [OF assms(2,3)]
  have p1: "pull t = (Num lo, t\<lparr>SP := Num ((tp + 1) mod 256)\<rparr>)"
    using assms(1-4) by (simp add: pull_Num)
  have r: "0 \<le> (tp + 1) mod 256" "(tp + 1) mod 256 \<le> 255"
    using assms(2,3) by (simp_all add: d(3))
  have e: "((tp + 1) mod 256 + 1) mod 256 = (tp + 2) mod 256"
    using assms(2,3) by (simp add: d(3,4))
  have "pull (t\<lparr>SP := Num ((tp + 1) mod 256)\<rparr>) =
          (mem (t\<lparr>SP := Num ((tp + 1) mod 256)\<rparr>) (Num (256 + ((tp + 1) mod 256 + 1) mod 256)),
           t\<lparr>SP := Num ((tp + 1) mod 256)\<rparr>\<lparr>SP := Num (((tp + 1) mod 256 + 1) mod 256)\<rparr>)"
    by (rule pull_Num [OF _ r]) simp
  then have p2: "pull (t\<lparr>SP := Num ((tp + 1) mod 256)\<rparr>) = (Num hi, t\<lparr>SP := Num ((tp + 2) mod 256)\<rparr>)"
    using assms(7) by (simp add: e)
  show "PC (RTS t) = Num (lo + 256 * hi + 1)" "SP (RTS t) = Num ((tp + 2) mod 256)"
    "memory (RTS t) = memory t"
    using assms(5,6,8,9) by (simp_all add: RTS_def p1 p2 js_or_shl_8)
qed

section \<open>Subroutine call and return\<close>

text \<open>
  C7.  Take any address \<open>p\<close> whose three-byte instruction fits in memory
  (\<open>p + 2 \<le> $FFFF\<close>) and a stack pointer in \<open>0..255\<close>.  Executing \<open>JSR\<close> at \<open>p\<close> pushes
  the high byte of \<open>p + 2\<close> at \<open>$0100 + SP\<close> and the low byte one cell below (wrapping
  inside the stack page).  In any later state that has the stack pointer \<open>JSR\<close> left and
  those two cells intact, executing \<open>RTS\<close> leaves \<open>PC = p + 3\<close> and the stack pointer at
  its value before the \<open>JSR\<close>, whatever the target of the \<open>JSR\<close> was.
\<close>

theorem JSR_then_RTS:
  assumes "memory s = MemoryObject" "PC s = Num p" "0 \<le> p" "p + 2 \<le> 0xFFFF"
    and "p < mem_length s" "SP s = Num sp" "0 \<le> sp" "sp \<le> 255" "opcode s = Num 0x20"
  shows "\<exists>s1. executeInstruction s = Inr (True, s1)
           \<and> mem s1 (Num (0x100 + sp)) = Num ((p + 2) div 256)
           \<and> mem s1 (Num (0x100 + (sp - 1) mod 256)) = Num ((p + 2) mod 256)
           \<and> (\<forall>t. memory t = MemoryObject \<and> SP t = SP s1
                  \<and> mem t (Num (0x100 + sp)) = mem s1 (Num (0x100 + sp))
                  \<and> mem t (Num (0x100 + (sp - 1) mod 256)) = mem s1 (Num (0x100 + (sp - 1) mod 256))
                  \<and> (\<exists>q. PC t = Num q \<and> q < mem_length t) \<and> opcode t = Num 0x60
                \<longrightarrow> (\<exists>t'. executeInstruction t = Inr (True, t')
                          \<and> PC t' = Num (p + 3) \<and> SP t' = SP s))"
proof -
  let ?r = "refresh_random s"
  have g: "\<not> js_ge (PC s) (Num (mem_length s))" using assms by simp
  have E: "executeInstruction s = Inr (True, JSR ?r)"
    using executeInstruction_arm [OF assms(1) g assms(9) _ arm_JSR_RTS(1)] by simp
  have r: "PC ?r = Num p" "SP ?r = Num sp"
    using assms by (simp_all add: frame)
  note J = JSR_effect [OF r(1) assms(3,4) r(2) assms(7,8)]
  note d = dec_mod_256 [OF assms(7,8)]
  have b: "0 \<le> (sp - 2) mod 256" "(sp - 2) mod 256 \<le> 255" by simp_all
  have i1: "((sp - 2) mod 256 + 1) mod 256 = (sp - 1) mod 256"
    and i2: "((sp - 2) mod 256 + 2) mod 256 = sp"
    using assms(7,8) by (simp_all add: d)
  have R: "\<exists>t'. executeInstruction t = Inr (True, t') \<and> PC t' = Num (p + 3) \<and> SP t' = SP s"
    if t: "memory t = MemoryObject" "SP t = SP (JSR ?r)"
      "mem t (Num (0x100 + sp)) = mem (JSR ?r) (Num (0x100 + sp))"
      "mem t (Num (0x100 + (sp - 1) mod 256)) = mem (JSR ?r) (Num (0x100 + (sp - 1) mod 256))"
      "PC t = Num q" "q < mem_length t" "opcode t = Num 0x60" for t q
  proof -
    let ?u = "refresh_random t"
    have gt: "\<not> js_ge (PC t) (Num (mem_length t))" using t by simp
    have Et: "executeInstruction t = Inr (True, RTS ?u)"
      using executeInstruction_arm [OF t(1) gt t(7) _ arm_JSR_RTS(2)] by simp
    have u1: "SP ?u = Num ((sp - 2) mod 256)"
      using t(2) J(1) by (simp add: frame)
    have u2: "mem ?u (Num (256 + ((sp - 2) mod 256 + 1) mod 256)) = Num ((p + 2) mod 256)"
      using t(4) J(3) assms(7,8) by (simp add: frame i1 d(1))
    have u3: "mem ?u (Num (256 + ((sp - 2) mod 256 + 2) mod 256)) = Num ((p + 2) div 256)"
      using t(3) J(2) assms(7,8) by (simp add: frame i2)
    have h: "0 \<le> (p + 2) div 256" "(p + 2) div 256 < 256"
      using assms(3,4) by simp_all
    have l: "0 \<le> (p + 2) mod 256" "(p + 2) mod 256 < 256" by simp_all
    note Rt = RTS_effect [OF u1 b u2 l u3 h]
    have "(p + 2) mod 256 + 256 * ((p + 2) div 256) + 1 = p + 3" by simp
    then show ?thesis
      using Et Rt assms(6) by (simp add: i2)
  qed
  show ?thesis
    using E J(2,3) R by (intro exI [of _ "JSR ?r"]) auto
qed

lemmas js_eval = js_and_def js_or_def js_xor_def js_not_def js_shl_def js_sar_def js_shr_def
  ToInt32_def ToUint32_def

lemmas mem_eval = refresh_random_eq array_store_def read_def readWord_def push_def pull_def
  writeByte_plain Absolute_def operand_def Let_def

lemma jsr_demo_facts:
  "memory jsr_demo = MemoryObject" "PC jsr_demo = Num 0x800" "SP jsr_demo = Num 0xff"
  "mem_length jsr_demo = 65536" "opcode jsr_demo = Num 0x20"
  by (simp_all add: jsr_demo_def power_on_eq opcode_def mem_eval)

lemma jsr_demo_after:
  "PC (JSR (refresh_random jsr_demo)) = Num 0x803"
  "mem_length (JSR (refresh_random jsr_demo)) = 65536"
  "opcode (JSR (refresh_random jsr_demo)) = Num 0x60"
  by (simp_all add: JSR_def jsr_demo_def power_on_eq opcode_def mem_eval js_eval)

theorem JSR_then_RTS_witness:
  "\<exists>s1 t'. executeInstruction jsr_demo = Inr (True, s1)
      \<and> executeInstruction s1 = Inr (True, t') \<and> PC t' = Num 0x803 \<and> SP t' = Num 0xff"
proof -
  have g: "\<not> js_ge (PC jsr_demo) (Num (mem_length jsr_demo))"
    by (simp add: jsr_demo_facts)
  have E: "executeInstruction jsr_demo = Inr (True, JSR (refresh_random jsr_demo))"
    using executeInstruction_arm [OF jsr_demo_facts(1) g jsr_demo_facts(5) _ arm_JSR_RTS(1)]
    by simp
  from JSR_then_RTS [OF jsr_demo_facts(1,2) _ _ _ jsr_demo_facts(3) _ _ jsr_demo_facts(5)]
  obtain s1 where s1: "executeInstruction jsr_demo = Inr (True, s1)"
    and rt: "\<forall>t. memory t = MemoryObject \<and> SP t = SP s1
                  \<and> mem t (Num (0x100 + 0xff)) = mem s1 (Num (0x100 + 0xff))
                  \<and> mem t (Num (0x100 + (0xff - 1) mod 256)) = mem s1 (Num (0x100 + (0xff - 1) mod 256))
                  \<and> (\<exists>q. PC t = Num q \<and> q < mem_length t) \<and> opcode t = Num 0x60
                \<longrightarrow> (\<exists>t'. executeInstruction t = Inr (True, t')
                          \<and> PC t' = Num (0x800 + 3) \<and> SP t' = SP jsr_demo)"
    by (auto simp add: jsr_demo_facts)
  have eq: "s1 = JSR (refresh_random jsr_demo)" using s1 E by simp
  have m: "memory s1 = MemoryObject"
    using JSR_effect(4) [of "refresh_random jsr_demo" "0x800" "0xff"]
    by (simp add: eq frame jsr_demo_facts)
  have "\<exists>t'. executeInstruction s1 = Inr (True, t') \<and> PC t' = Num (0x800 + 3) \<and> SP t' = SP jsr_demo"
    using rt [rule_format, of s1] m jsr_demo_after by (simp add: eq)
  then show ?thesis using s1 by (auto simp add: jsr_demo_facts)
qed

section \<open>How far \<open>SBC\<close> advances the program counter\<close>

lemma arm_SBC_all:
  "map_of arms 0xe9 = Some (\<lambda>s. (True, SBC_Immediate s))"
  "map_of arms 0xe5 = Some (\<lambda>s. (True, SBC_Zero_Page s))"
  "map_of arms 0xf5 = Some (\<lambda>s. (True, SBC_Zero_Page_X s))"
  "map_of arms 0xed = Some (\<lambda>s. (True, SBC_Absolute s))"
  "map_of arms 0xfd = Some (\<lambda>s. (True, SBC_Absolute_X s))"
  "map_of arms 0xf9 = Some (\<lambda>s. (True, SBC_Absolute_Y s))"
  "map_of arms 0xe1 = Some (\<lambda>s. (True, SBC_Indirect_X s))"
  "map_of arms 0xf1 = Some (\<lambda>s. (True, SBC_Indirect_Y s))"
  by (simp_all add: arms_def)

lemmas SBC_arm_defs = SBC_Immediate_def SBC_Zero_Page_def SBC_Zero_Page_X_def SBC_Absolute_def
  SBC_Absolute_X_def SBC_Absolute_Y_def SBC_Indirect_X_def SBC_Indirect_Y_def

lemma SBC_arm_PC:
  "PC (SBC_Immediate t) = js_add (PC t) (Num 2)"
  "PC (SBC_Zero_Page t) = js_add (PC t) (Num 2)"
  "PC (SBC_Zero_Page_X t) = js_add (PC t) (Num 2)"
  "PC (SBC_Absolute t) = js_add (PC t) (Num 2)"
  "PC (SBC_Absolute_X t) = js_add (PC t) (Num 2)"
  "PC (SBC_Absolute_Y t) = js_add (PC t) (Num 2)"
  "PC (SBC_Indirect_X t) = js_add (PC t) (Num 2)"
  "PC (SBC_Indirect_Y t) = js_add (PC t) (Num 2)"
  by (simp_all add: SBC_arm_defs Let_def incPC_def frame)

text \<open>
  C3.  Every one of the eight \<open>SBC\<close> arms ends in \<open>memory.PC += 2\<close>: the absolute,
  absolute-X and absolute-Y forms (\<open>$ED\<close>, \<open>$FD\<close>, \<open>$F9\<close>), which are three bytes long,
  advance \<open>PC\<close> by 2 like the two-byte forms, not by 3.
\<close>

theorem SBC_advances_PC_by_2:
  assumes "memory s = MemoryObject" "PC s = Num p" "p < mem_length s"
    and "opcode s \<in> {Num 0xed, Num 0xfd, Num 0xf9, Num 0xe9, Num 0xe5, Num 0xf5, Num 0xe1, Num 0xf1}"
  shows "\<exists>s'. executeInstruction s = Inr (True, s') \<and> PC s' = Num (p + 2)"
proof -
  have g: "\<not> js_ge (PC s) (Num (mem_length s))" using assms by simp
  have X: "\<exists>s'. executeInstruction s = Inr (True, s') \<and> PC s' = Num (p + 2)"
    if "opcode s = Num n" "n \<noteq> 0" "map_of arms n = Some (\<lambda>s. (True, arm s))"
      "\<And>t. PC (arm t) = js_add (PC t) (Num 2)" for n arm
    using executeInstruction_arm [OF assms(1) g that(1,2,3)] that(4) assms(2)
    by (simp add: frame)
  show ?thesis
    using assms(4)
      X [OF _ _ arm_SBC_all(1) SBC_arm_PC(1)] X [OF _ _ arm_SBC_all(2) SBC_arm_PC(2)]
      X [OF _ _ arm_SBC_all(3) SBC_arm_PC(3)] X [OF _ _ arm_SBC_all(4) SBC_arm_PC(4)]
      X [OF _ _ arm_SBC_all(5) SBC_arm_PC(5)] X [OF _ _ arm_SBC_all(6) SBC_arm_PC(6)]
      X [OF _ _ arm_SBC_all(7) SBC_arm_PC(7)] X [OF _ _ arm_SBC_all(8) SBC_arm_PC(8)]
    by auto
qed

theorem SBC_advances_PC_by_2_witness:
  "\<exists>s'. executeInstruction sbc_demo = Inr (True, s') \<and> PC s' = Num 0x802"
proof -
  have "memory sbc_demo = MemoryObject" "PC sbc_demo = Num 0x800"
    "0x800 < mem_length sbc_demo" "opcode sbc_demo = Num 0xed"
    by (simp_all add: sbc_demo_def power_on_eq opcode_def mem_eval)
  then show ?thesis
    using SBC_advances_PC_by_2 [of sbc_demo "0x800"] by simp
qed

section \<open>The \<open>BRK\<close> arm\<close>

lemma brk_pushes_primitive: "memory s = MemoryPrimitive v \<Longrightarrow> brk_pushes s = Inl TypeError"
  by (simp add: brk_pushes_def)

lemma executeInstruction_primitive:
  "memory s = MemoryPrimitive v \<Longrightarrow> executeInstruction s = Inl TypeError"
  by (subst executeInstruction.simps) simp

text \<open>
  C1.  The \<open>BRK\<close> arm starts with \<open>memory = memory.PC + 2\<close>, which replaces the memory
  object by a number.  \<open>brkInterrupt\<close> then cannot push: in debug mode its first
  \<open>stack.push\<close> throws a \<open>TypeError\<close> out of \<open>executeInstruction\<close>; otherwise
  \<open>executeInstruction\<close> returns \<open>false\<close> with nothing pushed, the flags and \<open>PC\<close> as they
  were and no cell changed but the random byte at \<open>$FE\<close>, and both the deferred callback
  and every further instruction throw.
\<close>

theorem BRK_replaces_memory:
  assumes "memory s = MemoryObject" "PC s = Num p" "p < mem_length s" "opcode s = Num 0x00"
  shows "(debugOn s \<longrightarrow> executeInstruction s = Inl TypeError)
       \<and> (\<not> debugOn s \<longrightarrow>
            (\<exists>s'. executeInstruction s = Inr (False, s')
               \<and> memory s' = MemoryPrimitive (Num (p + 2))
               \<and> SP s' = SP s \<and> flags s' = flags s \<and> PC s' = PC s
               \<and> (\<forall>x. x \<noteq> Num 0xfe \<longrightarrow> mem s' x = mem s x)
               \<and> brkInterrupt_timeout s' = Inl TypeError
               \<and> executeInstruction s' = Inl TypeError))"
proof -
  let ?r = "refresh_random s"
  let ?b = "?r\<lparr>memory := MemoryPrimitive (js_add (PC ?r) (Num 2))\<rparr>"
  have g: "\<not> js_ge (PC s) (Num (mem_length s))" using assms by simp
  have o: "read (PC ?r) ?r = Num 0" using assms(4) by (simp add: opcode_def)
  have E: "executeInstruction s =
             (case brkInterrupt ?b of Inl err \<Rightarrow> Inl err | Inr s2 \<Rightarrow> Inr (False, s2))"
    using assms(1) g o by (subst executeInstruction.simps) (simp add: Let_def)
  have D: "debugOn ?r = debugOn s" by (simp add: frame)
  show ?thesis
  proof (intro conjI impI)
    assume "debugOn s"
    then have "brkInterrupt ?b = Inl TypeError"
      by (subst brkInterrupt.simps) (simp add: Let_def D brk_pushes_def)
    then show "executeInstruction s = Inl TypeError" by (simp add: E)
  next
    assume n: "\<not> debugOn s"
    let ?s' = "?b\<lparr>instructionTimer := TimerNull, timeouts := Suc (timeouts ?r)\<rparr>"
    have B: "brkInterrupt ?b = Inr ?s'"
      using n by (subst brkInterrupt.simps) (simp add: Let_def D)
    have "executeInstruction s = Inr (False, ?s')" by (simp add: E B)
    moreover have "memory ?s' = MemoryPrimitive (Num (p + 2))"
      using assms(2) by (simp add: frame)
    moreover have "SP ?s' = SP s" "flags ?s' = flags s" "PC ?s' = PC s"
      by (simp_all add: frame)
    moreover have "\<forall>x. x \<noteq> Num 0xfe \<longrightarrow> mem ?s' x = mem s x"
      by (simp add: frame)
    moreover have "brkInterrupt_timeout ?s' = Inl TypeError"
      by (simp add: brkInterrupt_timeout_def brk_pushes_def)
    moreover have "executeInstruction ?s' = Inl TypeError"
      by (rule executeInstruction_primitive [where v = "js_add (PC ?r) (Num 2)"]) simp
    ultimately show "\<exists>s'. executeInstruction s = Inr (False, s')
               \<and> memory s' = MemoryPrimitive (Num (p + 2))
               \<and> SP s' = SP s \<and> flags s' = flags s \<and> PC s' = PC s
               \<and> (\<forall>x. x \<noteq> Num 0xfe \<longrightarrow> mem s' x = mem s x)
               \<and> brkInterrupt_timeout s' = Inl TypeError
               \<and> executeInstruction s' = Inl TypeError"
      by blast
  qed
qed


lemma arm_CLI: "map_of arms 0x58 = Some (\<lambda>s. (True, CLI s))"
  by (simp add: arms_def)

lemma brk_demo_facts:
  "memory brk_demo = MemoryObject" "PC brk_demo = Num 0x800"
  "mem_length brk_demo = 65536" "opcode brk_demo = Num 0x58"
  by (simp_all add: brk_demo_def power_on_eq opcode_def mem_eval)

lemma brk_demo_after_CLI:
  "memory (CLI (refresh_random brk_demo)) = MemoryObject"
  "PC (CLI (refresh_random brk_demo)) = Num 0x801"
  "mem_length (CLI (refresh_random brk_demo)) = 65536"
  "opcode (CLI (refresh_random brk_demo)) = Num 0x00"
  "\<not> debugOn (CLI (refresh_random brk_demo))"
  "SP (CLI (refresh_random brk_demo)) = Num 0xff"
  "flags (CLI (refresh_random brk_demo)) = Num 32"
  "mem (CLI (refresh_random brk_demo)) (Num 0x1ff) = Undefined"
  by (simp_all add: CLI_def incPC_def clearBit_def brk_demo_def power_on_eq opcode_def
      mem_eval js_eval)

theorem BRK_replaces_memory_witness:
  "\<exists>s1 s2. executeInstruction brk_demo = Inr (True, s1)
      \<and> executeInstruction s1 = Inr (False, s2)
      \<and> memory s2 = MemoryPrimitive (Num 0x803)
      \<and> SP s2 = Num 0xff \<and> flags s2 = Num 32 \<and> \<not> P_I s2 \<and> PC s2 = Num 0x801
      \<and> mem s2 (Num 0x1ff) = Undefined
      \<and> brkInterrupt_timeout s2 = Inl TypeError
      \<and> executeInstruction (s1\<lparr>debugOn := True\<rparr>) = Inl TypeError"
proof -
  let ?s1 = "CLI (refresh_random brk_demo)"
  have g: "\<not> js_ge (PC brk_demo) (Num (mem_length brk_demo))"
    by (simp add: brk_demo_facts)
  have E: "executeInstruction brk_demo = Inr (True, ?s1)"
    using executeInstruction_arm [OF brk_demo_facts(1) g brk_demo_facts(4) _ arm_CLI] by simp
  have o: "opcode (?s1\<lparr>debugOn := True\<rparr>) = Num 0x00"
    using brk_demo_after_CLI(4) by (simp add: opcode_def refresh_random_eq array_store_def read_def)
  have d: "executeInstruction (?s1\<lparr>debugOn := True\<rparr>) = Inl TypeError"
    using BRK_replaces_memory [of "?s1\<lparr>debugOn := True\<rparr>" "0x801"] o
    by (simp add: brk_demo_after_CLI)
  from BRK_replaces_memory [OF brk_demo_after_CLI(1,2) _ brk_demo_after_CLI(4)]
  obtain s2 where s2: "executeInstruction ?s1 = Inr (False, s2)"
      "memory s2 = MemoryPrimitive (Num (0x801 + 2))" "SP s2 = SP ?s1" "flags s2 = flags ?s1"
      "PC s2 = PC ?s1" "\<forall>x. x \<noteq> Num 0xfe \<longrightarrow> mem s2 x = mem ?s1 x"
      "brkInterrupt_timeout s2 = Inl TypeError"
    using brk_demo_after_CLI(3,5) by auto
  have i: "\<not> P_I s2"
    by (simp add: P_I_def flag_get_def s2(4) brk_demo_after_CLI(7) js_eval)
  show ?thesis
    using E s2 i d by (auto simp add: brk_demo_after_CLI)
qed

section \<open>The B bit of the saved status byte\<close>

lemma js_bit_test:
  assumes "k < 31"
  shows "js_gt (js_and v (Num (2 ^ k))) (Num 0) \<longleftrightarrow> bit (ToInt32 v) k"
proof -
  have "(2::int) ^ k < 2 ^ 31"
    using assms by (intro power_strict_increasing) simp_all
  moreover have "- (2 ^ 31) \<le> (2::int) ^ k"
    by (rule order_trans [of _ 0]) simp_all
  ultimately have a: "signed_take_bit 31 ((2::int) ^ k) = 2 ^ k"
    by (intro signed_take_bit_int_eq_self)
  have b: "0 \<le> x AND (2::int) ^ k" for x by simp
  have c: "(x AND (2::int) ^ k = 0) \<longleftrightarrow> \<not> bit x k" for x
    by (rule and_exp_eq_0_iff_not_bit)
  have "js_gt (js_and v (Num (2 ^ k))) (Num 0) \<longleftrightarrow> 0 < ToInt32 v AND 2 ^ k"
    by (simp add: js_and_def ToInt32_def [of "Num (2 ^ k)"] a)
  also have "\<dots> \<longleftrightarrow> bit (ToInt32 v) k"
    using b [of "ToInt32 v"] c [of "ToInt32 v"] by linarith
  finally show ?thesis .
qed

lemma B_bit_of_iff: "B_bit_of v \<longleftrightarrow> bit (ToInt32 v) 4"
  using js_bit_test [of 4 v] by (simp add: B_bit_of_def)

lemma P_B_iff: "P_B s \<longleftrightarrow> bit (ToInt32 (flags s)) 4"
  using js_bit_test [of 4 "flags s"] by (simp add: P_B_def flag_get_def)

lemma bit_mod_256: "bit ((x::int) mod 256) n \<longleftrightarrow> n < 8 \<and> bit x n"
proof -
  have "x mod 256 = take_bit 8 x" by (simp add: take_bit_int_def)
  then show ?thesis by (simp add: bit_take_bit_iff)
qed

lemma push_any:
  assumes "SP s = Num sp" "0 \<le> sp" "sp \<le> 255"
  shows "push v s = (array_store (Num (256 + sp)) (if isNaN v then v else js_and v (Num 255)) s)
                      \<lparr>SP := Num ((sp - 1) mod 256)\<rparr>"
proof (cases v)
  case (Num n)
  then show ?thesis using push_Num [OF assms, of n] by (simp add: js_and_Num_255)
next
  case Undefined
  have m: "(sp - 1) mod 256 = (if sp = 0 then 255 else sp - 1)"
    using assms by auto
  show ?thesis
    using assms by (simp add: Undefined push_def Let_def writeByte_not_number array_store_def m)
next
  case NaN
  have m: "(sp - 1) mod 256 = (if sp = 0 then 255 else sp - 1)"
    using assms by auto
  show ?thesis
    using assms by (simp add: NaN push_def Let_def writeByte_not_number array_store_def m)
qed

lemma B_bit_pushed: "B_bit_of (if isNaN v then v else js_and v (Num 255)) \<longleftrightarrow> bit (ToInt32 v) 4"
proof (cases v)
  case (Num n)
  have "bit (ToInt32 (Num 255)) 4" by (simp add: bit_ToInt32_Num)
  then show ?thesis by (simp add: Num B_bit_of_iff bit_js_and)
qed (simp_all add: B_bit_of_iff)

lemma arm_PHP: "map_of arms 0x08 = Some (\<lambda>s. (True, PHP s))"
  by (simp add: arms_def)

lemma PHP_pushes_P:
  assumes "memory s = MemoryObject" "PC s = Num p" "p < mem_length s" "opcode s = Num 0x08"
    and "SP s = Num sp" "0 \<le> sp" "sp \<le> 255"
  shows "\<exists>s'. executeInstruction s = Inr (True, s')
           \<and> mem s' (Num (0x100 + sp)) = (if isNaN (flags s) then flags s else js_and (flags s) (Num 255))
           \<and> (B_bit_of (mem s' (Num (0x100 + sp))) \<longleftrightarrow> P_B s)"
proof -
  let ?r = "refresh_random s"
  have g: "\<not> js_ge (PC s) (Num (mem_length s))" using assms by simp
  have E: "executeInstruction s = Inr (True, PHP ?r)"
    using executeInstruction_arm [OF assms(1) g assms(4) _ arm_PHP] by simp
  have r: "SP ?r = Num sp" using assms by (simp add: frame)
  have m: "mem (PHP ?r) (Num (0x100 + sp)) = (if isNaN (flags s) then flags s else js_and (flags s) (Num 255))"
    by (simp add: PHP_def incPC_def getFlags_def push_any [OF r assms(6,7)] array_store_def frame)
  show ?thesis
    using E m by (simp add: B_bit_pushed P_B_iff)
qed

lemma brk_pushes_B:
  assumes "memory s = MemoryObject" "SP s = Num sp" "0 \<le> sp" "sp \<le> 255"
  shows "\<exists>s'. brk_pushes s = Inr s' \<and> SP s' = Num ((sp - 3) mod 256)
           \<and> mem s' (Num (0x100 + (sp - 2) mod 256)) = Num ((ToInt32 (flags s) OR 16) mod 256)
           \<and> B_bit_of (mem s' (Num (0x100 + (sp - 2) mod 256)))"
proof -
  note d = dec_mod_256 [OF assms(3,4)]
  define s1 where "s1 = push (js_and (js_shr (PC s) 8) (Num 255)) s"
  have s1: "\<exists>w. s1 = (array_store (Num (256 + sp)) w s)\<lparr>SP := Num ((sp - 1) mod 256)\<rparr>"
    unfolding s1_def by (subst push_any [OF assms(2-4)]) blast
  have q1: "SP s1 = Num ((sp - 1) mod 256)" "flags s1 = flags s"
    using s1 by (auto simp add: array_store_def)
  have b1: "0 \<le> (sp - 1) mod 256" "(sp - 1) mod 256 \<le> 255" by simp_all
  define s2 where "s2 = push (js_and (PC s1) (Num 255)) s1"
  have s2: "\<exists>w. s2 = (array_store (Num (256 + (sp - 1) mod 256)) w s1)
                   \<lparr>SP := Num (((sp - 1) mod 256 - 1) mod 256)\<rparr>"
    unfolding s2_def by (subst push_any [OF q1(1) b1]) blast
  have e2: "((sp - 1) mod 256 - 1) mod 256 = (sp - 2) mod 256"
    using assms(3,4) by (simp add: d)
  have q2: "SP s2 = Num ((sp - 2) mod 256)" "flags s2 = flags s"
    using s2 by (auto simp add: e2 q1 array_store_def)
  have b2: "0 \<le> (sp - 2) mod 256" "(sp - 2) mod 256 \<le> 255" by simp_all
  define s3 where "s3 = push (js_or (getFlags s2) (Num 16)) s2"
  have v: "js_or (getFlags s2) (Num 16) = Num (ToInt32 (flags s) OR 16)"
    by (simp add: js_or_def getFlags_def q2 ToInt32_Num_small)
  have s3: "s3 = (array_store (Num (256 + (sp - 2) mod 256)) (Num ((ToInt32 (flags s) OR 16) mod 256)) s2)
                   \<lparr>SP := Num (((sp - 2) mod 256 - 1) mod 256)\<rparr>"
    unfolding s3_def v by (rule push_Num [OF q2(1) b2])
  have e3: "((sp - 2) mod 256 - 1) mod 256 = (sp - 3) mod 256"
    using assms(3,4) by (auto simp add: d)
  have B: "brk_pushes s = Inr (s3\<lparr>PC := js_or (read (Num 65534) s3) (js_shl (read (Num 65535) s3) 8)\<rparr>)"
    using assms(1) by (simp add: brk_pushes_def Let_def s1_def s2_def s3_def)
  have bb: "B_bit_of (Num ((ToInt32 (flags s) OR 16) mod 256))"
    by (simp add: B_bit_of_iff bit_ToInt32_Num bit_mod_256 bit_or_iff)
  show ?thesis
    using bb by (simp add: B s3 e3 array_store_def)
qed

lemma brkInterrupt_timeout_B:
  assumes "memory s = MemoryObject" "SP s = Num sp" "0 \<le> sp" "sp \<le> 255"
  shows "\<exists>s2. brkInterrupt_timeout s = Inr s2
            \<and> B_bit_of (mem s2 (Num (0x100 + (sp - 2) mod 256)))"
proof -
  from brk_pushes_B [OF assms] obtain s' where
    "brk_pushes s = Inr s'" "B_bit_of (mem s' (Num (0x100 + (sp - 2) mod 256)))"
    by blast
  then show ?thesis by (simp add: brkInterrupt_timeout_def)
qed

lemma brkInterrupt_deferred:
  "\<not> debugOn s \<Longrightarrow>
   brkInterrupt s = Inr (s\<lparr>instructionTimer := TimerNull, timeouts := Suc (timeouts s)\<rparr>)"
  by (subst brkInterrupt.simps) (simp add: Let_def)

text \<open>
  C4 (as amended).  \<open>PHP\<close> pushes \<open>P\<close> as it is: the saved byte is \<open>flags\<close> (masked
  to 8 bits by \<open>writeByte\<close>), so its B bit equals the B bit of \<open>P\<close>.  The interrupt
  sequence of \<open>brkInterrupt\<close> pushes \<open>flags | 16\<close>, so its saved byte has B = 1; that is
  the sequence a keyboard or mouse maskable interrupt runs (here outside debug mode,
  where the pushes happen in the \<open>setTimeout\<close> callback).
\<close>

theorem saved_P_B_bit:
  assumes "memory s = MemoryObject" "SP s = Num sp" "0 \<le> sp" "sp \<le> 255"
  shows "(\<forall>p. PC s = Num p \<and> p < mem_length s \<and> opcode s = Num 0x08 \<longrightarrow>
            (\<exists>s'. executeInstruction s = Inr (True, s')
               \<and> mem s' (Num (0x100 + sp))
                   = (if isNaN (flags s) then flags s else js_and (flags s) (Num 255))
               \<and> (B_bit_of (mem s' (Num (0x100 + sp))) \<longleftrightarrow> P_B s)))
       \<and> (\<exists>s'. brk_pushes s = Inr s' \<and> B_bit_of (mem s' (Num (0x100 + (sp - 2) mod 256))))
       \<and> (programExecuting s \<and> \<not> P_I s \<and> \<not> debugOn s \<and> keymaskableinterrupt s \<and> keyCode \<noteq> 27
            \<longrightarrow> (\<exists>s1 s2. onkeydown keyCode shiftKey s = Inr s1
                   \<and> brkInterrupt_timeout s1 = Inr s2
                   \<and> B_bit_of (mem s2 (Num (0x100 + (sp - 2) mod 256)))))
       \<and> (programExecuting s \<and> \<not> P_I s \<and> \<not> debugOn s \<and> mousemaskableinterrupt s
            \<longrightarrow> (\<exists>s1 s2. onmousedown buttons s = Inr s1
                   \<and> brkInterrupt_timeout s1 = Inr s2
                   \<and> B_bit_of (mem s2 (Num (0x100 + (sp - 2) mod 256)))))"
proof (intro conjI allI impI)
  fix p assume "PC s = Num p \<and> p < mem_length s \<and> opcode s = Num 0x08"
  then show "\<exists>s'. executeInstruction s = Inr (True, s')
               \<and> mem s' (Num (0x100 + sp))
                   = (if isNaN (flags s) then flags s else js_and (flags s) (Num 255))
               \<and> (B_bit_of (mem s' (Num (0x100 + sp))) \<longleftrightarrow> P_B s)"
    using PHP_pushes_P [OF assms(1) _ _ _ assms(2-4), of p] by simp
next
  show "\<exists>s'. brk_pushes s = Inr s' \<and> B_bit_of (mem s' (Num (0x100 + (sp - 2) mod 256)))"
    using brk_pushes_B [OF assms] by blast
next
  assume h: "programExecuting s \<and> \<not> P_I s \<and> \<not> debugOn s \<and> keymaskableinterrupt s \<and> keyCode \<noteq> 27"
  let ?w = "writeByte (Num keyCode) (Num 0x6e0) (s\<lparr>io := io s @ [Status MaskableKeyDown]\<rparr>)"
  let ?s1 = "?w\<lparr>instructionTimer := TimerNull, timeouts := Suc (timeouts ?w)\<rparr>"
  have K: "onkeydown keyCode shiftKey s = Inr ?s1"
    using h assms(1)
    by (simp add: onkeydown_def memory_writeByte_def brkInterrupt_deferred writeByte_frame
        writeByte_frame2)
  have "memory ?s1 = MemoryObject" "SP ?s1 = Num sp"
    using assms by (simp_all add: writeByte_frame writeByte_frame2)
  from brkInterrupt_timeout_B [OF this assms(3,4)] K
  show "\<exists>s1 s2. onkeydown keyCode shiftKey s = Inr s1
                   \<and> brkInterrupt_timeout s1 = Inr s2
                   \<and> B_bit_of (mem s2 (Num (0x100 + (sp - 2) mod 256)))"
    by blast
next
  assume h: "programExecuting s \<and> \<not> P_I s \<and> \<not> debugOn s \<and> mousemaskableinterrupt s"
  let ?w = "writeByte (Num buttons) (Num 0x6f0) (s\<lparr>io := io s @ [Status MaskableMouseDown]\<rparr>)"
  let ?s1 = "?w\<lparr>instructionTimer := TimerNull, timeouts := Suc (timeouts ?w)\<rparr>"
  have K: "onmousedown buttons s = Inr ?s1"
    using h assms(1)
    by (simp add: onmousedown_def memory_writeByte_def brkInterrupt_deferred writeByte_frame
        writeByte_frame2)
  have "memory ?s1 = MemoryObject" "SP ?s1 = Num sp"
    using assms by (simp_all add: writeByte_frame writeByte_frame2)
  from brkInterrupt_timeout_B [OF this assms(3,4)] K
  show "\<exists>s1 s2. onmousedown buttons s = Inr s1
                   \<and> brkInterrupt_timeout s1 = Inr s2
                   \<and> B_bit_of (mem s2 (Num (0x100 + (sp - 2) mod 256)))"
    by blast
qed

lemma php_demo_facts:
  "memory php_demo = MemoryObject" "PC php_demo = Num 0x800" "SP php_demo = Num 0xff"
  "mem_length php_demo = 65536" "opcode php_demo = Num 0x08" "flags php_demo = Num 0x24"
  by (simp_all add: php_demo_def power_on_eq opcode_def mem_eval)

lemma irq_demo_facts:
  "memory irq_demo = MemoryObject" "SP irq_demo = Num 0xff" "programExecuting irq_demo"
  "\<not> P_I irq_demo" "\<not> debugOn irq_demo" "keymaskableinterrupt irq_demo"
  "mousemaskableinterrupt irq_demo"
  by (simp_all add: irq_demo_def power_on_eq P_I_def flag_get_def js_eval)

theorem saved_P_B_bit_witness:
  "(\<exists>s'. executeInstruction php_demo = Inr (True, s') \<and> mem s' (Num 0x1ff) = Num 0x24
         \<and> \<not> B_bit_of (mem s' (Num 0x1ff)))
   \<and> (\<exists>s1 s2. onkeydown 65 False irq_demo = Inr s1 \<and> brkInterrupt_timeout s1 = Inr s2
         \<and> B_bit_of (mem s2 (Num 0x1fd)))
   \<and> (\<exists>s1 s2. onmousedown 1 irq_demo = Inr s1 \<and> brkInterrupt_timeout s1 = Inr s2
         \<and> B_bit_of (mem s2 (Num 0x1fd)))"
proof -
  have b: "\<not> P_B php_demo"
    by (simp add: P_B_iff php_demo_facts bit_ToInt32_Num)
  have v: "js_and (Num 0x24) (Num 255) = Num 0x24"
    by (simp add: js_eval)
  have 1: "\<exists>s'. executeInstruction php_demo = Inr (True, s') \<and> mem s' (Num 0x1ff) = Num 0x24
         \<and> \<not> B_bit_of (mem s' (Num 0x1ff))"
    using saved_P_B_bit [of php_demo "0xff"] b v by (simp add: php_demo_facts)
  have 2: "\<exists>s1 s2. onkeydown 65 False irq_demo = Inr s1 \<and> brkInterrupt_timeout s1 = Inr s2
         \<and> B_bit_of (mem s2 (Num 0x1fd))"
    using saved_P_B_bit [of irq_demo "0xff" 65 False] by (simp add: irq_demo_facts)
  have 3: "\<exists>s1 s2. onmousedown 1 irq_demo = Inr s1 \<and> brkInterrupt_timeout s1 = Inr s2
         \<and> B_bit_of (mem s2 (Num 0x1fd))"
    using saved_P_B_bit [of irq_demo "0xff" _ _ 1] by (simp add: irq_demo_facts)
  show ?thesis using 1 2 3 by blast
qed

theorem PHP_pushes_B_clear:
  "executeInstruction php_demo = Inr (True, PHP (refresh_random php_demo))
   \<and> mem (PHP (refresh_random php_demo)) (Num 0x1ff) = Num 0x24
   \<and> \<not> B_bit_of (Num 0x24)"
proof -
  have g: "\<not> js_ge (PC php_demo) (Num (mem_length php_demo))"
    by (simp add: php_demo_facts)
  have E: "executeInstruction php_demo = Inr (True, PHP (refresh_random php_demo))"
    using executeInstruction_arm [OF php_demo_facts(1) g php_demo_facts(5) _ arm_PHP] by simp
  have m: "mem (PHP (refresh_random php_demo)) (Num 0x1ff) = Num 0x24"
    by (simp add: PHP_def incPC_def getFlags_def php_demo_def power_on_eq mem_eval js_eval)
  have b: "\<not> B_bit_of (Num 0x24)"
    by (simp add: B_bit_of_iff bit_ToInt32_Num)
  show ?thesis using E m b by simp
qed

section \<open>Decimal-mode addition\<close>

lemma bcd_digits:
  assumes "valid_bcd x"
  obtains h l where "x = 16 * h + l" "0 \<le> h" "h \<le> 9" "0 \<le> l" "l \<le> 9"
proof
  show "x = 16 * (x div 16) + x mod 16" by simp
  show "0 \<le> x div 16" "x div 16 \<le> 9" "0 \<le> x mod 16" "x mod 16 \<le> 9"
    using assms by (simp_all add: valid_bcd_def pos_imp_zdiv_nonneg_iff)
qed

lemma digit_simps:
  fixes h l :: int
  assumes "0 \<le> l" "l < 16"
  shows "(16 * h + l) mod 16 = l" "(16 * h + l) div 16 = h"
  using assms by simp_all

lemma adc_decimal_arith:
  fixes a b c :: int
  assumes "valid_bcd a" "valid_bcd b" "c = 0 \<or> c = 1"
  defines "al0 \<equiv> a mod 16 + b mod 16 + c"
  defines "al \<equiv> (if al0 \<ge> 10 then (al0 + 6) mod 16 + 16 else al0)"
  defines "A1 \<equiv> 16 * (a div 16 mod 16) + 16 * (b div 16 mod 16) + al"
  defines "A2 \<equiv> (if A1 \<ge> 160 then A1 + 96 else A1)"
  defines "S \<equiv> (a mod 16 + 10 * (a div 16)) + (b mod 16 + 10 * (b div 16)) + c"
  shows "valid_bcd (A2 mod 256)"
    and "(A2 mod 256) mod 16 + 10 * ((A2 mod 256) div 16) = S mod 100"
    and "A2 \<ge> 256 \<longleftrightarrow> S \<ge> 100"
proof -
  obtain ha la where a: "a = 16 * ha + la" "0 \<le> ha" "ha \<le> 9" "0 \<le> la" "la \<le> 9"
    using assms(1) by (rule bcd_digits)
  obtain hb lb where b: "b = 16 * hb + lb" "0 \<le> hb" "hb \<le> 9" "0 \<le> lb" "lb \<le> 9"
    using assms(2) by (rule bcd_digits)
  have da: "a mod 16 = la" "a div 16 = ha" "ha mod 16 = ha"
    using a by simp_all
  have db: "b mod 16 = lb" "b div 16 = hb" "hb mod 16 = hb"
    using b by simp_all
  define k where "k = (if la + lb + c \<ge> 10 then 1 else 0::int)"
  define d where "d = la + lb + c - 10 * k"
  have d: "0 \<le> d" "d \<le> 9" using a b assms(3) by (auto simp: d_def k_def)
  have al: "al = 16 * k + d"
  proof (cases "la + lb + c \<ge> 10")
    case True
    then have "la + lb + c + 6 = 16 + d" by (simp add: d_def k_def)
    then have "(la + lb + c + 6) mod 16 = (16 + d) mod 16" by (rule arg_cong)
    also have "\<dots> = d" using d by simp
    finally have "(la + lb + c + 6) mod 16 = d" .
    then show ?thesis using True by (simp add: al_def al0_def da db k_def)
  next
    case False
    then show ?thesis by (simp add: al_def al0_def da db k_def d_def)
  qed
  define h where "h = ha + hb + k"
  have h: "0 \<le> h" "h \<le> 19" using a b by (auto simp: h_def k_def)
  have A1: "A1 = 16 * h + d" by (simp add: A1_def da db al h_def)
  have S: "S = 10 * h + d" by (simp add: S_def da db h_def d_def)
  have "valid_bcd (A2 mod 256)
      \<and> (A2 mod 256) mod 16 + 10 * ((A2 mod 256) div 16) = S mod 100
      \<and> (A2 \<ge> 256 \<longleftrightarrow> S \<ge> 100)"
  proof (cases "h \<ge> 10")
    case True
    define hh where "hh = h - 10"
    define y where "y = 16 * hh + d"
    define z where "z = 10 * hh + d"
    have hh: "0 \<le> hh" "hh \<le> 9" using True h by (simp_all add: hh_def)
    have y: "0 \<le> y" "y < 256" "y mod 16 = d" "y div 16 = hh"
      using hh d by (simp_all add: y_def)
    have z: "0 \<le> z" "z < 100" using hh d by (simp_all add: z_def)
    have A2: "A2 = 256 + y" using True d by (simp add: A2_def A1 y_def hh_def)
    have S': "S = 100 + z" by (simp add: S z_def hh_def)
    have m: "A2 mod 256 = y" using y by (simp add: A2)
    have s: "S mod 100 = z" using z by (simp add: S')
    have "valid_bcd (A2 mod 256)"
      using y hh d by (simp add: m valid_bcd_def)
    moreover have "(A2 mod 256) mod 16 + 10 * ((A2 mod 256) div 16) = S mod 100"
      by (simp add: m s y z_def)
    moreover have "A2 \<ge> 256 \<longleftrightarrow> S \<ge> 100"
      using y z by (simp add: A2 S')
    ultimately show ?thesis by blast
  next
    case False
    define y where "y = 16 * h + d"
    define z where "z = 10 * h + d"
    have y: "0 \<le> y" "y < 256" "y mod 16 = d" "y div 16 = h"
      using False h d by (simp_all add: y_def)
    have z: "0 \<le> z" "z < 100" using False h d by (simp_all add: z_def)
    have A2: "A2 = y" using False d by (simp add: A2_def A1 y_def)
    have S': "S = z" by (simp add: S z_def)
    have m: "A2 mod 256 = y" using y by (simp add: A2)
    have s: "S mod 100 = z" using z by (simp add: S')
    have "valid_bcd (A2 mod 256)"
      using y False h d by (simp add: m valid_bcd_def)
    moreover have "(A2 mod 256) mod 16 + 10 * ((A2 mod 256) div 16) = S mod 100"
      by (simp add: m s y z_def)
    moreover have "A2 \<ge> 256 \<longleftrightarrow> S \<ge> 100"
      using y z by (simp add: A2 S')
    ultimately show ?thesis by blast
  qed
  then show "valid_bcd (A2 mod 256)"
    and "(A2 mod 256) mod 16 + 10 * ((A2 mod 256) div 16) = S mod 100"
    and "A2 \<ge> 256 \<longleftrightarrow> S \<ge> 100"
    by blast+
qed

lemma getter_iff:
  "P_C s \<longleftrightarrow> bit (ToInt32 (flags s)) 0"
  "P_Z s \<longleftrightarrow> bit (ToInt32 (flags s)) 1"
  "P_I s \<longleftrightarrow> bit (ToInt32 (flags s)) 2"
  "P_D s \<longleftrightarrow> bit (ToInt32 (flags s)) 3"
  "P_B s \<longleftrightarrow> bit (ToInt32 (flags s)) 4"
  "P_V s \<longleftrightarrow> bit (ToInt32 (flags s)) 6"
  "P_N s \<longleftrightarrow> bit (ToInt32 (flags s)) 7"
  using flag_get_bit [of 0 s] flag_get_bit [of 1 s] flag_get_bit [of 2 s] flag_get_bit [of 3 s]
    flag_get_bit [of 4 s] flag_get_bit [of 6 s] flag_get_bit [of 7 s]
  by (simp_all add: P_C_def P_Z_def P_I_def P_D_def P_B_def P_V_def P_N_def)

lemma bit_setBit:
  assumes "0 \<le> v" "v \<le> 7" "k \<le> 31"
  shows "bit (ToInt32 (flags (setBit v s))) k \<longleftrightarrow> bit (ToInt32 (flags s)) k \<or> k = nat v"
  using assms by (auto simp add: setBit_def bit_js_or bit_ToInt32_Num bit_exp_iff min_def)

lemma bit_clearBit:
  assumes "0 \<le> v" "v \<le> 7" "k \<le> 31"
  shows "bit (ToInt32 (flags (clearBit v s))) k \<longleftrightarrow> bit (ToInt32 (flags s)) k \<and> k \<noteq> nat v"
  using assms
  by (auto simp add: clearBit_def bit_js_and bit_js_not bit_ToInt32_Num bit_exp_iff min_def)

lemma bit_setZN_other:
  "bit (ToInt32 (flags (setZN v s))) 0 \<longleftrightarrow> bit (ToInt32 (flags s)) 0"
  "bit (ToInt32 (flags (setZN v s))) 2 \<longleftrightarrow> bit (ToInt32 (flags s)) 2"
  "bit (ToInt32 (flags (setZN v s))) 3 \<longleftrightarrow> bit (ToInt32 (flags s)) 3"
  "bit (ToInt32 (flags (setZN v s))) 4 \<longleftrightarrow> bit (ToInt32 (flags s)) 4"
  "bit (ToInt32 (flags (setZN v s))) 6 \<longleftrightarrow> bit (ToInt32 (flags s)) 6"
  by (simp_all add: setZN_def Let_def bit_js_and bit_js_or bit_ToInt32_Num)

lemma bit_setZN_Z: "bit (ToInt32 (flags (setZN v s))) 1 \<longleftrightarrow> v = Num 0"
  by (simp add: setZN_def Let_def bit_js_and bit_js_or bit_ToInt32_Num)

lemma bit_setZN_N:
  "bit (ToInt32 (flags (setZN v s))) 7 \<longleftrightarrow> js_gt (js_and v (Num 0x80)) (Num 0)"
  by (simp add: setZN_def Let_def bit_js_and bit_js_or bit_ToInt32_Num)

lemma P_setZN [simp]:
  "P_C (setZN v s) = P_C s" "P_I (setZN v s) = P_I s" "P_D (setZN v s) = P_D s"
  "P_B (setZN v s) = P_B s" "P_V (setZN v s) = P_V s"
  "P_Z (setZN v s) \<longleftrightarrow> v = Num 0"
  "P_N (setZN v s) \<longleftrightarrow> js_gt (js_and v (Num 0x80)) (Num 0)"
  using bit_setZN_Z [of v s]
  by (simp_all add: getter_iff bit_setZN_other bit_setZN_N)

lemma P_setBit [simp]:
  "P_C (setBit 0 s)" "P_C (setBit 1 s) = P_C s" "P_C (setBit 6 s) = P_C s" "P_C (setBit 7 s) = P_C s"
  "P_Z (setBit 1 s)" "P_Z (setBit 0 s) = P_Z s" "P_Z (setBit 6 s) = P_Z s" "P_Z (setBit 7 s) = P_Z s"
  "P_D (setBit 0 s) = P_D s" "P_D (setBit 1 s) = P_D s" "P_D (setBit 6 s) = P_D s"
  "P_D (setBit 7 s) = P_D s"
  by (simp_all add: getter_iff bit_setBit)

lemma P_clearBit [simp]:
  "\<not> P_C (clearBit 0 s)" "P_C (clearBit 1 s) = P_C s" "P_C (clearBit 6 s) = P_C s"
  "P_C (clearBit 7 s) = P_C s"
  "\<not> P_Z (clearBit 1 s)" "P_Z (clearBit 0 s) = P_Z s" "P_Z (clearBit 6 s) = P_Z s"
  "P_Z (clearBit 7 s) = P_Z s"
  "P_D (clearBit 0 s) = P_D s" "P_D (clearBit 1 s) = P_D s" "P_D (clearBit 6 s) = P_D s"
  "P_D (clearBit 7 s) = P_D s"
  by (simp_all add: getter_iff bit_clearBit)

lemma P_update_other [simp]:
  "P_C (s\<lparr>MPU_A := x\<rparr>) = P_C s" "P_Z (s\<lparr>MPU_A := x\<rparr>) = P_Z s" "P_D (s\<lparr>MPU_A := x\<rparr>) = P_D s"
  "P_C (s\<lparr>PC := y\<rparr>) = P_C s" "P_Z (s\<lparr>PC := y\<rparr>) = P_Z s" "P_D (s\<lparr>PC := y\<rparr>) = P_D s"
  by (simp_all add: P_C_def P_Z_def P_D_def flag_get_def)

lemma and_15: "(x::int) AND 15 = x mod 16"
  using take_bit_eq_mask [of 4 x] by (simp add: take_bit_int_def mask_eq_exp_minus_1)

lemma and_240: "(x::int) AND 240 = 16 * (x div 16 mod 16)"
proof -
  have "x AND 240 = x AND 255 AND NOT 15" by simp
  also have "\<dots> = x AND mask (4 + 4) AND NOT (mask 4)"
    by (simp add: mask_eq_exp_minus_1)
  also have "\<dots> = push_bit 4 (take_bit 4 (drop_bit 4 x))"
    by (rule slice_eq_mask [symmetric])
  finally show ?thesis
    by (simp add: push_bit_int_def take_bit_int_def drop_bit_int_def)
qed

lemma js_and_Num_15: "js_and (Num n) (Num 15) = Num (n mod 16)"
proof -
  have "take_bit 4 (signed_take_bit 31 n) = take_bit 4 n"
    by (rule take_bit_signed_take_bit) simp
  then have "ToInt32 (Num n) mod 16 = n mod 16"
    by (simp add: ToInt32_def take_bit_int_def)
  then show ?thesis
    by (simp add: js_and_def ToInt32_Num_small and_15)
qed

lemma js_and_byte:
  assumes "0 \<le> a" "a < 256"
  shows "js_and (Num a) (Num 0x0f) = Num (a mod 16)"
    and "js_and (Num a) (Num 0xf0) = Num (16 * (a div 16 mod 16))"
  using assms by (simp_all add: js_and_def ToInt32_Num_small and_15 and_240)

lemma do_ADC_decimal_abstract:
  assumes "P_D s"
    and "js_and (MPU_A s) (Num 15) = Num la" "js_and (MPU_A s) (Num 240) = Num ha"
    and "js_and b (Num 15) = Num lb" "js_and b (Num 240) = Num hb"
    and "carry_in s = Num c"
    and "js_and (Num (la + lb + c + 6)) (Num 15) = Num m"
    and "al = (if la + lb + c \<ge> 10 then m + 16 else la + lb + c)"
    and "A2 = (if ha + hb + al \<ge> 160 then ha + hb + al + 96 else ha + hb + al)"
  shows "MPU_A (do_ADC b s) = js_and (Num A2) (Num 255)"
    and "P_C (do_ADC b s) \<longleftrightarrow> A2 \<ge> 256"
proof -
  have c: "carry_in (setZN v s) = Num c" for v
    using assms(6) by (simp add: carry_in_def)
  show "MPU_A (do_ADC b s) = js_and (Num A2) (Num 255)"
    and "P_C (do_ADC b s) \<longleftrightarrow> A2 \<ge> 256"
    using assms(1-5,7-9)
    by (simp_all add: do_ADC_def Let_def frame c assms(6) add.assoc)
qed

lemma bcd_Num:
  assumes "0 \<le> x" "x < 256"
  shows "bcd (Num x) = Num (x mod 16 + 10 * (x div 16))"
proof -
  have t: "take_bit 32 x = x" using assms by (simp add: take_bit_int_def)
  have d: "0 \<le> x div 16" "x div 16 < 16" using assms by (simp_all add: pos_imp_zdiv_nonneg_iff)
  have "js_and (js_shr (Num x) 4) (Num 15) = Num (x div 16 mod 16)"
    by (simp add: js_shr_def ToUint32_def t drop_bit_int_def js_and_Num_15)
  also have "x div 16 mod 16 = x div 16" using d by simp
  finally have h: "js_and (js_shr (Num x) 4) (Num 15) = Num (x div 16)" .
  show ?thesis
    using d by (simp add: bcd_def h js_and_Num_15 ToInt32_Num_small)
qed

lemma do_ADC_decimal_bcd:
  assumes "P_D s" "MPU_A s = Num a" "valid_bcd a" "valid_bcd bv"
  defines "S \<equiv> (a mod 16 + 10 * (a div 16)) + (bv mod 16 + 10 * (bv div 16))
                 + (if P_C s then 1 else 0)"
  shows "\<exists>r. MPU_A (do_ADC (Num bv) s) = Num r \<and> valid_bcd r
              \<and> r mod 16 + 10 * (r div 16) = S mod 100
              \<and> (P_C (do_ADC (Num bv) s) \<longleftrightarrow> S \<ge> 100)"
proof -
  define c :: int where "c = (if P_C s then 1 else 0)"
  have c: "c = 0 \<or> c = 1" by (simp add: c_def)
  have r: "0 \<le> a" "a < 256" "0 \<le> bv" "bv < 256"
    using assms(3,4) by (simp_all add: valid_bcd_def)
  note ar = adc_decimal_arith [OF assms(3,4) c]
  have ci: "carry_in s = Num c" by (simp add: carry_in_def c_def)
  have p: "js_and (MPU_A s) (Num 15) = Num (a mod 16)"
      "js_and (MPU_A s) (Num 240) = Num (16 * (a div 16 mod 16))"
      "js_and (Num bv) (Num 15) = Num (bv mod 16)"
      "js_and (Num bv) (Num 240) = Num (16 * (bv div 16 mod 16))"
    using js_and_byte [OF r(1,2)] js_and_byte [OF r(3,4)] by (simp_all only: assms(2))
  note ab = do_ADC_decimal_abstract [OF assms(1) p ci js_and_Num_15 refl refl]
  show ?thesis
    apply (rule exI)
    apply (intro conjI)
       apply (simp only: ab(1) js_and_Num_255)
      apply (rule ar(1))
     apply (simp only: S_def c_def [symmetric])
     apply (rule ar(2))
    apply (simp only: S_def c_def [symmetric] ab(2))
    apply (rule ar(3))
    done
qed

lemma arm_ADC:
  "map_of arms 0x69 = Some (\<lambda>s. (True, ADC_Immediate s))"
  "map_of arms 0x65 = Some (\<lambda>s. (True, ADC_Zero_Page s))"
  "map_of arms 0x75 = Some (\<lambda>s. (True, ADC_Zero_Page_X s))"
  "map_of arms 0x6d = Some (\<lambda>s. (True, ADC_Absolute s))"
  "map_of arms 0x7d = Some (\<lambda>s. (True, ADC_Absolute_X s))"
  "map_of arms 0x79 = Some (\<lambda>s. (True, ADC_Absolute_Y s))"
  "map_of arms 0x61 = Some (\<lambda>s. (True, ADC_Indirect_X s))"
  "map_of arms 0x71 = Some (\<lambda>s. (True, ADC_Indirect_Y s))"
  by (simp_all add: arms_def)

lemmas ADC_arm_defs = ADC_Immediate_def ADC_Zero_Page_def ADC_Zero_Page_X_def ADC_Absolute_def
  ADC_Absolute_X_def ADC_Absolute_Y_def ADC_Indirect_X_def ADC_Indirect_Y_def

lemma ADC_executes:
  assumes "memory s = MemoryObject" "PC s = Num p" "p < mem_length s"
    and "(opcode s, b) \<in> ADC_operands (refresh_random s)"
  shows "\<exists>k. executeInstruction s = Inr (True, incPC k (do_ADC b (refresh_random s)))"
proof -
  let ?r = "refresh_random s"
  have g: "\<not> js_ge (PC s) (Num (mem_length s))" using assms by simp
  note X = executeInstruction_arm [OF assms(1) g]
  from assms(4) consider
      "opcode s = Num 0x69" "b = operand ?r"
    | "opcode s = Num 0x65" "b = read (operand ?r) ?r"
    | "opcode s = Num 0x75" "b = read (ZeroPageX ?r) ?r"
    | "opcode s = Num 0x6d" "b = read (Absolute ?r) ?r"
    | "opcode s = Num 0x7d" "b = read (AbsoluteX ?r) ?r"
    | "opcode s = Num 0x79" "b = read (AbsoluteY ?r) ?r"
    | "opcode s = Num 0x61" "b = read (readWord (ZeroPageX ?r) ?r) ?r"
    | "opcode s = Num 0x71"
      "b = read (js_and (js_add (readWord (operand ?r) ?r) (MPU_Y ?r)) (Num 65535)) ?r"
    by (auto simp add: ADC_operands_def)
  then show ?thesis
  proof cases
    case 1 then show ?thesis using X [OF 1(1) _ arm_ADC(1)] by (auto simp add: ADC_arm_defs Let_def)
  next
    case 2 then show ?thesis using X [OF 2(1) _ arm_ADC(2)] by (auto simp add: ADC_arm_defs Let_def)
  next
    case 3 then show ?thesis using X [OF 3(1) _ arm_ADC(3)] by (auto simp add: ADC_arm_defs Let_def)
  next
    case 4 then show ?thesis using X [OF 4(1) _ arm_ADC(4)] by (auto simp add: ADC_arm_defs Let_def)
  next
    case 5 then show ?thesis using X [OF 5(1) _ arm_ADC(5)] by (auto simp add: ADC_arm_defs Let_def)
  next
    case 6 then show ?thesis using X [OF 6(1) _ arm_ADC(6)] by (auto simp add: ADC_arm_defs Let_def)
  next
    case 7 then show ?thesis using X [OF 7(1) _ arm_ADC(7)] by (auto simp add: ADC_arm_defs Let_def)
  next
    case 8 then show ?thesis using X [OF 8(1) _ arm_ADC(8)] by (auto simp add: ADC_arm_defs Let_def)
  qed
qed

text \<open>
  C6.  Let \<open>a\<close> and \<open>b\<close> be valid packed-BCD bytes with decimal values \<open>da\<close> and \<open>db\<close>,
  and \<open>c\<close> the carry flag.  Executing any of the eight \<open>ADC\<close> opcodes with D set,
  \<open>A = a\<close> and operand \<open>b\<close> leaves in \<open>A\<close> the valid packed-BCD byte whose decimal value
  is \<open>(da + db + c) mod 100\<close>, and leaves C set iff \<open>da + db + c \<ge> 100\<close>.
\<close>

theorem ADC_decimal_mode:
  assumes "memory s = MemoryObject" "PC s = Num p" "p < mem_length s"
    and "(opcode s, Num bv) \<in> ADC_operands (refresh_random s)"
    and "P_D s" "MPU_A s = Num a" "valid_bcd a" "valid_bcd bv"
    and "bcd (Num a) = Num da" "bcd (Num bv) = Num db"
  shows "\<exists>s' r. executeInstruction s = Inr (True, s') \<and> MPU_A s' = Num r \<and> valid_bcd r
           \<and> bcd (Num r) = Num ((da + db + (if P_C s then 1 else 0)) mod 100)
           \<and> (P_C s' \<longleftrightarrow> da + db + (if P_C s then 1 else 0) \<ge> 100)"
proof -
  let ?r = "refresh_random s"
  define c :: int where "c = (if P_C s then 1 else 0)"
  from ADC_executes [OF assms(1-4)] obtain k where
    E: "executeInstruction s = Inr (True, incPC k (do_ADC (Num bv) ?r))" by blast
  have f: "P_D ?r" "MPU_A ?r = Num a" "P_C ?r = P_C s"
    using assms(5,6) by (simp_all add: P_D_def P_C_def flag_get_def frame)
  have ra: "0 \<le> a" "a < 256" "0 \<le> bv" "bv < 256"
    using assms(7,8) by (simp_all add: valid_bcd_def)
  have d: "a mod 16 + 10 * (a div 16) = da" "bv mod 16 + 10 * (bv div 16) = db"
    using assms(9,10) bcd_Num [OF ra(1,2)] bcd_Num [OF ra(3,4)] by simp_all
  from do_ADC_decimal_bcd [OF f(1,2) assms(7,8)] obtain r where
    r: "MPU_A (do_ADC (Num bv) ?r) = Num r" "valid_bcd r"
      "r mod 16 + 10 * (r div 16) = (da + db + c) mod 100"
      "P_C (do_ADC (Num bv) ?r) \<longleftrightarrow> da + db + c \<ge> 100"
    unfolding f(3) d c_def [symmetric] by blast
  have rr: "0 \<le> r" "r < 256" using r(2) by (simp_all add: valid_bcd_def)
  have b: "bcd (Num r) = Num ((da + db + c) mod 100)"
    by (simp only: bcd_Num [OF rr] r(3))
  have "MPU_A (incPC k (do_ADC (Num bv) ?r)) = Num r"
    "P_C (incPC k (do_ADC (Num bv) ?r)) \<longleftrightarrow> da + db + c \<ge> 100"
    using r(1,4) by (simp_all add: incPC_def)
  then have "\<exists>s' r. executeInstruction s = Inr (True, s') \<and> MPU_A s' = Num r \<and> valid_bcd r
           \<and> bcd (Num r) = Num ((da + db + c) mod 100)
           \<and> (P_C s' \<longleftrightarrow> da + db + c \<ge> 100)"
    using E r(2) b by blast
  then show ?thesis unfolding c_def .
qed

lemma adc_demo_facts:
  "memory adc_demo = MemoryObject" "PC adc_demo = Num 0x800" "mem_length adc_demo = 65536"
  "(opcode adc_demo, Num 0x01) \<in> ADC_operands (refresh_random adc_demo)"
  "P_D adc_demo" "\<not> P_C adc_demo" "MPU_A adc_demo = Num 0x99"
  by (simp_all add: adc_demo_def power_on_eq opcode_def ADC_operands_def mem_eval
      P_D_def P_C_def flag_get_def js_eval)

lemma bcd_zero:
  assumes "valid_bcd r" "bcd (Num r) = Num 0"
  shows "r = 0"
proof -
  have rr: "0 \<le> r" "r < 256" using assms(1) by (simp_all add: valid_bcd_def)
  define l where "l = r mod 16"
  define h where "h = r div 16"
  have "l + 10 * h = 0" using bcd_Num [OF rr] assms(2) by (simp add: l_def h_def)
  moreover have "0 \<le> l" "0 \<le> h"
    using rr by (simp_all add: l_def h_def pos_imp_zdiv_nonneg_iff)
  ultimately have "l = 0" "h = 0" by linarith+
  moreover have "r = 16 * h + l" by (simp add: l_def h_def)
  ultimately show ?thesis by simp
qed

theorem ADC_decimal_mode_witness:
  "\<exists>s'. executeInstruction adc_demo = Inr (True, s') \<and> MPU_A s' = Num 0x00 \<and> P_C s'"
proof -
  have v: "valid_bcd 0x99" "valid_bcd 0x01" by (simp_all add: valid_bcd_def)
  have b: "bcd (Num 0x99) = Num 99" "bcd (Num 0x01) = Num 1"
    by (simp_all add: bcd_Num)
  have l: "0x800 < mem_length adc_demo" by (simp add: adc_demo_facts)
  from ADC_decimal_mode [OF adc_demo_facts(1,2) l adc_demo_facts(4,5,7) v b]
  obtain s' r where s: "executeInstruction adc_demo = Inr (True, s')" "MPU_A s' = Num r"
    "valid_bcd r" "bcd (Num r) = Num 0" "P_C s'"
    using adc_demo_facts(6) by auto
  from bcd_zero [OF s(3,4)] s show ?thesis by blast
qed

section \<open>The Z flag\<close>

lemmas Z_register_arm_defs = AND_Immediate_def AND_Zero_Page_def AND_Zero_Page_X_def
  AND_Absolute_def AND_Absolute_X_def AND_Absolute_Y_def AND_Indirect_X_def AND_Indirect_Y_def
  ASL_Accumulator_def DEX_def DEY_def EOR_Immediate_def EOR_Zero_Page_def EOR_Zero_Page_X_def
  EOR_Absolute_def EOR_Absolute_X_def EOR_Absolute_Y_def EOR_Indirect_X_def EOR_Indirect_Y_def
  INX_def INY_def LDA_Immediate_def LDA_Zero_Page_def LDA_Zero_Page_X_def LDA_Absolute_def
  LDA_Absolute_X_def LDA_Absolute_Y_def LDA_Indirect_X_def LDA_Indirect_Y_def LDX_Immediate_def
  LDX_Zero_Page_def LDX_Zero_Page_Y_def LDX_Absolute_def LDX_Absolute_Y_def LDY_Immediate_def
  LDY_Zero_Page_def LDY_Zero_Page_X_def LDY_Absolute_def LDY_Absolute_X_def ORA_Immediate_def
  ORA_Zero_Page_def ORA_Zero_Page_X_def ORA_Absolute_def ORA_Absolute_X_def ORA_Absolute_Y_def
  ORA_Indirect_X_def ORA_Indirect_Y_def PLA_def LSR_Accumulator_def ROL_Accumulator_def RORA_def
  TAX_def TAY_def TSX_def TXA_def TYA_def IN_def

lemmas Z_memory_arm_defs = ASL_Zero_Page_def ASL_Zero_Page_X_def ASL_Absolute_def
  ASL_Absolute_X_def DEC_Zero_Page_def DEC_Zero_Page_X_def DEC_Absolute_def DEC_Absolute_X_def
  INC_Zero_Page_def INC_Zero_Page_X_def INC_Absolute_def INC_Absolute_X_def ROL_Zero_Page_def
  ROL_Zero_Page_X_def ROL_Absolute_def ROL_Absolute_X_def ROR_Zero_Page_def ROR_Zero_Page_X_def
  ROR_Absolute_def ROR_Absolute_X_def

lemmas Z_compare_arm_defs = CMP_Immediate_def CMP_Zero_Page_def CMP_Zero_Page_X_def
  CMP_Absolute_def CMP_Absolute_X_def CMP_Absolute_Y_def CMP_Indirect_X_def CMP_Indirect_Y_def
  CPX_Immediate_def CPX_Zero_Page_def CPX_Absolute_def CPY_Immediate_def CPY_Zero_Page_def
  CPY_Absolute_def

lemmas Z_bit_arm_defs = BIT_Zero_Page_def BIT_Absolute_def

lemma P_Z_update [simp]:
  "P_Z (s\<lparr>MPU_X := x\<rparr>) = P_Z s" "P_Z (s\<lparr>MPU_Y := x\<rparr>) = P_Z s"
  "P_Z (s\<lparr>SP := x\<rparr>) = P_Z s" "P_Z (s\<lparr>input := i\<rparr>) = P_Z s"
  "P_Z (s\<lparr>prompt_calls := k\<rparr>) = P_Z s"
  "P_C (s\<lparr>MPU_X := x\<rparr>) = P_C s" "P_C (s\<lparr>MPU_Y := x\<rparr>) = P_C s"
  by (simp_all add: P_Z_def P_C_def flag_get_def)

lemma P_Z_incPC [simp]: "P_Z (incPC k s) = P_Z s"
  by (simp add: incPC_def)

lemma regs_incPC [simp]:
  "MPU_A (incPC k s) = MPU_A s" "MPU_X (incPC k s) = MPU_X s" "MPU_Y (incPC k s) = MPU_Y s"
  "mem (incPC k s) = mem s"
  by (simp_all add: incPC_def)

lemma Z_register_ops_Z:
  "\<forall>(n, arm, reg) \<in> set Z_register_ops. P_Z (arm r) \<longleftrightarrow> reg (arm r) = Num 0"
  by (simp add: Z_register_ops_def Z_register_arm_defs do_AND_def do_ORA_def do_EOR_def
      do_LDA_def do_LDX_def do_LDY_def Let_def frame pull_def split: list.splits option.splits prod.splits)

lemma js_and_byte_range:
  assumes "0 \<le> m" "m < 256"
  shows "\<exists>n. js_and x (Num m) = Num n \<and> 0 \<le> n \<and> n < 256"
proof -
  have m: "ToInt32 (Num m) = m" using assms by (simp add: ToInt32_Num_small)
  have "0 \<le> ToInt32 x AND m" using assms(1) by simp
  moreover have "ToInt32 x AND m \<le> m" using assms(1) by (rule AND_upper2)
  ultimately show ?thesis using assms(2) by (simp add: js_and_def m)
qed

lemma js_or_byte_range:
  assumes "0 \<le> a" "a < 256" "0 \<le> b" "b < 256"
  shows "\<exists>n. js_or (Num a) (Num b) = Num n \<and> 0 \<le> n \<and> n < 256"
proof -
  have m: "ToInt32 (Num a) = a" "ToInt32 (Num b) = b" using assms by (simp_all add: ToInt32_Num_small)
  have "a OR b < 2 ^ 8" using assms by (intro OR_upper) simp_all
  moreover have "0 \<le> a OR b" using assms by simp
  ultimately show ?thesis by (simp add: js_or_def m)
qed

lemma mem_writeByte_same:
  assumes "0 \<le> n" "n < 256" "a \<noteq> 0x6b0" "a \<noteq> 0x6b1"
  shows "mem (writeByte (Num n) (Num a) s) (Num a) = Num n"
  apply (subst writeByte.simps)
  using assms apply (simp add: Let_def array_store_def js_and_Num_255)
  done

lemma mem_setBit_clearBit [simp]:
  "mem (if c then setBit v s else clearBit v s) = mem s"
  by (simp add: frame)

lemma P_Z_if_C [simp]:
  "P_Z (if c then setBit 0 s else clearBit 0 s) = P_Z s"
  "P_Z (if c then setBit 6 s else clearBit 6 s) = P_Z s"
  "P_Z (if c then setBit 7 s else clearBit 7 s) = P_Z s"
  by simp_all


lemma mem_writeByte:
  "mem (writeByte v (Num a) s) =
     (mem s)(Num a := (if isNaN v then v
                       else if (a = 0x6b0 \<or> a = 0x6b1) \<and> js_gt v (Num 0) then Num 0
                       else js_and v (Num 255)))"
  apply (subst writeByte.simps)
  apply (simp add: Let_def array_store_def read_def writeByte_zero_eq js_and_Num_255)
  done

lemma shl_byte:
  assumes "0 \<le> b" "b < 256"
  shows "js_and (js_shl (Num b) 1) (Num 254) = Num ((2 * b) mod 256)"
proof -
  have s: "js_shl (Num b) 1 = Num (2 * b)"
    using assms by (simp add: js_shl_def ToInt32_Num_small signed_take_bit_int_eq_self)
  have "push_bit 1 (b AND 127) = push_bit 1 b AND push_bit 1 (127::int)"
    by (rule push_bit_and)
  then have "2 * b AND 254 = 2 * (b AND 127)" by (simp add: push_bit_eq_mult mult.commute)
  moreover have "b AND 127 = b mod 128"
  proof -
    have "b AND mask 7 = b mod 2 ^ 7"
      by (simp add: take_bit_eq_mask [symmetric] take_bit_int_def)
    then show ?thesis by (simp add: mask_eq_exp_minus_1)
  qed
  moreover have "2 * (b mod 128) = (2 * b) mod 256"
    using mult_mod_right [of 2 b 128] by simp
  ultimately have "2 * b AND 254 = (2 * b) mod 256" by simp
  then show ?thesis using assms by (simp add: s js_and_def ToInt32_Num_small del: One_nat_def)
qed

lemma rol_byte:
  assumes "0 \<le> b" "b < 256"
  shows "js_or (js_and (js_shl (Num b) 1) (Num 254)) (Num 1) = Num ((2 * b + 1) mod 256)"
    and "js_or (js_and (js_shl (Num b) 1) (Num 254)) (Num 0) = Num ((2 * b) mod 256)"
proof -
  define y where "y = b mod 128"
  have y: "0 \<le> y" "y < 128" unfolding y_def by simp_all
  have x: "(2 * b) mod 256 = 2 * y"
    using mult_mod_right [of 2 b 128] by (simp add: y_def)
  have "(2 * b + 1) mod 256 = (2 * y + 1) mod 256"
    using x by (metis mod_add_left_eq)
  also have "\<dots> = 2 * y + 1" using y by (intro mod_pos_pos_trivial) simp_all
  finally have x1: "(2 * b + 1) mod 256 = 2 * y + 1" .
  have o: "2 * y OR 1 = 2 * y + 1" by (simp add: or_one_eq)
  show "js_or (js_and (js_shl (Num b) 1) (Num 254)) (Num 1) = Num ((2 * b + 1) mod 256)"
    using y by (simp add: shl_byte [OF assms] x x1 js_or_def ToInt32_Num_small o del: One_nat_def)
  show "js_or (js_and (js_shl (Num b) 1) (Num 254)) (Num 0) = Num ((2 * b) mod 256)"
    using y by (simp add: shl_byte [OF assms] x js_or_def ToInt32_Num_small del: One_nat_def)
qed

lemma or_128:
  fixes x :: int
  assumes "0 \<le> x" "x < 128"
  shows "x OR 128 = x + 128"
proof -
  have "x div 2 ^ 7 = 0" using assms by simp
  then have b: "\<not> bit x 7" by (simp add: bit_iff_odd)
  have "bit (128::int) n \<longleftrightarrow> n = 7" for n
    using bit_exp_iff [where ?'a = int, of 7 n] by simp
  then have "x + 128 = x OR 128"
    using b by (intro disjunctive_add) auto
  then show ?thesis by simp
qed

lemma ror_byte:
  assumes "0 \<le> b" "b < 256"
  shows "js_or (js_and (js_shr (Num b) 1) (Num 127)) (Num 128) = Num (b div 2 + 128)"
    and "js_or (js_and (js_shr (Num b) 1) (Num 127)) (Num 0) = Num (b div 2)"
proof -
  define y where "y = b div 2"
  have y: "0 \<le> y" "y < 128" using assms unfolding y_def by simp_all
  have t: "take_bit 32 b = b" using assms by (simp add: take_bit_int_def)
  have s: "js_shr (Num b) 1 = Num y"
    by (simp add: js_shr_def ToUint32_def t drop_bit_int_def y_def del: One_nat_def)
  have "y AND mask 7 = y mod 2 ^ 7"
    by (simp add: take_bit_eq_mask [symmetric] take_bit_int_def)
  then have a: "y AND 127 = y" using y by (simp add: mask_eq_exp_minus_1)
  have k: "js_and (Num y) (Num 127) = Num y"
    using y by (simp add: js_and_def ToInt32_Num_small a)
  show "js_or (js_and (js_shr (Num b) 1) (Num 127)) (Num 128) = Num (b div 2 + 128)"
    using y by (simp add: s k js_or_def ToInt32_Num_small or_128 y_def [symmetric] del: One_nat_def)
  show "js_or (js_and (js_shr (Num b) 1) (Num 127)) (Num 0) = Num (b div 2)"
    using y by (simp add: s k js_or_def ToInt32_Num_small y_def [symmetric] del: One_nat_def)
qed

lemma mem_flag_ops [simp]:
  "mem (setZN v s) = mem s"
  by (simp add: frame)

lemma Z_do_INC:
  "P_Z (do_INC (Num a) s) \<longleftrightarrow> js_and (js_add (mem s (Num a)) (Num 1)) (Num 255) = Num 0"
  "mem (do_INC (Num a) s)
     = mem (writeByte (js_and (js_add (mem s (Num a)) (Num 1)) (Num 255)) (Num a) s)"
  by (simp_all add: do_INC_def Let_def read_def)

lemma Z_do_DEC:
  "P_Z (do_DEC (Num a) s) \<longleftrightarrow> js_and (js_sub (mem s (Num a)) (Num 1)) (Num 255) = Num 0"
  "mem (do_DEC (Num a) s)
     = mem (writeByte (js_and (js_sub (mem s (Num a)) (Num 1)) (Num 255)) (Num a) s)"
  by (simp_all add: do_DEC_def Let_def read_def)

lemma Z_do_ASL:
  "P_Z (do_ASL (Num a) b s) \<longleftrightarrow> js_and (js_shl b 1) (Num 254) = Num 0"
  "mem (do_ASL (Num a) b s) = mem (writeByte (js_and (js_shl b 1) (Num 254)) (Num a) s)"
  by (simp_all add: do_ASL_def Let_def mem_writeByte frame del: One_nat_def)

lemma Z_do_ROL:
  "P_Z (do_ROL (Num a) b s)
     \<longleftrightarrow> js_or (js_and (js_shl b 1) (Num 254)) (if P_C s then Num 1 else Num 0) = Num 0"
  "mem (do_ROL (Num a) b s)
     = mem (writeByte (js_or (js_and (js_shl b 1) (Num 254)) (if P_C s then Num 1 else Num 0))
              (Num a) s)"
  by (simp_all add: do_ROL_def Let_def del: One_nat_def)

lemma Z_do_ROR:
  "P_Z (do_ROR (Num a) b s)
     \<longleftrightarrow> js_or (js_and (js_shr b 1) (Num 127)) (if P_C s then Num 128 else Num 0) = Num 0"
  "mem (do_ROR (Num a) b s)
     = mem (writeByte (js_or (js_and (js_shr b 1) (Num 127)) (if P_C s then Num 128 else Num 0))
              (Num a) s)"
  by (simp_all add: do_ROR_def Let_def del: One_nat_def)

lemma rol_value:
  fixes b :: int
  shows "js_or (Num (2 * b mod 256)) (Num 1) = Num ((2 * b + 1) mod 256)"
    and "js_or (Num (2 * b mod 256)) (Num 0) = Num (2 * b mod 256)"
proof -
  define y where "y = b mod 128"
  have y: "0 \<le> y" "y < 128" unfolding y_def by simp_all
  have x: "(2 * b) mod 256 = 2 * y"
    using mult_mod_right [of 2 b 128] by (simp add: y_def)
  have "(2 * b + 1) mod 256 = (2 * y + 1) mod 256"
    using x by (metis mod_add_left_eq)
  also have "\<dots> = 2 * y + 1" using y by (intro mod_pos_pos_trivial) simp_all
  finally have x1: "(2 * b + 1) mod 256 = 2 * y + 1" .
  have o: "2 * y OR 1 = 2 * y + 1" by (simp add: or_one_eq)
  show "js_or (Num (2 * b mod 256)) (Num 1) = Num ((2 * b + 1) mod 256)"
    using y by (simp add: x x1 js_or_def ToInt32_Num_small o)
  show "js_or (Num (2 * b mod 256)) (Num 0) = Num (2 * b mod 256)"
    using y by (simp add: x js_or_def ToInt32_Num_small)
qed

lemma ror_value:
  assumes "0 \<le> b" "b < 256"
  shows "js_and (js_shr (Num b) 1) (Num 127) = Num (b div 2)"
    and "js_or (Num (b div 2)) (Num 128) = Num (b div 2 + 128)"
    and "js_or (Num (b div 2)) (Num 0) = Num (b div 2)"
    and "b div 2 < 128" "b div 2 < 256"
proof -
  define y where "y = b div 2"
  have y: "0 \<le> y" "y < 128" using assms unfolding y_def by simp_all
  have t: "take_bit 32 b = b" using assms by (simp add: take_bit_int_def)
  have s: "js_shr (Num b) 1 = Num y"
    by (simp add: js_shr_def ToUint32_def t drop_bit_int_def y_def del: One_nat_def)
  have "y AND mask 7 = y mod 2 ^ 7"
    by (simp add: take_bit_eq_mask [symmetric] take_bit_int_def)
  then have a: "y AND 127 = y" using y by (simp add: mask_eq_exp_minus_1)
  show "js_and (js_shr (Num b) 1) (Num 127) = Num (b div 2)"
    using y by (simp add: s js_and_def ToInt32_Num_small a y_def [symmetric] del: One_nat_def)
  show "js_or (Num (b div 2)) (Num 128) = Num (b div 2 + 128)"
    using y by (simp add: js_or_def ToInt32_Num_small or_128 y_def [symmetric])
  show "js_or (Num (b div 2)) (Num 0) = Num (b div 2)"
    using y by (simp add: js_or_def ToInt32_Num_small y_def [symmetric])
  show "b div 2 < 128" "b div 2 < 256" using y by (simp_all add: y_def)
qed

lemma Z_memory_ops_Z:
  "\<forall>(n, arm, ea, f) \<in> set Z_memory_ops. \<forall>a b.
      ea r = Num a \<and> mem r (Num a) = Num b \<and> 0 \<le> b \<and> b < 256 \<longrightarrow>
        (P_Z (arm r) \<longleftrightarrow> f b (if P_C r then 1 else 0) = 0)
        \<and> mem (arm r) = mem (writeByte (Num (f b (if P_C r then 1 else 0))) (Num a) r)
        \<and> 0 \<le> f b (if P_C r then 1 else 0) \<and> f b (if P_C r then 1 else 0) < 256"
  unfolding Z_memory_ops_def
  apply (simp only: list.set ball_simps case_prod_conv)
  apply (intro conjI allI impI)
  apply (simp_all add: Z_memory_arm_defs Let_def read_def Z_do_INC Z_do_DEC Z_do_ASL
      Z_do_ROL Z_do_ROR shl_byte rol_value ror_value js_and_Num_255 del: One_nat_def)
  done

lemma byte_diff_zero:
  fixes x y :: int
  assumes "0 \<le> x" "x < 256" "0 \<le> y" "y < 256"
  shows "(x - y) mod 256 = 0 \<longleftrightarrow> x - y = 0"
proof
  assume "(x - y) mod 256 = 0"
  then have "256 dvd (x - y)" by (simp add: dvd_eq_mod_eq_0)
  then obtain k where k: "x - y = 256 * k" by (auto simp add: dvd_def)
  have "- 256 < 256 * k" "256 * k < 256" using assms k by linarith+
  then have "k = 0" by linarith
  then show "x - y = 0" using k by simp
next
  assume "x - y = 0" then show "(x - y) mod 256 = 0" by simp
qed

lemma Z_do_CMP: "P_Z (do_CMP b s) \<longleftrightarrow> js_sub (MPU_A s) b = Num 0"
  by (simp add: do_CMP_def Let_def)

lemma Z_do_CPXY: "P_Z (do_CPXY v m s) \<longleftrightarrow> js_sub v m = Num 0"
  by (simp add: do_CPXY_def Let_def)

lemma Z_do_BIT: "P_Z (do_BIT m s) \<longleftrightarrow> js_and (MPU_A s) m = Num 0"
  by (simp add: do_BIT_def Let_def)

lemma Z_compare_ops_Z:
  "\<forall>(n, arm, reg, m) \<in> set Z_compare_ops. \<forall>x y. reg r = Num x \<and> m r = Num y
        \<and> 0 \<le> x \<and> x < 256 \<and> 0 \<le> y \<and> y < 256
      \<longrightarrow> (P_Z (arm r) \<longleftrightarrow> (x - y) mod 256 = 0)"
  by (simp add: Z_compare_ops_def Z_compare_arm_defs Let_def Z_do_CMP Z_do_CPXY byte_diff_zero)

lemma Z_bit_ops_Z:
  "\<forall>(n, arm, m) \<in> set Z_bit_ops. \<forall>x y. MPU_A r = Num x \<and> m r = Num y
        \<and> 0 \<le> x \<and> x < 256 \<and> 0 \<le> y \<and> y < 256
      \<longrightarrow> (P_Z (arm r) \<longleftrightarrow> x AND y = 0)"
  by (simp add: Z_bit_ops_def Z_bit_arm_defs Let_def Z_do_BIT js_and_def ToInt32_Num_small)

lemma Z_do_ADC:
  "P_Z (do_ADC b s) \<longleftrightarrow> js_and (js_add (js_add (MPU_A s) b) (carry_in s)) (Num 255) = Num 0"
  by (simp add: do_ADC_def Let_def frame)

lemma A_do_ADC_binary:
  "\<not> P_D s \<Longrightarrow> MPU_A (do_ADC b s) = js_and (js_add (js_add (MPU_A s) b) (carry_in s)) (Num 255)"
  by (simp add: do_ADC_def Let_def frame)

lemma executeInstruction_BRK_deferred:
  assumes "memory s = MemoryObject" "\<not> js_ge (PC s) (Num (mem_length s))"
    and "opcode s = Num 0x00" "\<not> debugOn s"
  shows "executeInstruction s =
     Inr (False, (refresh_random s)\<lparr>memory := MemoryPrimitive (js_add (PC (refresh_random s)) (Num 2)),
                    instructionTimer := TimerNull,
                    timeouts := Suc (timeouts (refresh_random s))\<rparr>)"
proof -
  let ?r = "refresh_random s"
  let ?b = "?r\<lparr>memory := MemoryPrimitive (js_add (PC ?r) (Num 2))\<rparr>"
  have o: "read (PC ?r) ?r = Num 0" using assms(3) by (simp add: opcode_def)
  have E: "executeInstruction s =
             (case brkInterrupt ?b of Inl err \<Rightarrow> Inl err | Inr s2 \<Rightarrow> Inr (False, s2))"
    using assms(1,2) o by (subst executeInstruction.simps) (simp add: Let_def)
  have D: "debugOn ?r = debugOn s" by (simp add: frame)
  have B: "brkInterrupt ?b = Inr (?b\<lparr>instructionTimer := TimerNull, timeouts := Suc (timeouts ?r)\<rparr>)"
    using assms(4) by (subst brkInterrupt.simps) (simp add: Let_def D)
  show ?thesis by (simp add: E B)
qed

lemma arm_z_demo:
  "map_of arms 0xa9 = Some (\<lambda>s. (True, LDA_Immediate s))"
  "map_of arms 0xf8 = Some (\<lambda>s. (True, SED s))"
  "map_of arms 0x18 = Some (\<lambda>s. (True, CLC s))"
  by (simp_all add: arms_def)

lemma z_demo_facts:
  "memory z_demo = MemoryObject" "PC z_demo = Num 0x800" "mem_length z_demo = 65536"
  "opcode z_demo = Num 0xa9" "operand (refresh_random z_demo) = Num 0x99"
  "flags z_demo = Num 0x24" "\<not> debugOn z_demo"
  "mem z_demo (Num 0x802) = Num 0xf8" "mem z_demo (Num 0x803) = Num 0x18"
  "mem z_demo (Num 0x804) = Num 0x69" "mem z_demo (Num 0x805) = Num 0x01"
  "mem z_demo (Num 0x806) = Num 0x00"
  by (simp_all add: z_demo_def power_on_eq opcode_def mem_eval)

lemmas z_eval = z_demo_def power_on_eq opcode_def mem_eval js_eval LDA_Immediate_def SED_def
  CLC_def ADC_Immediate_def do_LDA_def incPC_def setZN_def setBit_def clearBit_def

lemma z_demo_1:
  defines "s1 \<equiv> LDA_Immediate (refresh_random z_demo)"
  shows "memory s1 = MemoryObject" "PC s1 = Num 0x802" "mem_length s1 = 65536"
    "opcode s1 = Num 0xf8" "flags s1 = Num 0xa4" "MPU_A s1 = Num 0x99" "\<not> debugOn s1"
  by (simp_all add: s1_def z_eval)

lemma z_demo_2:
  defines "s2 \<equiv> SED (refresh_random (LDA_Immediate (refresh_random z_demo)))"
  shows "memory s2 = MemoryObject" "PC s2 = Num 0x803" "mem_length s2 = 65536"
    "opcode s2 = Num 0x18" "flags s2 = Num 0xac" "MPU_A s2 = Num 0x99" "\<not> debugOn s2"
  by (simp_all add: s2_def z_eval)

lemma z_demo_3:
  defines "s3 \<equiv> CLC (refresh_random (SED (refresh_random (LDA_Immediate (refresh_random z_demo)))))"
  shows "memory s3 = MemoryObject" "PC s3 = Num 0x804" "mem_length s3 = 65536"
    "opcode s3 = Num 0x69" "flags s3 = Num 0xac" "MPU_A s3 = Num 0x99" "\<not> debugOn s3"
    "operand (refresh_random s3) = Num 0x01"
  by (simp_all add: s3_def z_eval)

lemma z_demo_4:
  defines "s4 \<equiv> ADC_Immediate (refresh_random (CLC (refresh_random (SED (refresh_random (LDA_Immediate (refresh_random z_demo)))))))"
  shows "memory s4 = MemoryObject" "PC s4 = Num 0x806" "mem_length s4 = 65536"
    "opcode s4 = Num 0x00" "flags s4 = Num 0xad" "MPU_A s4 = Num 0x00" "\<not> debugOn s4"
  by (simp_all add: s4_def z_eval do_ADC_def carry_in_def getTwosComplement_def P_D_def P_C_def
      flag_get_def)

lemma Z_ops_registers:
  "\<forall>(n, arm, reg, m) \<in> set Z_compare_ops. reg (refresh_random s) = reg s"
  by (simp add: Z_compare_ops_def frame)

lemma Z_register_ops_arms:
  "\<forall>(n, arm, reg) \<in> set Z_register_ops. map_of arms n = Some (\<lambda>s. (True, arm s)) \<and> n \<noteq> 0"
  by (simp add: Z_register_ops_def arms_def)

lemma Z_memory_ops_arms:
  "\<forall>(n, arm, ea, f) \<in> set Z_memory_ops. map_of arms n = Some (\<lambda>s. (True, arm s)) \<and> n \<noteq> 0"
  by (simp add: Z_memory_ops_def arms_def)

lemma Z_compare_ops_arms:
  "\<forall>(n, arm, reg, m) \<in> set Z_compare_ops. map_of arms n = Some (\<lambda>s. (True, arm s)) \<and> n \<noteq> 0"
  by (simp add: Z_compare_ops_def arms_def)

lemma Z_bit_ops_arms:
  "\<forall>(n, arm, m) \<in> set Z_bit_ops. map_of arms n = Some (\<lambda>s. (True, arm s)) \<and> n \<noteq> 0"
  by (simp add: Z_bit_ops_def arms_def)


lemma Z_demo_members:
  "(0xa9, LDA_Immediate, MPU_A) \<in> set Z_register_ops"
  "(0xee, INC_Absolute, Absolute, \<lambda>b c. (b + 1) mod 256) \<in> set Z_memory_ops"
  "(0xc9, CMP_Immediate, MPU_A, operand) \<in> set Z_compare_ops"
  "(0x24, BIT_Zero_Page, \<lambda>r. read (operand r) r) \<in> set Z_bit_ops"
  by (simp_all add: Z_register_ops_def Z_memory_ops_def Z_compare_ops_def Z_bit_ops_def)

lemma inc_demo_facts:
  "memory inc_demo = MemoryObject" "PC inc_demo = Num 0x800" "mem_length inc_demo = 65536"
  "opcode inc_demo = Num 0xee" "Absolute (refresh_random inc_demo) = Num 0x6b1"
  "mem (refresh_random inc_demo) (Num 0x6b1) = Num 0x00"
  by (simp_all add: inc_demo_def power_on_eq opcode_def mem_eval js_eval)

lemma cmp_demo_facts:
  "memory cmp_demo = MemoryObject" "PC cmp_demo = Num 0x800" "mem_length cmp_demo = 65536"
  "opcode cmp_demo = Num 0xc9" "operand (refresh_random cmp_demo) = Num 0x00"
  "MPU_A cmp_demo = Num 0x00"
  by (simp_all add: cmp_demo_def power_on_eq opcode_def mem_eval)

lemma bit_demo_facts:
  "memory bit_demo = MemoryObject" "PC bit_demo = Num 0x800" "mem_length bit_demo = 65536"
  "opcode bit_demo = Num 0x24" "read (operand (refresh_random bit_demo)) (refresh_random bit_demo) = Num 0x0f"
  "MPU_A bit_demo = Num 0x00"
  by (simp_all add: bit_demo_def power_on_eq opcode_def mem_eval)



text \<open>
  The two instructions left aside.  \<open>LSR\<close> on a memory operand tests the byte it has
  read, \<open>(b == 0)\<close>, not the byte it writes: for \<open>b = 1\<close> the cell becomes 0 and Z stays
  clear.  \<open>SBC\<close> calls \<open>P.setZN(binary_diff)\<close> on the difference before it is cut to a
  byte: for \<open>A = 0\<close>, operand \<open>$FF\<close> and C clear the difference is \<open>-256\<close>, so \<open>A\<close> becomes 0
  and Z stays clear.
\<close>

lemma Z_do_LSR: "P_Z (do_LSR addr b s) \<longleftrightarrow> b = Num 0"
  by (simp add: do_LSR_def Let_def)

lemma Z_do_SBC:
  "P_Z (do_SBC b s) \<longleftrightarrow> js_sub (js_sub (MPU_A s) b) (borrow_in s) = Num 0"
  by (simp add: do_SBC_def Let_def)

lemma Z_do_LSR_one:
  "\<not> P_Z (do_LSR (Num 0x10) (Num 1) power_on)
   \<and> mem (do_LSR (Num 0x10) (Num 1) power_on) (Num 0x10) = Num 0"
  by (simp add: do_LSR_def Let_def mem_eval js_eval setBit_def clearBit_def power_on_eq
      P_Z_def flag_get_def)

lemma Z_do_SBC_borrow:
  "\<not> P_Z (do_SBC (Num 0xff) (power_on\<lparr>flags := Num 0x24\<rparr>))
   \<and> MPU_A (do_SBC (Num 0xff) (power_on\<lparr>flags := Num 0x24\<rparr>)) = Num 0"
  by (simp add: do_SBC_def Let_def borrow_in_def P_C_def P_D_def P_Z_def flag_get_def
      js_eval setBit_def clearBit_def setZN_def getTwosComplement_def power_on_eq)

section \<open>The assembler's literals and conversions\<close>

lemma digit_value_cases:
  assumes "digit_value c = Some d"
  shows "c \<in> set ''0123456789abcdefABCDEF''" "d < 16"
  using assms by (auto simp add: digit_value_def split: if_splits)

lemma is_digit_char:
  assumes "is_digit r c"
  shows "c \<in> set ''0123456789abcdefABCDEF''"
  using assms digit_value_cases(1) [of c] by (auto simp add: is_digit_def split: option.splits)

lemma is_digit_plain:
  assumes "is_digit r c"
  shows "\<not> white_space c" "c \<noteq> CHR ''-''" "c \<noteq> CHR ''+''" "c \<noteq> CHR ''x''" "c \<noteq> CHR ''X''"
    "c \<noteq> CHR ''$''" "c \<noteq> CHR ''%''" "c \<noteq> CHR ''#''" "c \<noteq> CHR ''(''" "c \<noteq> CHR ''<''"
    "c \<noteq> CHR ''>''"
  using is_digit_char [OF assms] by (auto simp add: white_space_def)

lemma safe_neg [simp]: "safe (- n) = safe n"
  by (auto simp add: safe_def)

lemma exact_Num: "safe n \<Longrightarrow> exact (Num n) = Inr (Num n)"
  by (simp add: exact_def)

lemma exact_Inr: "exact v = Inr w \<Longrightarrow> w = v \<and> (\<forall>n. v = Num n \<longrightarrow> safe n)"
  by (auto simp add: exact_def split: jsval.splits if_splits)

lemma parseInt_safe: "parseInt str r = Inr (Num n) \<Longrightarrow> safe n"
  by (auto simp add: parseInt_def Let_def dest: exact_Inr split: if_splits)

lemma convertValue_safe: "convertValue constants labels v = Inr (Num n) \<Longrightarrow> safe n"
  by (auto simp add: convertValue_def Let_def dest: exact_Inr parseInt_safe
      split: option.splits label_entry.splits const_entry.splits sum.splits if_splits)

lemma convertValue_constant_safe:
  "convertValue_constant constants labels s = Inr (Num n) \<Longrightarrow> safe n"
  by (auto simp add: convertValue_constant_def dest: exact_Inr convertValue_safe
      split: option.splits label_entry.splits const_entry.splits)

lemma parseInt_digits:
  assumes "ds \<noteq> []" "list_all (is_digit r) ds"
  shows "parseInt ds r = exact (Num (digits_value r ds))"
proof -
  obtain c cs where ds: "ds = c # cs" using assms(1) by (cases ds) auto
  have c: "is_digit r c" using assms(2) ds by simp
  note p = is_digit_plain [OF c]
  have x: "take 2 ds \<noteq> ''0x''" "take 2 ds \<noteq> ''0X''"
  proof -
    { fix y assume "take 2 ds = [CHR ''0'', y]"
      then have "cs \<noteq> []" "hd cs = y" using ds by (cases cs; simp)+
      then have "is_digit r y" using assms(2) ds by (cases cs) auto }
    then show "take 2 ds \<noteq> ''0x''" "take 2 ds \<noteq> ''0X''"
      using is_digit_plain(4,5) by blast+
  qed
  have t: "takeWhile (is_digit r) ds = ds"
    using assms(2) by (simp add: takeWhile_eq_all_conv list_all_iff)
  have d: "dropWhile white_space ds = ds" using p(1) ds by simp
  have s: "take 1 ds \<noteq> ''-''" "take 1 ds \<noteq> ''+''" using p(2,3) ds by simp_all
  show ?thesis
    unfolding parseInt_def Let_def d
    using s x assms(1) by (simp add: t)
qed

lemma and_65535: "(x::int) AND 65535 = x mod 65536"
proof -
  have "x AND mask 16 = x mod 2 ^ 16"
    by (simp add: take_bit_eq_mask [symmetric] take_bit_int_def)
  then show ?thesis by (simp add: mask_eq_exp_minus_1)
qed

lemma ToInt32_mod_65536: "ToInt32 (Num n) mod 65536 = n mod 65536"
proof -
  have "take_bit 16 (signed_take_bit 31 n) = take_bit 16 n"
    by (rule take_bit_signed_take_bit) simp
  then show ?thesis by (simp add: ToInt32_def take_bit_int_def)
qed

lemma js_and_Num_65535: "js_and (Num n) (Num 65535) = Num (n mod 65536)"
  by (simp add: js_and_def ToInt32_Num_small and_65535 ToInt32_mod_65536)

lemma is_literal_cases:
  assumes "is_literal i"
  obtains (hex) h where "i = CHR ''$'' # h" "h \<noteq> []" "list_all (is_digit 16) h"
  | (bin) b where "i = CHR ''%'' # b" "b \<noteq> []" "list_all (is_digit 2) b"
  | (dec) "i \<noteq> []" "list_all (is_digit 10) i" "take 1 i \<noteq> ''$''" "take 1 i \<noteq> ''%''"
      "take 1 i \<noteq> ''<''" "take 1 i \<noteq> ''>''" "take 1 i \<noteq> ''#''" "take 1 i \<noteq> ''(''"
proof (cases i)
  case Nil
  then show ?thesis using assms by (simp add: is_literal_def)
next
  case (Cons c cs)
  show ?thesis
  proof (cases "c = CHR ''$''")
    case True
    then show ?thesis using assms Cons hex by (simp add: is_literal_def)
  next
    case False
    note nd = this
    show ?thesis
    proof (cases "c = CHR ''%''")
      case True
      then show ?thesis using assms Cons bin by (simp add: is_literal_def)
    next
      case False
      have a: "list_all (is_digit 10) i" using assms Cons nd False by (simp add: is_literal_def)
      then have "is_digit 10 c" using Cons by simp
      from is_digit_plain [OF this] Cons a show ?thesis by (intro dec) simp_all
    qed
  qed
qed

lemma literal_value_parse:
  assumes "is_literal i"
  shows "parseInt (if take 1 i = ''$'' \<or> take 1 i = ''%'' then drop 1 i else i) (literal_radix i)
           = exact (Num (literal_value i))"
  using assms
proof (cases rule: is_literal_cases)
  case (hex h)
  then show ?thesis by (simp add: literal_radix_def literal_value_def parseInt_digits)
next
  case (bin b)
  then show ?thesis by (simp add: literal_radix_def literal_value_def parseInt_digits)
next
  case dec
  then show ?thesis by (simp add: literal_radix_def literal_value_def parseInt_digits)
qed

lemma literal_prefix_literal:
  assumes "is_literal i"
  shows "literal_prefix i = Some i"
  using assms
proof (cases rule: is_literal_cases)
  case (hex h)
  have t: "takeWhile (is_digit 16) h = h"
    using hex(3) by (simp add: takeWhile_eq_all_conv list_all_iff)
  show ?thesis using hex(1,2) by (simp add: literal_prefix_def t)
next
  case (bin b)
  have t: "takeWhile (is_digit 2) b = b"
    using bin(3) by (simp add: takeWhile_eq_all_conv list_all_iff)
  show ?thesis using bin(1,2) by (simp add: literal_prefix_def t)
next
  case dec
  obtain c cs where i: "i = c # cs" using dec(1) by (cases i) auto
  have t: "takeWhile (is_digit 10) (c # cs) = c # cs"
    using dec(2) i by (simp add: takeWhile_eq_all_conv list_all_iff)
  have r: "(if take 1 i = ''#'' \<or> take 1 i = ''('' then drop 1 i else i) = i"
    using dec(7,8) by simp
  have c: "c \<noteq> CHR ''$''" "c \<noteq> CHR ''%''" using dec(3,4) i by simp_all
  show ?thesis
    unfolding literal_prefix_def Let_def r
    unfolding i list.case t
    using c by simp
qed

lemma convertValue_literal:
  assumes "is_literal r" "labels r = None" "constants r = None"
  shows "convertValue constants labels r = exact (Num (literal_value r))"
proof -
  have h: "take 1 r \<noteq> ''<''" "take 1 r \<noteq> ''>''"
    using assms(1) by (cases rule: is_literal_cases; simp)+
  have "convertValue constants labels r =
          (if take 1 r = ''$'' then parseInt (drop 1 r) 16
           else if take 1 r = ''%'' then parseInt (drop 1 r) 2
           else parseInt r 10)"
    using h assms(2,3)
    by (simp add: convertValue_def Let_def getHighLowByte_def literal_prefix_literal [OF assms(1)])
  then show ?thesis
    using literal_value_parse [OF assms(1)] by (simp add: literal_radix_def split: if_splits)
qed

lemma addValue_render:
  assumes "is_literal i" "safe (literal_value i)" "safe k" "safe (literal_value i + k)"
  shows "(if take 1 i = ''$'' then
            (case checked_add (parseInt (drop 1 i) 16) (parseInt_number (Num k)) of
               Inl e \<Rightarrow> Inl e
             | Inr t \<Rightarrow>
                 Inr (''$'' @ toString (js_and t (Num (if length i > 3 then 65535 else 255))) 16))
          else if take 1 i = ''%'' then
            (case checked_add (parseInt (drop 1 i) 2) (parseInt_number (Num k)) of
               Inl e \<Rightarrow> Inl e
             | Inr t \<Rightarrow>
                 Inr (''%'' @ toString (js_and t (Num (if length i > 9 then 65535 else 255))) 2))
          else
            (case parseInt i 10 of
               Inl e \<Rightarrow> Inl e
             | Inr p \<Rightarrow>
                 (case checked_add (Inr p) (parseInt_number (Num k)) of
                    Inl e \<Rightarrow> Inl e
                  | Inr t \<Rightarrow>
                      Inr (toString
                             (js_and t (Num (if js_gt p (Num 255) then 65535 else 255))) 10))))
         = (Inr (radix_prefix i @
                toString (Num ((literal_value i + k) mod (if written_wide i then 65536 else 256)))
                         (literal_radix i)) :: asm_error + string)"
  using assms(1)
proof (cases rule: is_literal_cases)
  case (hex h)
  have p: "parseInt h 16 = Inr (Num (literal_value (CHR ''$'' # h)))"
    using literal_value_parse [OF assms(1)] assms(2)
    by (simp add: hex(1) literal_radix_def exact_Num)
  show ?thesis
    using hex(1) assms(3,4)
    by (simp add: p radix_prefix_def literal_radix_def written_wide_def js_and_Num_255
        js_and_Num_65535 checked_add_def parseInt_number_def exact_Num)
next
  case (bin b)
  have p: "parseInt b 2 = Inr (Num (literal_value (CHR ''%'' # b)))"
    using literal_value_parse [OF assms(1)] assms(2)
    by (simp add: bin(1) literal_radix_def exact_Num)
  show ?thesis
    using bin(1) assms(3,4)
    by (simp add: p radix_prefix_def literal_radix_def written_wide_def js_and_Num_255
        js_and_Num_65535 checked_add_def parseInt_number_def exact_Num)
next
  case dec
  have p: "parseInt i 10 = Inr (Num (literal_value i))"
    using literal_value_parse [OF assms(1)] dec(3,4) assms(2)
    by (simp add: literal_radix_def exact_Num)
  show ?thesis
    using dec(3,4) assms(3,4)
    by (simp add: p radix_prefix_def literal_radix_def written_wide_def js_and_Num_255
        js_and_Num_65535 checked_add_def parseInt_number_def exact_Num)
qed

section \<open>What \<open>addValue\<close> returns\<close>

lemma addValue_offset:
  assumes "(case constants i0 of Some c \<Rightarrow> c | None \<Rightarrow> Text i0) = Text i" "is_literal i"
    and "sg = CHR ''+'' \<or> sg = CHR ''-''"
    and "is_literal r \<and> s = Text r
         \<or> \<not> is_literal r \<and> r \<noteq> [] \<and> list_all word_char r \<and> constants r = Some s"
    and "convertValue_constant constants labels s = Inr (Num n)"
    and "safe (literal_value i)"
    and "safe (literal_value i + (if sg = CHR ''-'' then - n else n))"
  shows "addValue constants labels i0 (Some (sg # r)) =
           Inr (radix_prefix i @
                toString (Num ((literal_value i + (if sg = CHR ''-'' then - n else n))
                               mod (if written_wide i then 65536 else 256)))
                         (literal_radix i))"
proof -
  define k where "k = (if sg = CHR ''-'' then - n else n)"
  have sn: "safe n" using convertValue_constant_safe [OF assms(5)] .
  have sk: "safe k" using sn by (simp add: k_def)
  have si: "safe (literal_value i + k)" using assms(7) by (simp add: k_def)
  have mo: "match_offset (sg # r) = Some (if is_literal r then (Some r, None) else (None, Some r))"
    using assms(3,4) by (auto simp add: match_offset_def)
  have cs: "\<not> is_literal r \<Longrightarrow> constants r = Some s" "is_literal r \<Longrightarrow> s = Text r"
    using assms(4) by auto
  have v: "n * (if sg = CHR ''-'' then - 1 else 1) = k"
    by (simp add: k_def)
  have "addValue constants labels i0 (Some (sg # r)) =
          (if take 1 i = ''$'' then
            (case checked_add (parseInt (drop 1 i) 16) (parseInt_number (Num k)) of
               Inl e \<Rightarrow> Inl e
             | Inr t \<Rightarrow>
                 Inr (''$'' @ toString (js_and t (Num (if length i > 3 then 65535 else 255))) 16))
          else if take 1 i = ''%'' then
            (case checked_add (parseInt (drop 1 i) 2) (parseInt_number (Num k)) of
               Inl e \<Rightarrow> Inl e
             | Inr t \<Rightarrow>
                 Inr (''%'' @ toString (js_and t (Num (if length i > 9 then 65535 else 255))) 2))
          else
            (case parseInt i 10 of
               Inl e \<Rightarrow> Inl e
             | Inr p \<Rightarrow>
                 (case checked_add (Inr p) (parseInt_number (Num k)) of
                    Inl e \<Rightarrow> Inl e
                  | Inr t \<Rightarrow>
                      Inr (toString
                             (js_and t (Num (if js_gt p (Num 255) then 65535 else 255))) 10))))"
    unfolding addValue_def assms(1) const_entry.case
    using assms(5) by (cases "is_literal r") (simp_all add: assms(2) mo cs v Let_def)
  then have 1: "addValue constants labels i0 (Some (sg # r)) =
           Inr (radix_prefix i @
                toString (Num ((literal_value i + k) mod (if written_wide i then 65536 else 256)))
                         (literal_radix i))"
    by (simp only: addValue_render [OF assms(2) assms(6) sk si])
  show ?thesis using 1 unfolding k_def .
qed

text \<open>
  C9.  Let the first operand, after the substitution of a constant, be a literal \<open>i\<close>, and
  let the second operand be a sign followed by a literal or by the name of a constant,
  whose conversion by \<open>convertValue\<close> gives the number \<open>n\<close>; let the number that \<open>i\<close>
  denotes and the sum (or difference) be of magnitude below \<open>2^53\<close>, the range in which
  the numbers of JavaScript are the integers.  Then \<open>addValue\<close> returns the prefix of \<open>i\<close>
  followed by the digits, in the radix of \<open>i\<close>, of the sum (or difference) reduced modulo
  \<open>65536\<close> when \<open>i\<close> is written wider than a byte and modulo \<open>256\<close> otherwise; the second
  operand plays no part in the choice of the width.  For a literal that is not the name
  of a label or of a constant, \<open>n\<close> is the number the literal denotes.
\<close>

theorem addValue_sum:
  assumes "(case constants i0 of Some c \<Rightarrow> c | None \<Rightarrow> Text i0) = Text i" "is_literal i"
    and "sg = CHR ''+'' \<or> sg = CHR ''-''"
    and "is_literal r \<and> s = Text r
         \<or> \<not> is_literal r \<and> r \<noteq> [] \<and> list_all word_char r \<and> constants r = Some s"
    and "convertValue_constant constants labels s = Inr (Num n)"
    and "safe (literal_value i)"
    and "safe (literal_value i + (if sg = CHR ''-'' then - n else n))"
  shows "addValue constants labels i0 (Some (sg # r)) =
           Inr (radix_prefix i @
                toString (Num ((literal_value i + (if sg = CHR ''-'' then - n else n))
                               mod (if written_wide i then 65536 else 256)))
                         (literal_radix i))
         \<and> (is_literal r \<and> labels r = None \<and> constants r = None \<longrightarrow> n = literal_value r)"
proof -
  have 1: "addValue constants labels i0 (Some (sg # r)) =
           Inr (radix_prefix i @
                toString (Num ((literal_value i + (if sg = CHR ''-'' then - n else n))
                               mod (if written_wide i then 65536 else 256)))
                         (literal_radix i))"
    using assms by (rule addValue_offset)
  have 2: "is_literal r \<and> labels r = None \<and> constants r = None \<longrightarrow> n = literal_value r"
  proof
    assume a: "is_literal r \<and> labels r = None \<and> constants r = None"
    then have "s = Text r" using assms(4) by auto
    then have "exact (Num (literal_value r)) = Inr (Num n)"
      using assms(5) a convertValue_literal [of r labels constants]
      by (simp add: convertValue_constant_def)
    from exact_Inr [OF this] show "n = literal_value r" by simp
  qed
  show ?thesis using 1 2 by (rule conjI)
qed

theorem addValue_sum_witness:
  "addValue demo_constants Map.empty ''K'' (Some ''-$1'') = Inr ''$1ff''
   \<and> addValue demo_constants Map.empty ''250'' (Some ''+K'') = Inr ''250''"
proof -
  have i: "(case demo_constants ''K'' of Some c \<Rightarrow> c | None \<Rightarrow> Text ''K'') = Text ''$0200''"
    "is_literal ''$0200''"
    "(case demo_constants ''250'' of Some c \<Rightarrow> c | None \<Rightarrow> Text ''250'') = Text ''250''"
    "is_literal ''250''"
    by code_simp+
  have r: "is_literal ''$1'' \<and> Text ''$1'' = Text ''$1''
           \<or> \<not> is_literal ''$1'' \<and> ''$1'' \<noteq> [] \<and> list_all word_char ''$1''
              \<and> demo_constants ''$1'' = Some (Text ''$1'')"
    "is_literal ''K'' \<and> Text ''$0200'' = Text ''K''
           \<or> \<not> is_literal ''K'' \<and> ''K'' \<noteq> [] \<and> list_all word_char ''K''
              \<and> demo_constants ''K'' = Some (Text ''$0200'')"
    by code_simp+
  have n: "convertValue_constant demo_constants Map.empty (Text ''$1'') = Inr (Num 1)"
    "convertValue_constant demo_constants Map.empty (Text ''$0200'') = Inr (Num 512)"
    by code_simp+
  have b: "safe (literal_value ''$0200'')"
    "safe (literal_value ''$0200'' + (if CHR ''-'' = CHR ''-'' then - 1 else 1))"
    "safe (literal_value ''250'')"
    "safe (literal_value ''250'' + (if CHR ''+'' = CHR ''-'' then - 512 else 512))"
    by code_simp+
  have e: "radix_prefix ''$0200'' @
             toString (Num ((literal_value ''$0200'' + (if CHR ''-'' = CHR ''-'' then - 1 else 1))
                            mod (if written_wide ''$0200'' then 65536 else 256)))
                      (literal_radix ''$0200'') = ''$1ff''"
    "radix_prefix ''250'' @
             toString (Num ((literal_value ''250'' + (if CHR ''+'' = CHR ''-'' then - 512 else 512))
                            mod (if written_wide ''250'' then 65536 else 256)))
                      (literal_radix ''250'') = ''250''"
    by code_simp+
  have 1: "addValue demo_constants Map.empty ''K'' (Some ''-$1'') = Inr ''$1ff''"
    using addValue_sum [OF i(1,2) _ r(1) n(1) b(1,2)] e(1) by simp
  have 2: "addValue demo_constants Map.empty ''250'' (Some ''+K'') = Inr ''250''"
    using addValue_sum [OF i(3,4) _ r(2) n(2) b(3,4)] e(2) by simp
  show ?thesis using 1 2 by simp
qed

text \<open>
  With \<open>$10\<close> as first operand the sum is reduced modulo 256 although the second operand,
  \<open>$100\<close>, exceeds \<open>$FF\<close>: the result is \<open>$10\<close>, where a reduction modulo 65536 would give
  \<open>$110\<close>.
\<close>

theorem addValue_width_of_first_operand:
  "addValue Map.empty Map.empty ''$10'' (Some ''+$100'') = Inr ''$10''
   \<and> convertValue Map.empty Map.empty ''$100'' = Inr (Num 0x100)
   \<and> ''$'' @ toString (Num ((0x10 + 0x100) mod 65536)) 16 = ''$110''"
  by code_simp

section \<open>Decimal text and two's complement\<close>

lemma digit_chars: "list_all (\<lambda>k. digit_value (''0123456789abcdef'' ! k) = Some k) [0..<16]"
  by code_simp

lemma digit_char_value:
  assumes "k < 16"
  shows "digit_value (''0123456789abcdef'' ! k) = Some k"
proof -
  have "k \<in> set [0..<16]" using assms by simp
  then show ?thesis using digit_chars unfolding list_all_iff by blast
qed

lemma digits_value_snoc:
  "digits_value r (ds @ [c]) =
     digits_value r ds * int r + int (case digit_value c of Some d \<Rightarrow> d | None \<Rightarrow> 0)"
  by (simp add: digits_value_def)

lemma digits_of_digits:
  assumes "2 \<le> r" "r \<le> 16"
  shows "list_all (is_digit r) (digits_of r n) \<and> digits_of r n \<noteq> []
         \<and> digits_value r (digits_of r n) = int n"
  using assms
proof (induction r n rule: digits_of.induct)
  case (1 radix n)
  show ?case
  proof (cases "n < radix")
    case True
    then have k: "n < 16" using 1(3) by simp
    have d: "digits_of radix n = [''0123456789abcdef'' ! n]"
      using True by (subst digits_of.simps) simp
    show ?thesis
      using True by (simp add: d is_digit_def digit_char_value [OF k] digits_value_def)
  next
    case False
    have m: "n mod radix < radix" "n mod radix < 16" using 1(2,3) by (auto intro: less_le_trans [OF mod_less_divisor])
    have d: "digits_of radix n = digits_of radix (n div radix) @ [''0123456789abcdef'' ! (n mod radix)]"
      using False 1(2) by (subst digits_of.simps) simp
    have ih: "list_all (is_digit radix) (digits_of radix (n div radix))"
      "digits_value radix (digits_of radix (n div radix)) = int (n div radix)"
      using 1(1) [OF _ 1(2,3)] False 1(2) by auto
    have "int (n div radix) * int radix + int (n mod radix) = int n"
      by (metis div_mult_mod_eq of_nat_add of_nat_mult)
    moreover have "is_digit radix (''0123456789abcdef'' ! (n mod radix))"
      using m(1) by (simp add: is_digit_def digit_char_value [OF m(2)])
    ultimately show ?thesis
      by (simp add: d ih digit_char_value [OF m(2)] digits_value_snoc)
  qed
qed

lemma decimal_string:
  assumes "0 \<le> t"
  shows "is_literal (toString (Num t) 10)" "literal_value (toString (Num t) 10) = t"
    "radix_prefix (toString (Num t) 10) = []" "literal_radix (toString (Num t) 10) = 10"
    "written_wide (toString (Num t) 10) \<longleftrightarrow> 255 < t"
proof -
  let ?d = "digits_of 10 (nat t)"
  have s: "toString (Num t) 10 = ?d" using assms by (simp add: toString_def)
  from digits_of_digits [of 10 "nat t"]
  have d: "list_all (is_digit 10) ?d" "?d \<noteq> []" "digits_value 10 ?d = int (nat t)" by simp_all
  obtain c cs where c: "?d = c # cs" using d(2) by (cases ?d) auto
  have "is_digit 10 c" using d(1) c by simp
  note p = is_digit_plain [OF this]
  show "is_literal (toString (Num t) 10)"
    unfolding s is_literal_def using d(1) p(6,7) by (simp add: c)
  show v: "literal_value (toString (Num t) 10) = t"
    unfolding s literal_value_def literal_radix_def using d(3) p(6,7) assms by (simp add: c)
  show "radix_prefix (toString (Num t) 10) = []"
    unfolding s radix_prefix_def using p(6,7) by (simp add: c)
  show "literal_radix (toString (Num t) 10) = 10"
    unfolding s literal_radix_def using p(6,7) by (simp add: c)
  have "take 1 (toString (Num t) 10) \<noteq> ''$''" "take 1 (toString (Num t) 10) \<noteq> ''%''"
    unfolding s using p(6,7) by (simp_all add: c)
  then show "written_wide (toString (Num t) 10) \<longleftrightarrow> 255 < t"
    unfolding written_wide_def v by simp
qed

lemma bit_128: "bit (128::int) n \<longleftrightarrow> n = 7"
  using bit_exp_iff [where ?'a = int, of 7 n] by simp

lemma or_bit7:
  fixes x :: int
  assumes "128 \<le> x" "x < 256"
  shows "x OR 128 = x"
proof -
  have "x div 2 ^ 7 = 1" using assms by simp
  then have b: "bit x 7" by (simp add: bit_iff_odd)
  show ?thesis
    by (rule bit_eqI) (auto simp add: bit_or_iff bit_128 b)
qed

lemma twos_complement_byte:
  assumes "- 128 \<le> d" "d < 0"
  shows "js_or (js_and (js_add (js_not (js_neg (Num d))) (Num 1)) (Num 0xff)) (Num 128)
           = Num (d mod 256)"
proof -
  have n: "js_not (Num (- d)) = Num (d - 1)"
    using assms by (simp add: js_not_def ToInt32_Num_small not_int_def)
  have r: "128 \<le> d mod 256" "d mod 256 < 256"
  proof -
    have "(d + 256) mod 256 = d + 256" using assms by (intro mod_pos_pos_trivial) simp_all
    then have "d mod 256 = d + 256" by simp
    then show "128 \<le> d mod 256" "d mod 256 < 256" using assms by simp_all
  qed
  have "js_or (Num (d mod 256)) (Num 128) = Num (d mod 256)"
    using r by (simp add: js_or_def ToInt32_Num_small or_bit7)
  then show ?thesis by (simp add: n js_and_Num_255)
qed

lemma digits_value_nonneg: "0 \<le> digits_value r ds"
proof (induction ds rule: rev_induct)
  case Nil
  show ?case by (simp add: digits_value_def)
next
  case (snoc c ds)
  then show ?case by (simp add: digits_value_snoc)
qed

lemma literal_value_nonneg: "0 \<le> literal_value i"
  by (simp add: literal_value_def digits_value_nonneg)

lemma digits_no_sign:
  assumes "list_all (is_digit k) h"
  shows "CHR ''+'' \<notin> set h" "CHR ''-'' \<notin> set h"
  using assms is_digit_plain(2,3) [of k] unfolding list_all_iff by blast+

lemma literal_no_sign:
  assumes "is_literal r"
  shows "CHR ''+'' \<notin> set r \<and> CHR ''-'' \<notin> set r"
  using assms
proof (cases rule: is_literal_cases)
  case (hex h)
  show ?thesis using digits_no_sign [OF hex(3)] by (simp add: hex(1))
next
  case (bin b)
  show ?thesis using digits_no_sign [OF bin(3)] by (simp add: bin(1))
next
  case dec
  show ?thesis using digits_no_sign [OF dec(2)] by simp
qed

lemma word_no_sign:
  assumes "list_all word_char r"
  shows "CHR ''+'' \<notin> set r" "CHR ''-'' \<notin> set r"
proof -
  have "\<not> word_char CHR ''+''" "\<not> word_char CHR ''-''"
    by (simp_all add: word_char_def)
  then show "CHR ''+'' \<notin> set r" "CHR ''-'' \<notin> set r"
    using assms unfolding list_all_iff by blast+
qed

lemma split_offset_none:
  assumes "CHR ''+'' \<notin> set lab" "CHR ''-'' \<notin> set lab"
  shows "split_offset lab = (lab, None)"
  using assms by (simp add: split_offset_def)

lemma cut_at_first:
  assumes "x \<notin> set lab"
  shows "takeWhile (\<lambda>c. c \<noteq> x) (lab @ x # r) = lab"
    "dropWhile (\<lambda>c. c \<noteq> x) (lab @ x # r) = x # r"
  using assms by (induction lab) auto

lemma split_offset_sign:
  assumes "CHR ''+'' \<notin> set lab" "CHR ''-'' \<notin> set lab" "CHR ''+'' \<notin> set r" "CHR ''-'' \<notin> set r"
    and "sg = CHR ''+'' \<or> sg = CHR ''-''"
  shows "split_offset (lab @ sg # r) = (lab, Some (sg # r))"
  using assms(5)
proof
  assume "sg = CHR ''+''"
  then show ?thesis by (simp add: split_offset_def cut_at_first [OF assms(1)])
next
  assume "sg = CHR ''-''"
  then show ?thesis using assms(1,3) by (simp add: split_offset_def cut_at_first [OF assms(2)])
qed

section \<open>The branch fixup\<close>

lemma branch_round:
  assumes "memory s = MemoryObject"
    and "split_offset opnd = (lab, off)" "labels lab = Some (Address t)" "safe t"
    and "addValue constants labels (toString (Num t) 10) off = Inr a"
    and "convertValue constants labels a = Inr (Num target)"
    and "safe addr" "safe (target - addr)" "safe (target - addr - 1)"
  shows "resolve_branch constants labels (addr, opnd) s =
           (if target - (addr + 1) < - 128 \<or> 127 < target - (addr + 1)
            then Inl (BranchOutOfRange opnd (Num (target - (addr + 1))))
            else Inr (writeByte (Num ((target - (addr + 1)) mod 256)) (Num addr) s))"
proof -
  define d where "d = target - (addr + 1)"
  have dd: "target - addr - 1 = d" by (simp add: d_def)
  have w: "memory_writeByte v (Num addr) s = Inr (writeByte v (Num addr) s)" for v
    using assms(1) by (simp add: memory_writeByte_def)
  have c: "checked_sub (checked_sub (Inr (Num target)) (exact (Num addr))) (Inr (Num 1))
             = Inr (Num d)"
    using assms(7,8,9) by (simp add: checked_sub_def exact_Num dd)
  have R: "resolve_branch constants labels (addr, opnd) s =
             (if 127 < d \<or> d < - 128 then Inl (BranchOutOfRange opnd (Num d))
              else Inr (writeByte
                     (if d < 0
                      then js_or (js_and (js_add (js_not (js_neg (Num d))) (Num 1)) (Num 0xff))
                                 (Num 128)
                      else Num d) (Num addr) s))"
    unfolding resolve_branch_def
    by (simp add: assms(2-6) label_toString_def Let_def c w del: js_neg.simps)
  show ?thesis
    unfolding d_def [symmetric]
  proof (cases "d < - 128 \<or> 127 < d")
    case True
    then show "resolve_branch constants labels (addr, opnd) s =
           (if d < - 128 \<or> 127 < d then Inl (BranchOutOfRange opnd (Num d))
            else Inr (writeByte (Num (d mod 256)) (Num addr) s))"
      unfolding R by auto
  next
    case False
    show "resolve_branch constants labels (addr, opnd) s =
           (if d < - 128 \<or> 127 < d then Inl (BranchOutOfRange opnd (Num d))
            else Inr (writeByte (Num (d mod 256)) (Num addr) s))"
    proof (cases "d < 0")
      case True
      then have "- 128 \<le> d" "d < 0" using False by simp_all
      from twos_complement_byte [OF this] show ?thesis
        unfolding R using False True by (simp del: js_neg.simps)
    next
      case n: False
      then have "d mod 256 = d" using False by simp
      then show ?thesis unfolding R using False n by simp
    qed
  qed
qed

lemma branch_target:
  assumes "\<forall>x. is_literal x \<longrightarrow> labels x = None \<and> constants x = None"
    and "0 \<le> t" "t < 2 ^ 52"
    and "case off of
           None \<Rightarrow> pl = None \<and> target = t
         | Some (sg, r, c) \<Rightarrow>
             pl = Some (sg # r) \<and> (sg = CHR ''+'' \<or> sg = CHR ''-'')
             \<and> (is_literal r \<and> c = r
                \<or> \<not> is_literal r \<and> r \<noteq> [] \<and> list_all word_char r
                  \<and> constants r = Some (Text c) \<and> is_literal c)
             \<and> literal_value c < 2 ^ 52
             \<and> target = (t + (if sg = CHR ''-'' then - literal_value c else literal_value c))
                          mod (if 255 < t then 65536 else 256)"
  shows "addValue constants labels (toString (Num t) 10) pl = Inr (toString (Num target) 10)"
    "convertValue constants labels (toString (Num target) 10) = Inr (Num target)"
    "0 \<le> target" "target < 2 ^ 52"
proof -
  let ?i = "toString (Num t) 10"
  note i = decimal_string [OF assms(2)]
  have ci: "constants ?i = None" "labels ?i = None" using assms(1) i(1) by simp_all
  have st: "safe t" using assms(2,3) by (simp add: safe_def)
  have g: "addValue constants labels ?i pl = Inr (toString (Num target) 10)
           \<and> 0 \<le> target \<and> target < 2 ^ 52"
  proof (cases off)
    case None
    then have "pl = None" "target = t" using assms(4) by simp_all
    then show ?thesis using i(1) ci(1) assms(2,3) by (simp add: addValue_def)
  next
    case (Some q)
    obtain sg r c where q: "q = (sg, r, c)" by (cases q)
    have h: "pl = Some (sg # r)" "sg = CHR ''+'' \<or> sg = CHR ''-''"
      "is_literal r \<and> c = r
       \<or> \<not> is_literal r \<and> r \<noteq> [] \<and> list_all word_char r
         \<and> constants r = Some (Text c) \<and> is_literal c"
      "literal_value c < 2 ^ 52"
      "target = (t + (if sg = CHR ''-'' then - literal_value c else literal_value c))
                  mod (if 255 < t then 65536 else 256)"
      using assms(4) Some q by simp_all
    have lc: "is_literal c" using h(3) by auto
    have sc: "safe (literal_value c)"
      using h(4) literal_value_nonneg [of c] by (simp add: safe_def)
    have cc: "labels c = None" "constants c = None" using assms(1) lc by simp_all
    have cv: "convertValue_constant constants labels (Text c) = Inr (Num (literal_value c))"
      using convertValue_literal [of c labels constants, OF lc cc] sc by (simp add: convertValue_constant_def exact_Num)
    have s: "is_literal r \<and> Text c = Text r
             \<or> \<not> is_literal r \<and> r \<noteq> [] \<and> list_all word_char r
               \<and> constants r = Some (Text c)"
      using h(3) by auto
    have i0: "(case constants ?i of Some c \<Rightarrow> c | None \<Rightarrow> Text ?i) = Text ?i"
      by (simp add: ci(1))
    have ss: "safe (literal_value ?i)"
      "safe (literal_value ?i + (if sg = CHR ''-'' then - literal_value c else literal_value c))"
      using assms(2,3) h(4) literal_value_nonneg [of c] by (simp_all add: i(2) safe_def)
    have "addValue constants labels ?i (Some (sg # r)) = Inr (toString (Num target) 10)"
      using addValue_offset [OF i0 i(1) h(2) s cv ss]
      by (simp add: i(2,3,4,5) h(5))
    moreover have "0 \<le> target" "target < 2 ^ 52"
    proof -
      define W :: int where "W = (if 255 < t then 65536 else 256)"
      have W: "0 < W" "W \<le> 65536" by (simp_all add: W_def)
      have b: "(65536 :: int) < 2 ^ 52" by simp
      have m: "0 \<le> x mod W" "x mod W < W" for x using W(1) by simp_all
      show "0 \<le> target" unfolding h(5) W_def [symmetric] by (rule m(1))
      show "target < 2 ^ 52" unfolding h(5) W_def [symmetric] using m(2) W(2) b
        by (meson less_le_trans less_trans)
    qed
    ultimately show ?thesis using h(1) by simp
  qed
  then show "addValue constants labels ?i pl = Inr (toString (Num target) 10)"
    "0 \<le> target" "target < 2 ^ 52" by simp_all
  from g have tg: "0 \<le> target" "safe target" by (simp_all add: safe_def)
  note a = decimal_string [OF tg(1)]
  have "labels (toString (Num target) 10) = None" "constants (toString (Num target) 10) = None"
    using assms(1) a(1) by simp_all
  from convertValue_literal [of "toString (Num target) 10" labels constants, OF a(1) this]
  show "convertValue constants labels (toString (Num target) 10) = Inr (Num target)"
    using tg(2) by (simp add: a(2) exact_Num)
qed


lemma demo_names:
  "\<forall>x. is_literal x \<longrightarrow> demo_labels x = None \<and> demo_constants x = None"
proof (intro allI impI)
  fix x
  assume l: "is_literal x"
  have "\<not> is_literal ''LOOP''" "\<not> is_literal ''FAR''" "\<not> is_literal ''K''" by code_simp+
  then have "x \<noteq> ''LOOP''" "x \<noteq> ''FAR''" "x \<noteq> ''K''" using l by auto
  then show "demo_labels x = None \<and> demo_constants x = None"
    by (simp add: demo_labels_def demo_constants_def)
qed


text \<open>
  The label \<open>Z\<close> is at \<open>$F0\<close>, and a branch at \<open>$F1\<close>, whose operand byte is at \<open>$F2\<close>, has
  the operand \<open>Z+$20\<close>.  The target \<open>$F0 + $20 = $110\<close> is 29 bytes after \<open>$F3\<close>, within
  reach; but \<open>addValue\<close> reduces the sum modulo 256 because the address of \<open>Z\<close> is not
  above 255, the distance is computed from \<open>$10\<close>, and the round throws
  \<open>branchOutOfRange\<close> with the distance \<open>-227\<close>.
\<close>

theorem branch_offset_from_page_zero_label:
  "resolve_branch Map.empty zero_page_labels (0xf2, ''Z+$20'') power_on
     = Inl (BranchOutOfRange ''Z+$20'' (Num (- 227)))
   \<and> error_num (BranchOutOfRange ''Z+$20'' (Num (- 227))) = Some 3
   \<and> zero_page_labels ''Z'' = Some (Address 0xf0)
   \<and> literal_value ''$20'' = 0x20
   \<and> (0xf0 + 0x20) - (0xf2 + 1) = (29 :: int)"
proof -
  have m: "memory power_on = MemoryObject" by (simp add: power_on_eq)
  have c: "split_offset ''Z+$20'' = (''Z'', Some ''+$20'')"
    "zero_page_labels ''Z'' = Some (Address 0xf0)"
    "addValue Map.empty zero_page_labels (toString (Num 0xf0) 10) (Some ''+$20'') = Inr ''16''"
    "convertValue Map.empty zero_page_labels ''16'' = Inr (Num 16)"
    "literal_value ''$20'' = 0x20"
    by code_simp+
  have s: "safe 0xf0" "safe 0xf2" "safe (16 - 0xf2)" "safe (16 - 0xf2 - 1)"
    by (simp_all add: safe_def)
  have "resolve_branch Map.empty zero_page_labels (0xf2, ''Z+$20'') power_on
          = Inl (BranchOutOfRange ''Z+$20'' (Num (- 227)))"
    using branch_round [OF m c(1,2) s(1) c(3,4) s(2,3,4)] by simp
  then show ?thesis using c(2,5) by simp
qed

end
